theory Spec2Isabelle
  imports Main "HOL-Library.Word"
begin

section \<open>Go values the syncer handles\<close>

subsection \<open>time.Time, time.Duration, time.Location\<close>

text \<open>
  A \<open>time.Location\<close> is a zone table: the offset (seconds east of UTC) in force before the
  first transition, and the transitions in ascending order, each an instant (Unix seconds)
  with the offset in force from it on. \<open>UTC\<close> and every fixed-offset zone have no
  transition.
\<close>

record Location =
  loc_initial :: int
  loc_transitions :: "(int \<times> int) list"

definition UTC :: Location where
  "UTC = \<lparr>loc_initial = 0, loc_transitions = []\<rparr>"

definition FixedZone :: "int \<Rightarrow> Location" where
  "FixedZone off = \<lparr>loc_initial = off, loc_transitions = []\<rparr>"

text \<open>
  A \<open>time.Time\<close> is an instant (nanoseconds since the Unix epoch; Go's seconds-plus-nanoseconds
  representation does not overflow in any range the program meets, hence \<open>int\<close>) and the
  location it is presented in. \<open>After\<close>, \<open>Before\<close> and \<open>Equal\<close> compare instants only.
\<close>

record Time =
  unixNano :: int
  loc :: Location

type_synonym Duration = int

definition Nanosecond :: Duration where "Nanosecond = 1"
definition Millisecond :: Duration where "Millisecond = 1000000"
definition Second :: Duration where "Second = 1000000000"
definition Minute :: Duration where "Minute = 60 * Second"
definition Hour :: Duration where "Hour = 60 * Minute"

definition After :: "Time \<Rightarrow> Time \<Rightarrow> bool" where
  "After t u = (unixNano u < unixNano t)"

definition Before :: "Time \<Rightarrow> Time \<Rightarrow> bool" where
  "Before t u = (unixNano t < unixNano u)"

definition Equal :: "Time \<Rightarrow> Time \<Rightarrow> bool" where
  "Equal t u = (unixNano t = unixNano u)"

definition Add :: "Time \<Rightarrow> Duration \<Rightarrow> Time" where
  "Add t d = t\<lparr>unixNano := unixNano t + d\<rparr>"

text \<open>\<open>t.Sub(u)\<close> is a Duration, an int64: it saturates at the ends of the int64 range.\<close>

definition maxDuration :: Duration where "maxDuration = 2 ^ 63 - 1"
definition minDuration :: Duration where "minDuration = - (2 ^ 63)"

definition Sub :: "Time \<Rightarrow> Time \<Rightarrow> Duration" where
  "Sub t u = (let d = unixNano t - unixNano u in
     if d > maxDuration then maxDuration else if d < minDuration then minDuration else d)"

text \<open>Days from 1970-01-01 to a date of the proleptic Gregorian calendar.\<close>

definition days_from_civil :: "int \<Rightarrow> int \<Rightarrow> int \<Rightarrow> int" where
  "days_from_civil y m d =
     (let y' = (if m \<le> 2 then y - 1 else y);
          era = y' div 400;
          yoe = y' - era * 400;
          mp = (m + 9) mod 12;
          doy = (153 * mp + 2) div 5 + d - 1;
          doe = yoe * 365 + yoe div 4 - yoe div 100 + doy
      in era * 146097 + doe - 719468)"

text \<open>\<open>time.Date(y, m, d, hh, mm, ss, nsec, time.UTC)\<close>\<close>

definition Date_UTC :: "int \<Rightarrow> int \<Rightarrow> int \<Rightarrow> int \<Rightarrow> int \<Rightarrow> int \<Rightarrow> int \<Rightarrow> Time" where
  "Date_UTC y m d hh mm ss nsec =
     \<lparr>unixNano = (((days_from_civil y m d * 24 + hh) * 60 + mm) * 60 + ss) * 1000000000 + nsec,
      loc = UTC\<rparr>"

text \<open>The zero \<open>time.Time\<close> is January 1, year 1, 00:00:00 UTC.\<close>

definition IsZero :: "Time \<Rightarrow> bool" where
  "IsZero t = (unixNano t = unixNano (Date_UTC 1 1 1 0 0 0 0))"

subsection \<open>Dynamically typed column values\<close>

text \<open>
  A scanned column value is an \<open>interface{}\<close>. The variants are the cases the program's type
  switches tell apart. A floating-point number is its IEEE bit pattern, a
  \<open>decimal.Decimal\<close> its coefficient and exponent; a value of any other dynamic type is
  opaque and stands as a description of itself. Their renderings belong to the Go library.
\<close>

record decimal =
  coefficient :: int
  exponent :: int

datatype val =
    VNil
  | VTime Time
  | VString string
  | VBytes string
  | VInt int
  | VUint nat
  | VFloat32 "32 word"
  | VFloat64 "64 word"
  | VBool bool
  | VDecimal decimal
  | VOther string

text \<open>A row scanned into \<open>map[string]interface{}\<close>; indexing a missing key yields \<open>nil\<close>.\<close>

type_synonym row = "string \<rightharpoonup> val"

definition index :: "row \<Rightarrow> string \<Rightarrow> val" where
  "index record key = (case record key of None \<Rightarrow> VNil | Some v \<Rightarrow> v)"

subsection \<open>Library functions\<close>

text \<open>\<open>strings.Join\<close>, \<open>strings.Contains\<close>, \<open>fmt.Sprintf("%d")\<close>, \<open>fmt.Sprintf("%t")\<close>\<close>

fun Join :: "string list \<Rightarrow> string \<Rightarrow> string" where
  "Join [] sep = []"
| "Join [p] sep = p"
| "Join (p # q # ps) sep = p @ sep @ Join (q # ps) sep"

fun HasPrefix :: "string \<Rightarrow> string \<Rightarrow> bool" where
  "HasPrefix s [] = True"
| "HasPrefix [] (c # cs) = False"
| "HasPrefix (d # ds) (c # cs) = (d = c \<and> HasPrefix ds cs)"

fun Contains :: "string \<Rightarrow> string \<Rightarrow> bool" where
  "Contains [] sub = (sub = [])"
| "Contains (c # cs) sub = (HasPrefix (c # cs) sub \<or> Contains cs sub)"

definition digit_char :: "nat \<Rightarrow> char" where
  "digit_char d = char_of (48 + d)"

function dec_nat :: "nat \<Rightarrow> string" where
  "dec_nat n = (if n < 10 then [digit_char n] else dec_nat (n div 10) @ [digit_char (n mod 10)])"
  by pat_completeness auto
termination
  by (relation "measure id") auto

declare dec_nat.simps [simp del]

definition Sprintf_d :: "int \<Rightarrow> string" where
  "Sprintf_d i = (if i < 0 then CHR ''-'' # dec_nat (nat (- i)) else dec_nat (nat i))"

definition Sprintf_t :: "bool \<Rightarrow> string" where
  "Sprintf_t b = (if b then ''true'' else ''false'')"

text \<open>The value a string of decimal digits denotes, to read \<open>Sprintf_d\<close> back.\<close>

definition digits_value :: "string \<Rightarrow> nat" where
  "digits_value s = foldl (\<lambda>a c. 10 * a + (of_char c - 48)) 0 s"

definition is_digit :: "char \<Rightarrow> bool" where
  "is_digit c = (48 \<le> (of_char c :: nat) \<and> (of_char c :: nat) \<le> 57)"

subsection \<open>Time zones and local days\<close>

text \<open>
  \<open>lookup\<close> gives the zone in force at an instant (Unix seconds): its offset and the bounds
  of its span (\<open>None\<close> for a span open at that end).
\<close>

fun lookup_from :: "int \<Rightarrow> int option \<Rightarrow> (int \<times> int) list \<Rightarrow> int \<Rightarrow> int \<times> int option \<times> int option" where
  "lookup_from off since [] sec = (off, since, None)"
| "lookup_from off since ((at, off') # txs) sec =
     (if sec < at then (off, since, Some at) else lookup_from off' (Some at) txs sec)"

definition lookup :: "Location \<Rightarrow> int \<Rightarrow> int \<times> int option \<times> int option" where
  "lookup l sec = lookup_from (loc_initial l) None (loc_transitions l) sec"

text \<open>
  \<open>time.Date\<close> in a location, from the wall clock reading counted in seconds as if it were
  UTC. The library looks the zone up at that count, subtracts its offset, and looks up
  again only when the result falls outside the span of the zone found. Of a wall clock
  reading that occurs twice it can so return the earlier instant.
\<close>

definition Date_wall :: "Location \<Rightarrow> int \<Rightarrow> int \<Rightarrow> Time" where
  "Date_wall l unix nsec =
     (case lookup l unix of (offset, since, until) \<Rightarrow>
        let unix' =
          (if offset \<noteq> 0 then
             (let utc = unix - offset;
                  outside = ((case since of None \<Rightarrow> False | Some a \<Rightarrow> utc < a)
                             \<or> (case until of None \<Rightarrow> False | Some b \<Rightarrow> b \<le> utc));
                  offset' = (if outside then fst (lookup l utc) else offset)
              in unix - offset')
           else unix)
        in \<lparr>unixNano = unix' * 1000000000 + nsec, loc = l\<rparr>)"

text \<open>
  The local calendar day of a \<open>Time\<close>, as a count of days: what \<open>Year()\<close>, \<open>Month()\<close> and
  \<open>Day()\<close> together denote. \<open>time.Date\<close> of these three with a time of day reads them back
  to the same day count, so the model passes the count itself.
\<close>

definition local_day :: "Time \<Rightarrow> int" where
  "local_day t =
     (let sec = unixNano t div 1000000000 in (sec + fst (lookup (loc t) sec)) div 86400)"

text \<open>
  \<open>time.Date(t.Year(), t.Month(), t.Day(), 23, 59, 59, 999999999, t.Location())\<close>
\<close>

definition end_of_day :: "Time \<Rightarrow> Time" where
  "end_of_day t = Date_wall (loc t) (local_day t * 86400 + (23 * 3600 + 59 * 60 + 59)) 999999999"

section \<open>Data model\<close>

subsection \<open>Errors\<close>

text \<open>
  \<open>External\<close> is an error of a driver, the operating system or a library; \<open>Errorf\<close> a message
  made by \<open>fmt.Errorf\<close> without \<open>%w\<close>; \<open>Wrap\<close> one made with \<open>%w\<close>. A run-time panic is no
  error value: it unwinds through every caller, so \<open>Errorf_w\<close> leaves it as it is.
\<close>

datatype error =
    ErrSourceTableEmpty
  | ErrNoRows
  | External string
  | Errorf string
  | Wrap string error
  | Panic string

fun Is_ErrSourceTableEmpty :: "error \<Rightarrow> bool" where
  "Is_ErrSourceTableEmpty ErrSourceTableEmpty = True"
| "Is_ErrSourceTableEmpty (Wrap msg e) = Is_ErrSourceTableEmpty e"
| "Is_ErrSourceTableEmpty _ = False"

fun Errorf_w :: "string \<Rightarrow> error \<Rightarrow> error" where
  "Errorf_w msg (Panic p) = Panic p"
| "Errorf_w msg e = Wrap msg e"

subsection \<open>Segments and the checkpoint document\<close>

record TimeSegment =
  Start :: Time
  End :: Time

record TimeRange =
  range_Start :: Time
  range_End :: Time

text \<open>
  \<open>RecordsSynced\<close> is a Go \<open>int\<close>: 64 bits, addition wraps. \<open>Tables\<close> is a Go map, which may be
  \<open>nil\<close> (\<open>None\<close>): a document with \<open>"tables": null\<close> loads as one. Reading a nil map finds no
  entry; assigning to one panics.
\<close>

record TableState =
  Status :: string
  LastSyncedTime :: Time
  RecordsSynced :: "64 word"
  CompletedSegments :: "TimeSegment list"

record SyncState =
  RunID :: string
  StartTime :: Time
  LastUpdated :: Time
  Tables :: "(string \<rightharpoonup> TableState) option"

record StateManager =
  stateFile :: string
  syncState :: SyncState

definition zeroTime :: Time where
  "zeroTime = Date_UTC 1 1 1 0 0 0 0"

subsection \<open>Schema and configuration\<close>

record ColumnInfo =
  col_Name :: string
  col_Type :: string
  DefaultValue :: string
  IsNullable :: bool

record TableSchema =
  TableName :: string
  Columns :: "ColumnInfo list"
  OrderBy :: "string list"
  PartitionBy :: string
  Engine :: string

definition GetColumnNames :: "TableSchema \<Rightarrow> string list" where
  "GetColumnNames ts = map col_Name (Columns ts)"

definition HasColumn :: "TableSchema \<Rightarrow> string \<Rightarrow> bool" where
  "HasColumn ts columnName = list_ex (\<lambda>c. col_Name c = columnName) (Columns ts)"

text \<open>Of the configuration, the fields the syncer reads.\<close>

record TableConfig =
  table_Name :: string
  table_Mode :: string
  TimeField :: string
  DedupeKeys :: "string list"
  table_BatchSize :: int
  Enabled :: bool

record SyncConfig =
  sync_Mode :: string
  sync_BatchSize :: int
  DailySegmentation :: bool

record TimeRangeConfig =
  cfg_Start :: string
  cfg_End :: string
  AutoDetect :: bool
  FallbackDays :: int

record Config =
  Sync :: SyncConfig
  TimeRange :: TimeRangeConfig

definition GetEffectiveBatchSize :: "TableConfig \<Rightarrow> int \<Rightarrow> int" where
  "GetEffectiveBatchSize tc globalBatchSize =
     (if table_BatchSize tc > 0 then table_BatchSize tc else globalBatchSize)"

subsection \<open>Deduplicator and syncer\<close>

record Deduplicator =
  dedupeKeys :: "string list"
  timeField :: string

text \<open>
  The syncer. Its database handles and its state manager are parts of the world it runs
  in; \<open>colTypeMap\<close> maps a column name to its type.
\<close>

record UniversalSyncer =
  tableName :: string
  tableConfig :: TableConfig
  tableSchema :: TableSchema
  config :: Config
  deduplicator :: Deduplicator
  colTypeMap :: "string \<rightharpoonup> string"
  skipCheckpoint :: bool

subsection \<open>Queries\<close>

text \<open>
  The SQL the program builds with \<open>fmt.Sprintf\<close>, kept in parts: the select list (which the
  program joins with a comma and a space), the table,
  the conditions of the WHERE clause (each a column compared with the next \<open>?\<close> argument),
  the ORDER BY column and the arguments. \<open>render\<close> is the text sent to the driver;
  \<open>where_holds\<close> is what the conditions mean for a row, given its value in each column.
\<close>

datatype cmp = GE | LT | LE

record query =
  q_select :: "string list"
  q_from :: string
  q_where :: "(string \<times> cmp) list"
  q_order_by :: "string option"
  q_args :: "Time list"

fun cmp_text :: "cmp \<Rightarrow> string" where
  "cmp_text GE = ''>=''"
| "cmp_text LT = ''<''"
| "cmp_text LE = ''<=''"

definition render :: "query \<Rightarrow> string" where
  "render q = ''SELECT '' @ Join (q_select q) '', '' @ '' FROM '' @ q_from q
     @ (if q_where q = [] then [] else '' WHERE '' @
          Join (map (\<lambda>(c, op). c @ '' '' @ cmp_text op @ '' ?'') (q_where q)) '' AND '')
     @ (case q_order_by q of None \<Rightarrow> [] | Some c \<Rightarrow> '' ORDER BY '' @ c)"

fun cmp_holds :: "cmp \<Rightarrow> Time \<Rightarrow> Time \<Rightarrow> bool" where
  "cmp_holds GE v a = (unixNano a \<le> unixNano v)"
| "cmp_holds LT v a = (unixNano v < unixNano a)"
| "cmp_holds LE v a = (unixNano v \<le> unixNano a)"

fun where_holds :: "(string \<times> cmp) list \<Rightarrow> Time list \<Rightarrow> (string \<Rightarrow> Time) \<Rightarrow> bool" where
  "where_holds [] args r = True"
| "where_holds ((c, op) # conds) [] r = False"
| "where_holds ((c, op) # conds) (a # args) r = (cmp_holds op (r c) a \<and> where_holds conds args r)"

definition selects :: "query \<Rightarrow> (string \<Rightarrow> Time) \<Rightarrow> bool" where
  "selects q r = where_holds (q_where q) (q_args q) r"

definition maxQuery :: "string \<Rightarrow> string \<Rightarrow> query" where
  "maxQuery tf tbl = \<lparr>q_select = [''MAX('' @ tf @ '')''], q_from = tbl, q_where = [],
     q_order_by = None, q_args = []\<rparr>"

definition minMaxQuery :: "string \<Rightarrow> string \<Rightarrow> query" where
  "minMaxQuery tf tbl = \<lparr>q_select = [''MIN('' @ tf @ '')'', ''MAX('' @ tf @ '')''], q_from = tbl,
     q_where = [], q_order_by = None, q_args = []\<rparr>"

definition countQuery :: "string \<Rightarrow> string \<Rightarrow> Time \<Rightarrow> Time \<Rightarrow> query" where
  "countQuery tf tbl startTime endTime = \<lparr>q_select = [''COUNT(*)''], q_from = tbl,
     q_where = [(tf, GE), (tf, LE)], q_order_by = None, q_args = [startTime, endTime]\<rparr>"

definition keysQuery :: "Deduplicator \<Rightarrow> string \<Rightarrow> TimeSegment \<Rightarrow> query" where
  "keysQuery d tbl segment = \<lparr>q_select = dedupeKeys d, q_from = tbl,
     q_where = [(timeField d, GE), (timeField d, LT)], q_order_by = None,
     q_args = [Start segment, End segment]\<rparr>"

definition rowsQuery :: "string list \<Rightarrow> string \<Rightarrow> string \<Rightarrow> TimeSegment \<Rightarrow> query" where
  "rowsQuery columns tbl tf segment = \<lparr>q_select = columns, q_from = tbl,
     q_where = [(tf, GE), (tf, LT)], q_order_by = Some tf,
     q_args = [Start segment, End segment]\<rparr>"

subsection \<open>The two databases, the file system, the world\<close>

text \<open>
  A database answers queries. An answer may depend on the tuples this process has
  committed to the target so far (the first argument); everything else a database holds is
  in the answer functions. \<open>query_time\<close> and \<open>query_times\<close> are a \<open>QueryRow\<close> scanned into one
  or two \<open>sql.NullTime\<close> (\<open>None\<close> for NULL), \<open>query_count\<close> one scanned into an \<open>int64\<close>.
  \<open>query_rows\<close> is a \<open>Query\<close>: it fails, or it yields the rows in order, each scanned or
  failing to scan, and the error \<open>rows.Err()\<close> reports at the end. \<open>table_schema\<close> is what
  \<open>DetectTableSchema\<close> reads from the system tables. \<open>tx_failure\<close> tells where a
  transaction that inserts the given tuples fails, if it does.
\<close>

datatype tx_step = AtBegin | AtPrepare | AtExec | AtCommit

record database =
  query_time :: "val list list \<Rightarrow> query \<Rightarrow> error + Time option"
  query_times :: "val list list \<Rightarrow> query \<Rightarrow> error + Time option \<times> Time option"
  query_count :: "val list list \<Rightarrow> query \<Rightarrow> error + int"
  query_rows :: "val list list \<Rightarrow> query \<Rightarrow> error + (error + val list) list \<times> error option"
  table_schema :: "string \<Rightarrow> error + TableSchema"
  tx_failure :: "val list list \<Rightarrow> val list list \<Rightarrow> (tx_step \<times> error) option"

text \<open>
  The file system: the files, and for each path whether writing it or renaming onto it
  fails. \<open>os.WriteFile\<close> opens the file, creating or truncating it, and then writes: it
  fails at the open, which leaves the files as they were, or after it, which leaves the file
  with the bytes written until then (none on a full disk).
\<close>

datatype write_fault = OpenFails error | WriteFails nat error

record filesystem =
  files :: "string \<rightharpoonup> string"
  write_error :: "string \<Rightarrow> write_fault option"
  rename_error :: "string \<Rightarrow> string \<Rightarrow> error option"

text \<open>Of the log, the warnings.\<close>

datatype warning =
    SourceBehindTarget Time Time
  | FallbackStart int Time

text \<open>
  The world a syncer runs in. The clock reading \<open>time.Now()\<close> and the databases' answers
  are those of one snapshot: they change through the syncer's own commits only.
\<close>

record world =
  w_now :: Time
  w_source :: database
  w_target :: database
  w_committed :: "val list list"
  w_state :: StateManager
  w_files :: filesystem
  w_warnings :: "warning list"

text \<open>
  The renderings and parsers the program leaves to the Go library and to the decimal
  package: \<open>Time.Format(time.RFC3339Nano)\<close>, \<open>Sprintf("%f")\<close>, \<open>Sprintf("%v")\<close>,
  \<open>decimal.NewFromString\<close>, \<open>time.Parse(time.RFC3339, _)\<close>, \<open>Time.AddDate(0, 0, days)\<close> and
  \<open>json.MarshalIndent\<close> of the checkpoint document.
\<close>

record golib =
  Format_RFC3339Nano :: "Time \<Rightarrow> string"
  Sprintf_f32 :: "32 word \<Rightarrow> string"
  Sprintf_f64 :: "64 word \<Rightarrow> string"
  Sprintf_v :: "val \<Rightarrow> string"
  NewFromString :: "string \<Rightarrow> decimal option"
  Parse_RFC3339 :: "string \<Rightarrow> error + Time"
  AddDate_days :: "Time \<Rightarrow> int \<Rightarrow> Time"
  MarshalIndent :: "SyncState \<Rightarrow> error + string"

section \<open>Deduplicator\<close>

definition NewDeduplicator :: "string list \<Rightarrow> string \<Rightarrow> Deduplicator" where
  "NewDeduplicator keys tf = \<lparr>dedupeKeys = keys, timeField = tf\<rparr>"

fun formatValue :: "golib \<Rightarrow> val \<Rightarrow> string" where
  "formatValue L VNil = ''<NULL>''"
| "formatValue L (VTime v) = Format_RFC3339Nano L v"
| "formatValue L (VString v) = v"
| "formatValue L (VBytes v) = v"
| "formatValue L (VInt v) = Sprintf_d v"
| "formatValue L (VUint v) = Sprintf_d (int v)"
| "formatValue L (VFloat32 v) = Sprintf_f32 L v"
| "formatValue L (VFloat64 v) = Sprintf_f64 L v"
| "formatValue L (VBool v) = Sprintf_t v"
| "formatValue L (VDecimal v) = Sprintf_v L (VDecimal v)"
| "formatValue L (VOther v) = Sprintf_v L (VOther v)"

definition buildKeyFromValues :: "golib \<Rightarrow> val list \<Rightarrow> string" where
  "buildKeyFromValues L vals = Join (map (formatValue L) vals) ''|''"

definition BuildKey :: "golib \<Rightarrow> Deduplicator \<Rightarrow> row \<Rightarrow> string" where
  "BuildKey L d record = buildKeyFromValues L (map (index record) (dedupeKeys d))"

text \<open>
  \<open>rows.Scan\<close> into as many destinations as there are columns: it fails when the row
  has another number of values.
\<close>

definition Scan :: "nat \<Rightarrow> error + val list \<Rightarrow> error + val list" where
  "Scan n item = (case item of
      Inl e \<Rightarrow> Inl e
    | Inr vals \<Rightarrow> if length vals = n then Inr vals
                  else Inl (External (''sql: expected '' @ Sprintf_d (int (length vals))
                          @ '' destination arguments in Scan, not '' @ Sprintf_d (int n))))"

text \<open>The loop of \<open>FetchExistingKeys\<close> over the rows: the first failing scan ends it.\<close>

fun collectKeys :: "golib \<Rightarrow> Deduplicator \<Rightarrow> (error + val list) list \<Rightarrow> string set \<Rightarrow> error + string set" where
  "collectKeys L d [] existingKeys = Inr existingKeys"
| "collectKeys L d (item # items) existingKeys =
     (case Scan (length (dedupeKeys d)) item of
        Inl e \<Rightarrow> Inl e
      | Inr vals \<Rightarrow> collectKeys L d items (insert (buildKeyFromValues L vals) existingKeys))"

definition FetchExistingKeys ::
  "golib \<Rightarrow> Deduplicator \<Rightarrow> database \<Rightarrow> val list list \<Rightarrow> string \<Rightarrow> TimeSegment \<Rightarrow> TableSchema
     \<Rightarrow> error + string set" where
  "FetchExistingKeys L d db committed tbl segment schema =
     (let missingKeys = filter (\<lambda>key. \<not> HasColumn schema key) (dedupeKeys d) in
      if length missingKeys > 0 then Inl (Errorf ''deduplication keys not found in table'')
      else (case query_rows db committed (keysQuery d tbl segment) of
              Inl e \<Rightarrow> Inl e
            | Inr (items, final) \<Rightarrow>
                (case collectKeys L d items {} of
                   Inl e \<Rightarrow> Inl e
                 | Inr existingKeys \<Rightarrow>
                     (case final of Some e \<Rightarrow> Inl e | None \<Rightarrow> Inr existingKeys))))"

section \<open>StateManager\<close>

definition WriteFile :: "filesystem \<Rightarrow> string \<Rightarrow> string \<Rightarrow> error option \<times> filesystem" where
  "WriteFile fsys path data = (case write_error fsys path of
      Some (OpenFails e) \<Rightarrow> (Some e, fsys)
    | Some (WriteFails k e) \<Rightarrow> (Some e, fsys\<lparr>files := (files fsys)(path \<mapsto> take k data)\<rparr>)
    | None \<Rightarrow> (None, fsys\<lparr>files := (files fsys)(path \<mapsto> data)\<rparr>))"

definition Rename :: "filesystem \<Rightarrow> string \<Rightarrow> string \<Rightarrow> error option \<times> filesystem" where
  "Rename fsys oldpath newpath = (case rename_error fsys oldpath newpath of
      Some e \<Rightarrow> (Some e, fsys)
    | None \<Rightarrow> (case files fsys oldpath of
        None \<Rightarrow> (Some (External ''rename: no such file or directory''), fsys)
      | Some data \<Rightarrow> (None, fsys\<lparr>files := ((files fsys)(oldpath := None))(newpath \<mapsto> data)\<rparr>)))"

definition saveStateUnlocked :: "golib \<Rightarrow> world \<Rightarrow> error option \<times> world" where
  "saveStateUnlocked L w =
     (let sm = w_state w;
          sm' = sm\<lparr>syncState := (syncState sm)\<lparr>LastUpdated := w_now w\<rparr>\<rparr>;
          w1 = w\<lparr>w_state := sm'\<rparr>
      in case MarshalIndent L (syncState sm') of
           Inl e \<Rightarrow> (Some e, w1)
         | Inr data \<Rightarrow>
             (let tmpFile = stateFile sm' @ ''.tmp'' in
              case WriteFile (w_files w1) tmpFile data of
                (Some e, fsys) \<Rightarrow> (Some e, w1\<lparr>w_files := fsys\<rparr>)
              | (None, fsys) \<Rightarrow>
                  (case Rename fsys tmpFile (stateFile sm') of
                     (r, fsys') \<Rightarrow> (r, w1\<lparr>w_files := fsys'\<rparr>))))"

definition SaveState :: "golib \<Rightarrow> world \<Rightarrow> error option \<times> world" where
  "SaveState L w = saveStateUnlocked L w"

definition IsSegmentCompleted :: "StateManager \<Rightarrow> string \<Rightarrow> TimeSegment \<Rightarrow> bool" where
  "IsSegmentCompleted sm tbl segment =
     (case Tables (syncState sm) of
        None \<Rightarrow> False
      | Some tables \<Rightarrow>
          (case tables tbl of
             None \<Rightarrow> False
           | Some tableState \<Rightarrow>
               list_ex (\<lambda>completed. Equal (Start completed) (Start segment)
                          \<and> Equal (End completed) (End segment))
                 (CompletedSegments tableState)))"

text \<open>
  The in-memory part of \<open>MarkSegmentCompleted\<close>, on the map of the tables: the table's entry
  is created when it is missing, the segment appended, the count added, the wall time set.
\<close>

definition newTableState :: TableState where
  "newTableState = \<lparr>Status = ''in_progress'', LastSyncedTime = zeroTime, RecordsSynced = 0,
     CompletedSegments = []\<rparr>"

definition recordSegment ::
  "(string \<rightharpoonup> TableState) \<Rightarrow> string \<Rightarrow> TimeSegment \<Rightarrow> 64 word \<Rightarrow> Time \<Rightarrow> (string \<rightharpoonup> TableState)" where
  "recordSegment tables tbl segment recordCount nowT =
     (let tableState = (case tables tbl of None \<Rightarrow> newTableState | Some ts \<Rightarrow> ts);
          tableState' = tableState\<lparr>
            CompletedSegments := CompletedSegments tableState @ [segment],
            RecordsSynced := RecordsSynced tableState + recordCount,
            LastSyncedTime := nowT\<rparr>
      in tables(tbl \<mapsto> tableState'))"

text \<open>
  \<open>MarkSegmentCompleted\<close> has no result: what \<open>saveStateUnlocked\<close> returns is dropped. It
  returns (\<open>Inr\<close>, with the world it leaves) or, when the map of the tables is nil and the
  table's entry is to be created, panics (\<open>Inl\<close>, with the message) before it has changed
  anything.
\<close>

definition MarkSegmentCompleted ::
  "golib \<Rightarrow> string \<Rightarrow> TimeSegment \<Rightarrow> 64 word \<Rightarrow> world \<Rightarrow> string + world" where
  "MarkSegmentCompleted L tbl segment recordCount w =
     (case Tables (syncState (w_state w)) of
        None \<Rightarrow> Inl ''assignment to entry in nil map''
      | Some tables \<Rightarrow>
          (let sm = w_state w;
               w1 = w\<lparr>w_state := sm\<lparr>syncState := (syncState sm)\<lparr>Tables :=
                      Some (recordSegment tables tbl segment recordCount (w_now w))\<rparr>\<rparr>\<rparr>
           in Inr (snd (saveStateUnlocked L w1))))"

section \<open>UniversalSyncer\<close>

definition NewUniversalSyncer :: "TableConfig \<Rightarrow> Config \<Rightarrow> world \<Rightarrow> error + UniversalSyncer" where
  "NewUniversalSyncer tc cfg w =
     (case table_schema (w_source w) (table_Name tc) of
        Inl err \<Rightarrow> Inl (Errorf_w ''failed to detect schema'' err)
      | Inr schema \<Rightarrow>
          if \<not> HasColumn schema (TimeField tc) then Inl (Errorf ''time field not found in table'')
          else (let missingKeys = filter (\<lambda>key. \<not> HasColumn schema key) (DedupeKeys tc) in
            if length missingKeys > 0 then Inl (Errorf ''deduplication keys not found in table'')
            else Inr \<lparr>tableName = table_Name tc, tableConfig = tc, tableSchema = schema,
                   config = cfg,
                   deduplicator = NewDeduplicator (DedupeKeys tc) (TimeField tc),
                   colTypeMap = foldl (\<lambda>m col. m(col_Name col \<mapsto> col_Type col)) Map.empty (Columns schema),
                   skipCheckpoint = False\<rparr>))"

subsection \<open>Probes and their validity\<close>

text \<open>
  A probe is a \<open>QueryRow\<close> scanned into a \<open>sql.NullTime\<close>: \<open>sql.ErrNoRows\<close> is let through and
  leaves the NullTime unset. The program then tests, each time in place,
  \<open>p.Valid && p.Time.After(minValidTime) && p.Time.Before(limit)\<close>.
\<close>

definition scanNullTime :: "error + 'a option \<Rightarrow> error + 'a option" where
  "scanNullTime r = (case r of
      Inl err \<Rightarrow> if err \<noteq> ErrNoRows then Inl err else Inr None
    | Inr p \<Rightarrow> Inr p)"

definition scanNullTimes :: "error + 'a option \<times> 'a option \<Rightarrow> error + 'a option \<times> 'a option" where
  "scanNullTimes r = (case r of
      Inl err \<Rightarrow> if err \<noteq> ErrNoRows then Inl err else Inr (None, None)
    | Inr p \<Rightarrow> Inr p)"

definition timeOf :: "Time option \<Rightarrow> Time" where
  "timeOf p = (case p of None \<Rightarrow> zeroTime | Some t \<Rightarrow> t)"

definition minValidTime :: Time where
  "minValidTime = Date_UTC 1900 1 1 0 0 0 0"

definition validTime :: "Time option \<Rightarrow> Time \<Rightarrow> bool" where
  "validTime p limit = (case p of
      None \<Rightarrow> False
    | Some t \<Rightarrow> After t minValidTime \<and> Before t limit)"

subsection \<open>insertBatch\<close>

definition minTime :: Time where
  "minTime = Date_UTC 1900 1 1 0 0 0 0"

definition maxTime :: Time where
  "maxTime = Date_UTC 2262 4 11 23 47 16 0"

definition defaultTime :: Time where
  "defaultTime = Date_UTC 1970 1 1 0 0 0 0"

text \<open>The value \<open>insertBatch\<close> sends for one column of one record.\<close>

definition coerceValue :: "golib \<Rightarrow> (string \<rightharpoonup> string) \<Rightarrow> string \<Rightarrow> val \<Rightarrow> val" where
  "coerceValue L ctm col v =
     (let asDecimal =
        (case ctm col of
           None \<Rightarrow> None
         | Some typeStr \<Rightarrow>
             if Contains typeStr ''Decimal'' then
               (case v of
                  VString valStr \<Rightarrow> NewFromString L valStr
                | VBytes valBytes \<Rightarrow> NewFromString L valBytes
                | _ \<Rightarrow> None)
             else None)
      in case asDecimal of
           Some d \<Rightarrow> VDecimal d
         | None \<Rightarrow>
             (case ctm col of
                None \<Rightarrow> v
              | Some typeStr \<Rightarrow>
                  if Contains typeStr ''DateTime'' then
                    (case v of
                       VTime t \<Rightarrow>
                         if Before t minTime \<or> After t maxTime \<or> IsZero t then VTime defaultTime else v
                     | _ \<Rightarrow> v)
                  else v))"

definition coerceRecord :: "golib \<Rightarrow> (string \<rightharpoonup> string) \<Rightarrow> string list \<Rightarrow> row \<Rightarrow> val list" where
  "coerceRecord L ctm columns record = map (\<lambda>col. coerceValue L ctm col (index record col)) columns"

definition insertBatch ::
  "golib \<Rightarrow> UniversalSyncer \<Rightarrow> row list \<Rightarrow> string list \<Rightarrow> world \<Rightarrow> nat \<times> error option \<times> world" where
  "insertBatch L s batch columns w =
     (if length batch = 0 then (0, None, w)
      else (let tuples = map (coerceRecord L (colTypeMap s) columns) batch in
        case tx_failure (w_target w) (w_committed w) tuples of
          Some (AtBegin, err) \<Rightarrow> (0, Some (Errorf_w ''failed to begin transaction'' err), w)
        | Some (AtPrepare, err) \<Rightarrow> (0, Some (Errorf_w ''failed to prepare statement'' err), w)
        | Some (AtExec, err) \<Rightarrow> (0, Some (Errorf_w ''failed to insert row'' err), w)
        | Some (AtCommit, err) \<Rightarrow> (0, Some (Errorf_w ''failed to commit transaction'' err), w)
        | None \<Rightarrow> (length batch, None, w\<lparr>w_committed := w_committed w @ tuples\<rparr>)))"

subsection \<open>syncSegment\<close>

definition scanRow :: "string list \<Rightarrow> error + val list \<Rightarrow> error + row" where
  "scanRow columns item = (case Scan (length columns) item of
      Inl err \<Rightarrow> Inl err
    | Inr vals \<Rightarrow> Inr (foldl (\<lambda>record (col, v). record(col \<mapsto> v)) Map.empty (zip columns vals)))"

text \<open>
  The loop over the source rows, with the batch and the count it carries. It yields the
  error it returns with, or \<open>None\<close> when the rows are used up.
\<close>

fun streamRows ::
  "golib \<Rightarrow> UniversalSyncer \<Rightarrow> string set \<Rightarrow> string list \<Rightarrow> int \<Rightarrow> (error + val list) list
     \<Rightarrow> row list \<Rightarrow> nat \<Rightarrow> world \<Rightarrow> nat \<times> error option \<times> row list \<times> world" where
  "streamRows L s existingKeys columns batchSize [] batch totalInserted w =
     (totalInserted, None, batch, w)"
| "streamRows L s existingKeys columns batchSize (item # items) batch totalInserted w =
     (case scanRow columns item of
        Inl err \<Rightarrow> (totalInserted, Some (Errorf_w ''failed to scan row'' err), batch, w)
      | Inr record \<Rightarrow>
          if BuildKey L (deduplicator s) record \<in> existingKeys
          then streamRows L s existingKeys columns batchSize items batch totalInserted w
          else (let batch' = batch @ [record] in
            if int (length batch') \<ge> batchSize then
              (case insertBatch L s batch' columns w of
                 (inserted, Some err, w') \<Rightarrow>
                   (totalInserted, Some (Errorf_w ''failed to insert batch'' err), batch', w')
               | (inserted, None, w') \<Rightarrow>
                   streamRows L s existingKeys columns batchSize items [] (totalInserted + inserted) w')
            else streamRows L s existingKeys columns batchSize items batch' totalInserted w))"

definition syncSegment ::
  "golib \<Rightarrow> UniversalSyncer \<Rightarrow> TimeSegment \<Rightarrow> world \<Rightarrow> nat \<times> error option \<times> world" where
  "syncSegment L s segment w =
     (let tf = TimeField (tableConfig s);
          batchSize = GetEffectiveBatchSize (tableConfig s) (sync_BatchSize (Sync (config s)))
      in case FetchExistingKeys L (deduplicator s) (w_target w) (w_committed w) (tableName s)
                segment (tableSchema s) of
           Inl err \<Rightarrow> (0, Some (Errorf_w ''failed to fetch existing keys'' err), w)
         | Inr existingKeys \<Rightarrow>
             (let columns = GetColumnNames (tableSchema s) in
              case query_rows (w_source w) (w_committed w) (rowsQuery columns (tableName s) tf segment) of
                Inl err \<Rightarrow> (0, Some (Errorf_w ''failed to query source'' err), w)
              | Inr (items, final) \<Rightarrow>
                  if batchSize < 0 then (0, Some (Panic ''makeslice: cap out of range''), w)
                  else (case streamRows L s existingKeys columns batchSize items [] 0 w of
                     (totalInserted, Some err, batch, w') \<Rightarrow> (totalInserted, Some err, w')
                   | (totalInserted, None, batch, w') \<Rightarrow>
                       (case final of
                          Some err \<Rightarrow> (totalInserted, Some (Errorf_w ''error iterating rows'' err), w')
                        | None \<Rightarrow>
                            if length batch > 0 then
                              (case insertBatch L s batch columns w' of
                                 (inserted, Some err, w'') \<Rightarrow>
                                   (totalInserted, Some (Errorf_w ''failed to insert final batch'' err), w'')
                               | (inserted, None, w'') \<Rightarrow> (totalInserted + inserted, None, w''))
                            else (totalInserted, None, w')))))"

subsection \<open>segmentTimeRange\<close>

text \<open>The loop may not end: \<open>None\<close> is a run that never returns.\<close>

partial_function (option) segmentLoop :: "Time \<Rightarrow> Time \<Rightarrow> TimeSegment list \<Rightarrow> TimeSegment list option" where
  "segmentLoop endTime current segments =
     (if Before current endTime then
        (let dayEnd = Add (end_of_day current) (1 * Nanosecond);
             dayEnd' = (if After dayEnd endTime then endTime else dayEnd)
         in segmentLoop endTime dayEnd' (segments @ [\<lparr>Start = current, End = dayEnd'\<rparr>]))
      else Some segments)"

declare segmentLoop.simps [code]

definition segmentTimeRange :: "UniversalSyncer \<Rightarrow> TimeRange \<Rightarrow> TimeSegment list option" where
  "segmentTimeRange s timeRange =
     (if \<not> DailySegmentation (Sync (config s))
      then Some [\<lparr>Start = range_Start timeRange, End = range_End timeRange\<rparr>]
      else segmentLoop (range_End timeRange) (range_Start timeRange) [])"

subsection \<open>determineTimeRange\<close>

text \<open>The end of the range, then its start, as the function settles them in turn.\<close>

definition determineEnd :: "golib \<Rightarrow> UniversalSyncer \<Rightarrow> world \<Rightarrow> error + Time" where
  "determineEnd L s w =
     (if cfg_End (TimeRange (config s)) \<noteq> [] then
        (case Parse_RFC3339 L (cfg_End (TimeRange (config s))) of
           Inl err \<Rightarrow> Inl (Errorf_w ''invalid end time'' err)
         | Inr endTime \<Rightarrow> Inr endTime)
      else
        (case scanNullTime (query_time (w_source w) (w_committed w)
                 (maxQuery (TimeField (tableConfig s)) (tableName s))) of
           Inl err \<Rightarrow> Inl (Errorf_w ''failed to query source max time'' err)
         | Inr maxTimeSource \<Rightarrow>
             if validTime maxTimeSource (Add (w_now w) (24 * Hour))
             then Inr (Add (timeOf maxTimeSource) (1 * Second))
             else Inl ErrSourceTableEmpty))"

definition determineStart :: "golib \<Rightarrow> UniversalSyncer \<Rightarrow> Time \<Rightarrow> world \<Rightarrow> (error + Time) \<times> world" where
  "determineStart L s endTime w =
     (if AutoDetect (TimeRange (config s)) then
        (case scanNullTime (query_time (w_target w) (w_committed w)
                 (maxQuery (TimeField (tableConfig s)) (tableName s))) of
           Inl err \<Rightarrow> (Inl (Errorf_w ''failed to query max time'' err), w)
         | Inr maxT \<Rightarrow>
             if validTime maxT (Add endTime (24 * Hour))
             then (Inr (Add (timeOf maxT) (1 * Millisecond)), w)
             else
               (case scanNullTimes (query_times (w_source w) (w_committed w)
                        (minMaxQuery (TimeField (tableConfig s)) (tableName s))) of
                  Inl err \<Rightarrow> (Inl (Errorf_w ''failed to query source time range'' err), w)
                | Inr (minTimeSource, maxTimeSource) \<Rightarrow>
                    if minTimeSource = None \<or> maxTimeSource = None then (Inl ErrSourceTableEmpty, w)
                    else (let fallbackTime = AddDate_days L (w_now w) (- FallbackDays (TimeRange (config s))) in
                      if After (timeOf minTimeSource) fallbackTime
                      then (Inr (timeOf minTimeSource), w)
                      else (Inr fallbackTime,
                            w\<lparr>w_warnings := w_warnings w @
                                [FallbackStart (FallbackDays (TimeRange (config s))) fallbackTime]\<rparr>))))
      else if cfg_Start (TimeRange (config s)) \<noteq> [] then
        (case Parse_RFC3339 L (cfg_Start (TimeRange (config s))) of
           Inl err \<Rightarrow> (Inl (Errorf_w ''invalid start time'' err), w)
         | Inr startTime \<Rightarrow> (Inr startTime, w))
      else (Inr (AddDate_days L (w_now w) (- 30)), w))"

definition determineTimeRange :: "golib \<Rightarrow> UniversalSyncer \<Rightarrow> world \<Rightarrow> (error + TimeRange) \<times> world" where
  "determineTimeRange L s w =
     (case determineEnd L s w of
        Inl err \<Rightarrow> (Inl err, w)
      | Inr endTime \<Rightarrow>
          (case determineStart L s endTime w of
             (Inl err, w') \<Rightarrow> (Inl err, w')
           | (Inr startTime, w') \<Rightarrow> (Inr \<lparr>range_Start = startTime, range_End = endTime\<rparr>, w')))"

subsection \<open>incrementalSync\<close>

fun syncSegments :: "golib \<Rightarrow> UniversalSyncer \<Rightarrow> TimeSegment list \<Rightarrow> world \<Rightarrow> error option \<times> world" where
  "syncSegments L s [] w = (None, w)"
| "syncSegments L s (segment # segments) w =
     (if \<not> skipCheckpoint s \<and> IsSegmentCompleted (w_state w) (tableName s) segment
      then syncSegments L s segments w
      else (case syncSegment L s segment w of
              (recordCount, Some err, w') \<Rightarrow> (Some (Errorf_w ''failed to sync segment'' err), w')
            | (recordCount, None, w') \<Rightarrow>
                if \<not> skipCheckpoint s then
                  (case MarkSegmentCompleted L (tableName s) segment (of_nat recordCount) w' of
                     Inl p \<Rightarrow> (Some (Panic p), w')
                   | Inr w'' \<Rightarrow> syncSegments L s segments w'')
                else syncSegments L s segments w'))"

definition incrementalSync :: "golib \<Rightarrow> UniversalSyncer \<Rightarrow> world \<Rightarrow> (error option \<times> world) option" where
  "incrementalSync L s w =
     (case determineTimeRange L s w of
        (Inl err, w') \<Rightarrow> Some (Some err, w')
      | (Inr timeRange, w') \<Rightarrow>
          if \<not> Before (range_Start timeRange) (range_End timeRange) then Some (None, w')
          else (case segmentTimeRange s timeRange of
                  None \<Rightarrow> None
                | Some segments \<Rightarrow> Some (syncSegments L s segments w')))"

subsection \<open>realtimeIncrementalSync\<close>

definition backwardWindow :: Duration where
  "backwardWindow = 5 * Minute"

text \<open>
  The window of the realtime sync and the warning it logs, from the clock and the two
  probes; \<open>None\<close> where the function returns before it has a window.
\<close>

definition realtimeWindow :: "Time \<Rightarrow> Time option \<Rightarrow> Time option \<Rightarrow> (Time \<times> Time \<times> warning list) option" where
  "realtimeWindow nowT maxTimeTarget maxTimeSource =
     (let maxFutureTime = Add nowT (24 * Hour);
          targetTimeValid = validTime maxTimeTarget maxFutureTime;
          sourceTimeValid = validTime maxTimeSource maxFutureTime
      in if \<not> targetTimeValid then
           (if \<not> sourceTimeValid then None
            else Some (Add nowT (- backwardWindow), timeOf maxTimeSource, []))
         else if \<not> sourceTimeValid then None
         else if Before (timeOf maxTimeSource) (timeOf maxTimeTarget)
           then Some (Add (timeOf maxTimeTarget) (- backwardWindow),
                      Add (timeOf maxTimeSource) (1 * Second),
                      [SourceBehindTarget (timeOf maxTimeSource) (timeOf maxTimeTarget)])
           else Some (Add (timeOf maxTimeTarget) (- 5 * Second),
                      Add (timeOf maxTimeSource) (1 * Second), []))"

text \<open>The count probe over the window and, when it finds rows, the sync of the window.\<close>

definition syncWindow :: "golib \<Rightarrow> UniversalSyncer \<Rightarrow> Time \<Rightarrow> Time \<Rightarrow> world \<Rightarrow> error option \<times> world" where
  "syncWindow L s startTime endTime w =
     (case query_count (w_source w) (w_committed w)
             (countQuery (TimeField (tableConfig s)) (tableName s) startTime endTime) of
        Inl err \<Rightarrow> (Some (Errorf_w ''failed to count new records'' err), w)
      | Inr newRecordCount \<Rightarrow>
          if newRecordCount = 0 then (None, w)
          else (case syncSegment L s \<lparr>Start = startTime, End = endTime\<rparr> w of
                  (recordCount, Some err, w') \<Rightarrow> (Some (Errorf_w ''failed to sync new records'' err), w')
                | (recordCount, None, w') \<Rightarrow> (None, w')))"

definition realtimeIncrementalSync :: "golib \<Rightarrow> UniversalSyncer \<Rightarrow> world \<Rightarrow> error option \<times> world" where
  "realtimeIncrementalSync L s w =
     (case scanNullTime (query_time (w_target w) (w_committed w)
              (maxQuery (TimeField (tableConfig s)) (tableName s))) of
        Inl err \<Rightarrow> (Some (Errorf_w ''failed to query target max time'' err), w)
      | Inr maxTimeTarget \<Rightarrow>
          (case scanNullTime (query_time (w_source w) (w_committed w)
                   (maxQuery (TimeField (tableConfig s)) (tableName s))) of
             Inl err \<Rightarrow> (Some (Errorf_w ''failed to query source max time'' err), w)
           | Inr maxTimeSource \<Rightarrow>
               (case realtimeWindow (w_now w) maxTimeTarget maxTimeSource of
                  None \<Rightarrow> (None, w)
                | Some (startTime, endTime, warns) \<Rightarrow>
                    syncWindow L s startTime endTime (w\<lparr>w_warnings := w_warnings w @ warns\<rparr>))))"

subsection \<open>SyncWithRealtimeMode\<close>

text \<open>
  The two courses the function takes once it has decided: the catch-up, and on its
  success the realtime sync; or the realtime sync at once.
\<close>

definition realtimeOnly ::
  "golib \<Rightarrow> UniversalSyncer \<Rightarrow> world \<Rightarrow> (error option \<times> UniversalSyncer \<times> world) option" where
  "realtimeOnly L s w =
     (let s' = s\<lparr>skipCheckpoint := True\<rparr> in
      case realtimeIncrementalSync L s' w of (r, w') \<Rightarrow> Some (r, s', w'))"

definition catchUpThenRealtime ::
  "golib \<Rightarrow> UniversalSyncer \<Rightarrow> world \<Rightarrow> (error option \<times> UniversalSyncer \<times> world) option" where
  "catchUpThenRealtime L s w =
     (let s' = s\<lparr>skipCheckpoint := False\<rparr> in
      case incrementalSync L s' w of
        None \<Rightarrow> None
      | Some (Some err, w') \<Rightarrow>
          if Is_ErrSourceTableEmpty err then Some (Some err, s', w')
          else Some (Some (Errorf_w ''failed to catch up historical data'' err), s', w')
      | Some (None, w') \<Rightarrow> realtimeOnly L s' w')"

definition SyncWithRealtimeMode ::
  "golib \<Rightarrow> UniversalSyncer \<Rightarrow> Duration \<Rightarrow> world \<Rightarrow> (error option \<times> UniversalSyncer \<times> world) option" where
  "SyncWithRealtimeMode L s realtimeThreshold w =
     (case scanNullTime (query_time (w_target w) (w_committed w)
              (maxQuery (TimeField (tableConfig s)) (tableName s))) of
        Inl err \<Rightarrow> Some (Some (Errorf_w ''failed to query target max time'' err), s, w)
      | Inr maxTimeTarget \<Rightarrow>
          (case scanNullTime (query_time (w_source w) (w_committed w)
                   (maxQuery (TimeField (tableConfig s)) (tableName s))) of
             Inl err \<Rightarrow> Some (Some (Errorf_w ''failed to query source max time'' err), s, w)
           | Inr maxTimeSource \<Rightarrow>
               (let maxFutureTime = Add (w_now w) (24 * Hour);
                    targetTimeValid = validTime maxTimeTarget maxFutureTime;
                    sourceTimeValid = validTime maxTimeSource maxFutureTime
                in if \<not> targetTimeValid then
                     (if \<not> sourceTimeValid then Some (Some ErrSourceTableEmpty, s, w)
                      else catchUpThenRealtime L s w)
                   else if sourceTimeValid then
                     (if Sub (timeOf maxTimeSource) (timeOf maxTimeTarget) > realtimeThreshold
                      then catchUpThenRealtime L s w
                      else realtimeOnly L s w)
                   else realtimeOnly L s w)))"

section \<open>Sample inputs\<close>

text \<open>
  A sample library, to evaluate the program on concrete inputs: it parses two timestamps
  and the decimals that are all digits, and counts a day as 24 hours.
\<close>

definition sample_lib :: golib where
  "sample_lib = \<lparr>Format_RFC3339Nano = (\<lambda>t. ''T'' @ Sprintf_d (unixNano t)),
     Sprintf_f32 = (\<lambda>_. ''f32''), Sprintf_f64 = (\<lambda>_. ''f64''), Sprintf_v = (\<lambda>_. ''v''),
     NewFromString = (\<lambda>s. if s \<noteq> [] \<and> list_all is_digit s
        then Some \<lparr>coefficient = int (digits_value s), exponent = 0\<rparr> else None),
     Parse_RFC3339 = (\<lambda>s. case map_of
          [(''2024-01-01T00:00:00Z'', Date_UTC 2024 1 1 0 0 0 0),
           (''2024-01-02T00:00:00Z'', Date_UTC 2024 1 2 0 0 0 0)] s of
          Some t \<Rightarrow> Inr t
        | None \<Rightarrow> Inl (External ''parsing time'')),
     AddDate_days = (\<lambda>t n. Add t (n * 24 * Hour)),
     MarshalIndent = (\<lambda>st. Inr (RunID st))\<rparr>"

text \<open>
  A sample table \<open>events\<close>: the source declares its column \<open>seen\<close> a String, the target a
  DateTime.
\<close>

definition sample_columns :: "string \<Rightarrow> ColumnInfo list" where
  "sample_columns seenType =
     [\<lparr>col_Name = ''id'', col_Type = ''Int64'', DefaultValue = [], IsNullable = False\<rparr>,
      \<lparr>col_Name = ''ts'', col_Type = ''DateTime64(3)'', DefaultValue = [], IsNullable = False\<rparr>,
      \<lparr>col_Name = ''amount'', col_Type = ''Decimal(18, 2)'', DefaultValue = [], IsNullable = False\<rparr>,
      \<lparr>col_Name = ''seen'', col_Type = seenType, DefaultValue = [], IsNullable = False\<rparr>]"

definition sample_schema :: "string \<Rightarrow> TableSchema" where
  "sample_schema seenType = \<lparr>TableName = ''events'', Columns = sample_columns seenType,
     OrderBy = [''ts'', ''id''], PartitionBy = [], Engine = ''MergeTree''\<rparr>"

definition sample_table :: TableConfig where
  "sample_table = \<lparr>table_Name = ''events'', table_Mode = [], TimeField = ''ts'',
     DedupeKeys = [''id''], table_BatchSize = 2, Enabled = True\<rparr>"

definition sample_config :: Config where
  "sample_config = \<lparr>Sync = \<lparr>sync_Mode = ''incremental'', sync_BatchSize = 2000, DailySegmentation = False\<rparr>,
     TimeRange = \<lparr>cfg_Start = [], cfg_End = [], AutoDetect = True, FallbackDays = 30\<rparr>\<rparr>"

text \<open>
  A database that gives the same answers whatever the query: the least and greatest
  timestamp, the rows, their count.
\<close>

definition sample_database ::
  "TableSchema \<Rightarrow> Time option \<Rightarrow> Time option \<Rightarrow> (error + val list) list \<Rightarrow> database" where
  "sample_database schema tmin tmax rows =
     \<lparr>query_time = (\<lambda>c q. Inr tmax), query_times = (\<lambda>c q. Inr (tmin, tmax)),
      query_count = (\<lambda>c q. Inr (int (length rows))), query_rows = (\<lambda>c q. Inr (rows, None)),
      table_schema = (\<lambda>t. Inr schema), tx_failure = (\<lambda>c t. None)\<rparr>"

definition sample_files :: filesystem where
  "sample_files = \<lparr>files = Map.empty, write_error = (\<lambda>p. None), rename_error = (\<lambda>p q. None)\<rparr>"

definition sample_state :: StateManager where
  "sample_state = \<lparr>stateFile = ''/tmp/clickhouse_sync_state.json'',
     syncState = \<lparr>RunID = ''sync_20240101_000000'', StartTime = Date_UTC 2024 1 1 0 0 0 0,
       LastUpdated = Date_UTC 2024 1 1 0 0 0 0, Tables = Some Map.empty\<rparr>\<rparr>"

definition sample_world :: "Time \<Rightarrow> database \<Rightarrow> database \<Rightarrow> world" where
  "sample_world nowT src tgt = \<lparr>w_now = nowT, w_source = src, w_target = tgt, w_committed = [],
     w_state = sample_state, w_files = sample_files, w_warnings = []\<rparr>"

definition sample_syncer :: UniversalSyncer where
  "sample_syncer = \<lparr>tableName = ''events'', tableConfig = sample_table,
     tableSchema = sample_schema ''String'', config = sample_config,
     deduplicator = NewDeduplicator [''id''] ''ts'',
     colTypeMap = foldl (\<lambda>m col. m(col_Name col \<mapsto> col_Type col)) Map.empty (sample_columns ''String''),
     skipCheckpoint = False\<rparr>"

definition sample_rows :: "(error + val list) list" where
  "sample_rows =
     [Inr [VInt 1, VTime (Date_UTC 2024 1 1 8 0 0 0), VString ''10'', VString ''a''],
      Inr [VInt 2, VTime (Date_UTC 2024 1 1 9 0 0 0), VString ''20'', VString ''b''] ]"

text \<open>A full disk: a file can be created, and no byte written to it.\<close>

definition full_disk :: filesystem where
  "full_disk = sample_files\<lparr>write_error :=
     (\<lambda>p. Some (WriteFails 0 (External ''no space left on device'')))\<rparr>"

text \<open>
  The zone table of America/Santiago from 2023 to 2024: UTC-4 until 2023-09-03T04:00:00Z,
  UTC-3 until 2024-04-07T03:00:00Z (when the clocks go from 24:00 back to 23:00 of
  Saturday, 6 April), UTC-4 until 2024-09-08T04:00:00Z, UTC-3 from then on.
\<close>

definition America_Santiago :: Location where
  "America_Santiago = \<lparr>loc_initial = - 4 * 3600,
     loc_transitions = [(1693713600, - 3 * 3600), (1712458800, - 4 * 3600), (1725768000, - 3 * 3600)]\<rparr>"

definition daily_syncer :: UniversalSyncer where
  "daily_syncer = sample_syncer\<lparr>config := sample_config\<lparr>Sync :=
     \<lparr>sync_Mode = ''incremental'', sync_BatchSize = 2000, DailySegmentation = True\<rparr>\<rparr>\<rparr>"

text \<open>Noon of 6 April 2024 and midnight of 8 April 2024, Santiago time.\<close>

definition santiago_noon :: Time where
  "santiago_noon = \<lparr>unixNano = 1712415600 * 1000000000, loc = America_Santiago\<rparr>"

definition santiago_monday :: Time where
  "santiago_monday = \<lparr>unixNano = 1712548800 * 1000000000, loc = America_Santiago\<rparr>"

text \<open>A syncer with a configured start and end, auto-detect off.\<close>

definition configured_syncer :: UniversalSyncer where
  "configured_syncer = sample_syncer\<lparr>config := sample_config\<lparr>TimeRange :=
     \<lparr>cfg_Start = ''2024-01-02T00:00:00Z'', cfg_End = ''2024-01-02T00:00:00Z'',
      AutoDetect = False, FallbackDays = 30\<rparr>\<rparr>\<rparr>"

text \<open>
  On 10 January 2024, a source with rows from 20 December 2023 to 2 January 2024 and a
  target whose latest row is of 5 January 2024.
\<close>

definition target_ahead :: world where
  "target_ahead = sample_world (Date_UTC 2024 1 10 0 0 0 0)
     (sample_database (sample_schema ''String'')
        (Some (Date_UTC 2023 12 20 0 0 0 0)) (Some (Date_UTC 2024 1 2 0 0 0 0)) [])
     (sample_database (sample_schema ''String'') None (Some (Date_UTC 2024 1 5 0 0 0 0)) [])"

text \<open>
  At noon of 2 January 2024, a source whose latest row is of noon of 3 January, the clock
  reading plus 24 hours to the nanosecond, and a target whose latest row is one hour old.
\<close>

definition source_at_limit :: world where
  "source_at_limit = sample_world (Date_UTC 2024 1 2 12 0 0 0)
     (sample_database (sample_schema ''String'') None (Some (Date_UTC 2024 1 3 12 0 0 0)) [])
     (sample_database (sample_schema ''String'') None (Some (Date_UTC 2024 1 2 11 0 0 0)) [])"

text \<open>
  A table held in memory, as a database: it answers the greatest and least time of the time
  column, counts and returns the rows its WHERE clause selects, in the order of the ORDER BY
  column, projected on the select list. The target's table grows by the tuples committed;
  the source's does not.
\<close>

definition row_time :: "(string \<times> val) list \<Rightarrow> string \<Rightarrow> Time" where
  "row_time r col = (case map_of r col of Some (VTime t) \<Rightarrow> t | _ \<Rightarrow> zeroTime)"

definition greatest :: "Time list \<Rightarrow> Time option" where
  "greatest ts = (case ts of
      [] \<Rightarrow> None
    | t # ts' \<Rightarrow> Some (foldl (\<lambda>a b. if unixNano a < unixNano b then b else a) t ts'))"

definition least :: "Time list \<Rightarrow> Time option" where
  "least ts = (case ts of
      [] \<Rightarrow> None
    | t # ts' \<Rightarrow> Some (foldl (\<lambda>a b. if unixNano b < unixNano a then b else a) t ts'))"

definition stored_table ::
  "TableSchema \<Rightarrow> string \<Rightarrow> bool \<Rightarrow> (string \<times> val) list list \<Rightarrow> database" where
  "stored_table schema tf grows rows =
     \<lparr>query_time = (\<lambda>c q. Inr (greatest (map (\<lambda>r. row_time r tf)
          (rows @ (if grows then map (zip (GetColumnNames schema)) c else []))))),
      query_times = (\<lambda>c q. Inr
         (least (map (\<lambda>r. row_time r tf)
            (rows @ (if grows then map (zip (GetColumnNames schema)) c else []))),
          greatest (map (\<lambda>r. row_time r tf)
            (rows @ (if grows then map (zip (GetColumnNames schema)) c else []))))),
      query_count = (\<lambda>c q. Inr (int (length (filter (\<lambda>r. selects q (row_time r))
          (rows @ (if grows then map (zip (GetColumnNames schema)) c else [])))))),
      query_rows = (\<lambda>c q. Inr
         (map (\<lambda>r. Inr (map (\<lambda>col. case map_of r col of None \<Rightarrow> VNil | Some v \<Rightarrow> v) (q_select q)))
            ((case q_order_by q of
                None \<Rightarrow> (\<lambda>rs. rs)
              | Some col \<Rightarrow> sort_key (\<lambda>r. unixNano (row_time r col)))
               (filter (\<lambda>r. selects q (row_time r))
                  (rows @ (if grows then map (zip (GetColumnNames schema)) c else [])))),
          None)),
      table_schema = (\<lambda>t. Inr schema),
      tx_failure = (\<lambda>c t. None)\<rparr>"

definition event :: "int \<Rightarrow> Time \<Rightarrow> (string \<times> val) list" where
  "event i t = [(''id'', VInt i), (''ts'', VTime t), (''amount'', VString ''10''), (''seen'', VString ''a'')]"

definition events_source :: "(string \<times> val) list list \<Rightarrow> database" where
  "events_source rows = stored_table (sample_schema ''String'') ''ts'' False rows"

definition events_target :: "(string \<times> val) list list \<Rightarrow> database" where
  "events_target rows = stored_table (sample_schema ''String'') ''ts'' True rows"

text \<open>
  A first run on a full disk: the source holds two events of 1 January 2024, the target is
  empty.
\<close>

definition first_run_full_disk :: world where
  "first_run_full_disk =
     (sample_world (Date_UTC 2024 1 2 0 0 0 0)
        (events_source [event 1 (Date_UTC 2024 1 1 8 0 0 0), event 2 (Date_UTC 2024 1 1 9 0 0 0)])
        (events_target []))
     \<lparr>w_files := full_disk\<rparr>"

text \<open>Two events, the second at midnight of 2 January 2024 to the nanosecond.\<close>

definition midnight_events :: "(string \<times> val) list list" where
  "midnight_events = [event 1 (Date_UTC 2024 1 1 23 58 0 0), event 2 (Date_UTC 2024 1 2 0 0 0 0)]"

text \<open>One minute past that midnight, a source that holds the two events and an empty target.\<close>

definition after_midnight :: world where
  "after_midnight = sample_world (Date_UTC 2024 1 2 0 1 0 0)
     (events_source midnight_events) (events_target [])"

text \<open>
  The state manager after it has loaded a document whose \<open>tables\<close> is \<open>null\<close>: the map of
  the tables is nil.
\<close>

definition loaded_null_state :: StateManager where
  "loaded_null_state = sample_state\<lparr>syncState := (syncState sample_state)\<lparr>Tables := None\<rparr>\<rparr>"

text \<open>Midnight of 2 January 2024, with empty tables.\<close>

definition empty_world :: world where
  "empty_world = sample_world (Date_UTC 2024 1 2 0 0 0 0) (events_source []) (events_target [])"

text \<open>
  At 12:01 of 2 January 2024: a first realtime sync, the target empty; a later one, the
  target one event behind the source; one after a switch of the source, whose latest event
  is older than the target's; and one where that source is more than five minutes behind.
\<close>

definition realtime_first :: world where
  "realtime_first = sample_world (Date_UTC 2024 1 2 12 1 0 0)
     (events_source [event 1 (Date_UTC 2024 1 2 12 0 0 0), event 2 (Date_UTC 2024 1 2 12 0 3 0)])
     (events_target [])"

definition realtime_normal :: world where
  "realtime_normal = sample_world (Date_UTC 2024 1 2 12 1 0 0)
     (events_source [event 1 (Date_UTC 2024 1 2 12 0 0 0), event 2 (Date_UTC 2024 1 2 12 0 3 0)])
     (events_target [event 1 (Date_UTC 2024 1 2 12 0 0 0)])"

definition realtime_failover :: world where
  "realtime_failover = sample_world (Date_UTC 2024 1 2 12 1 0 0)
     (events_source [event 2 (Date_UTC 2024 1 2 12 0 2 0)])
     (events_target [event 1 (Date_UTC 2024 1 2 12 0 10 0)])"

definition realtime_idle :: world where
  "realtime_idle = sample_world (Date_UTC 2024 1 2 12 1 0 0)
     (events_source [event 2 (Date_UTC 2024 1 2 11 50 0 0)])
     (events_target [event 1 (Date_UTC 2024 1 2 12 0 10 0)])"

text \<open>
  At noon of 2 January 2024, an empty target and a source whose latest event is of noon of
  3 January, the clock reading plus 24 hours to the nanosecond.
\<close>

definition source_a_day_ahead :: world where
  "source_a_day_ahead = sample_world (Date_UTC 2024 1 2 12 0 0 0)
     (events_source [event 1 (Date_UTC 2024 1 2 11 58 0 0), event 2 (Date_UTC 2024 1 3 12 0 0 0)])
     (events_target [])"

section \<open>Notions the properties are stated with\<close>

text \<open>
  A list of segments tiles the range from \<open>a\<close> to \<open>b\<close> as a chain: the first segment starts at
  \<open>a\<close>, each segment is not empty and ends where the next one starts, and the last one ends
  at the instant \<open>b\<close>.
\<close>

fun chain :: "Time \<Rightarrow> Time \<Rightarrow> TimeSegment list \<Rightarrow> bool" where
  "chain a b [] = Equal a b"
| "chain a b (x # xs) = (Start x = a \<and> Before (Start x) (End x) \<and> chain (End x) b xs)"

text \<open>
  A location advances when the day boundary \<open>segmentTimeRange\<close> computes from a time in it
  lies after that time.
\<close>

definition advances :: "Location \<Rightarrow> bool" where
  "advances l = (\<forall>t. loc t = l \<longrightarrow> Before t (Add (end_of_day t) (1 * Nanosecond)))"

section \<open>Properties\<close>

subsection \<open>The deduplication key\<close>

lemma dec_nat_digits: "\<forall>c \<in> set (dec_nat n). is_digit c"
proof (induction n rule: dec_nat.induct)
  case (1 n)
  have d: "is_digit (digit_char k)" if "k < 10" for k
    using that by (simp add: is_digit_def digit_char_def)
  show ?case
  proof (cases "n < 10")
    case True
    then show ?thesis by (subst dec_nat.simps) (simp add: d)
  next
    case False
    with 1 have "\<forall>c \<in> set (dec_nat (n div 10)). is_digit c" by simp
    with False show ?thesis by (subst dec_nat.simps) (simp add: d)
  qed
qed

lemma digits_value_snoc: "digits_value (s @ [c]) = 10 * digits_value s + (of_char c - 48)"
  by (simp add: digits_value_def)

lemma digit_char_value: "k < 10 \<Longrightarrow> (of_char (digit_char k) :: nat) - 48 = k"
  by (simp add: digit_char_def)

lemma dec_nat_value: "digits_value (dec_nat n) = n"
proof (induction n rule: dec_nat.induct)
  case (1 n)
  show ?case
  proof (cases "n < 10")
    case True
    then show ?thesis
      by (subst dec_nat.simps) (simp add: digits_value_def digit_char_value)
  next
    case False
    with 1 have "digits_value (dec_nat (n div 10)) = n div 10" by simp
    with False show ?thesis
      by (subst dec_nat.simps) (simp add: digits_value_snoc digit_char_value)
  qed
qed

lemma dec_nat_nonempty: "dec_nat n \<noteq> []"
  by (subst dec_nat.simps) simp

lemma dec_nat_unpadded: "0 < n \<Longrightarrow> hd (dec_nat n) \<noteq> CHR ''0''"
proof (induction n rule: dec_nat.induct)
  case (1 n)
  show ?case
  proof (cases "n < 10")
    case True
    have "digit_char n \<noteq> CHR ''0''"
    proof
      assume "digit_char n = CHR ''0''"
      then have "(of_char (digit_char n) :: nat) - 48 = of_char CHR ''0'' - 48" by simp
      with True have "n = 0" by (simp add: digit_char_value)
      with 1(2) show False by simp
    qed
    with True show ?thesis
      by (subst dec_nat.simps) simp
  next
    case False
    then have "0 < n div 10" by simp
    with 1 False have "hd (dec_nat (n div 10)) \<noteq> CHR ''0''" by simp
    with False show ?thesis
      by (subst dec_nat.simps) (simp add: dec_nat_nonempty)
  qed
qed

lemma Sprintf_d_nonneg: "0 \<le> i \<Longrightarrow> Sprintf_d i = dec_nat (nat i)"
  by (simp add: Sprintf_d_def)

lemma Sprintf_d_neg: "i < 0 \<Longrightarrow> Sprintf_d i = CHR ''-'' # dec_nat (nat (- i))"
  by (simp add: Sprintf_d_def)

lemma index_absent_eq_nil: "index (r(k := None)) = index (r(k \<mapsto> VNil))"
  by (rule ext) (simp add: index_def)

text \<open>
  C4. The deduplication key is a total function of the ordered value tuple: the renderings
  of the values joined by the one byte \<open>|\<close> (U+007C). A nil renders as \<open><NULL>\<close>, a timestamp
  in the layout RFC3339Nano, a byte string and a string as their bytes, a boolean as
  \<open>true\<close> or \<open>false\<close>, a floating-point number by \<open>%f\<close>, anything else by \<open>%v\<close>. A signed or
  unsigned integer renders in decimal: digits only, read back to the number, no leading zero
  on a positive number, a leading minus sign on a negative one.
\<close>

theorem C4_dedup_key_rendering:
  "buildKeyFromValues L vals = Join (map (formatValue L) vals) [CHR 0x7C]
   \<and> formatValue L VNil = ''<NULL>''
   \<and> formatValue L (VTime t) = Format_RFC3339Nano L t
   \<and> formatValue L (VBytes b) = b
   \<and> formatValue L (VString s) = s
   \<and> digits_value (formatValue L (VUint n)) = n
   \<and> (\<forall>c \<in> set (formatValue L (VUint n)). is_digit c)
   \<and> (0 < n \<longrightarrow> hd (formatValue L (VUint n)) \<noteq> CHR ''0'')
   \<and> (0 \<le> i \<longrightarrow> formatValue L (VInt i) = formatValue L (VUint (nat i)))
   \<and> (i < 0 \<longrightarrow> formatValue L (VInt i) = CHR ''-'' # formatValue L (VUint (nat (- i))))
   \<and> formatValue L (VFloat32 f) = Sprintf_f32 L f
   \<and> formatValue L (VFloat64 g) = Sprintf_f64 L g
   \<and> formatValue L (VBool True) = ''true''
   \<and> formatValue L (VBool False) = ''false''
   \<and> formatValue L (VDecimal d) = Sprintf_v L (VDecimal d)
   \<and> formatValue L (VOther x) = Sprintf_v L (VOther x)"
proof -
  have key: "buildKeyFromValues L vals = Join (map (formatValue L) vals) [CHR 0x7C]"
    by (simp add: buildKeyFromValues_def)
  have u: "formatValue L (VUint m) = dec_nat m" for m
    by (simp add: Sprintf_d_nonneg)
  have val: "digits_value (formatValue L (VUint n)) = n"
    unfolding u by (rule dec_nat_value)
  have dig: "\<forall>c \<in> set (formatValue L (VUint n)). is_digit c"
    unfolding u by (rule dec_nat_digits)
  have pad: "0 < n \<longrightarrow> hd (formatValue L (VUint n)) \<noteq> CHR ''0''"
    unfolding u by (simp add: dec_nat_unpadded)
  have pos: "0 \<le> i \<longrightarrow> formatValue L (VInt i) = formatValue L (VUint (nat i))"
    by (simp add: Sprintf_d_nonneg)
  have neg: "i < 0 \<longrightarrow> formatValue L (VInt i) = CHR ''-'' # formatValue L (VUint (nat (- i)))"
    by (simp add: Sprintf_d_neg Sprintf_d_nonneg)
  have rest: "formatValue L VNil = ''<NULL>''" "formatValue L (VTime t) = Format_RFC3339Nano L t"
    "formatValue L (VBytes b) = b" "formatValue L (VString s) = s"
    "formatValue L (VFloat32 f) = Sprintf_f32 L f" "formatValue L (VFloat64 g) = Sprintf_f64 L g"
    "formatValue L (VBool True) = ''true''" "formatValue L (VBool False) = ''false''"
    "formatValue L (VDecimal d) = Sprintf_v L (VDecimal d)"
    "formatValue L (VOther x) = Sprintf_v L (VOther x)"
    by (simp_all add: Sprintf_t_def)
  from key val dig pad pos neg rest show ?thesis by blast
qed

theorem C4_dedup_key_rendering_witness:
  "buildKeyFromValues sample_lib [VNil, VInt (- 7), VUint 42, VBool True]
     = Join (map (formatValue sample_lib) [VNil, VInt (- 7), VUint 42, VBool True]) ''|''
   \<and> digits_value (formatValue sample_lib (VUint 42)) = 42
   \<and> hd (formatValue sample_lib (VUint 42)) \<noteq> CHR ''0''
   \<and> formatValue sample_lib (VInt (- 7)) = CHR ''-'' # formatValue sample_lib (VUint 7)
   \<and> formatValue sample_lib (VInt 7) = formatValue sample_lib (VUint 7)
   \<and> buildKeyFromValues sample_lib [VNil, VInt (- 7), VUint 42, VBool True] = ''<NULL>|-7|42|true''"
proof -
  have k: "buildKeyFromValues sample_lib [VNil, VInt (- 7), VUint 42, VBool True] = ''<NULL>|-7|42|true''"
    by code_simp
  from k C4_dedup_key_rendering [of sample_lib "[VNil, VInt (- 7), VUint 42, VBool True]" _ _ _ 42 "- 7"]
    C4_dedup_key_rendering [of sample_lib "[]" _ _ _ 42 7]
  show ?thesis by simp
qed

text \<open>
  C10. The deduplication key of a record is the join, by \<open>|\<close>, of one component for each
  configured key column, in the configured order: the rendering of the value the record
  carries at the column, and \<open><NULL>\<close> when the record does not carry the column. An explicit
  nil renders as \<open><NULL>\<close> too, so a record that lacks a column and a record that carries nil
  there have the same key; with that column as the only key column, the key of both is
  \<open><NULL>\<close>.
\<close>

theorem C10_absent_column_is_null:
  "BuildKey L d r
     = Join (map (\<lambda>key. case r key of None \<Rightarrow> ''<NULL>'' | Some v \<Rightarrow> formatValue L v) (dedupeKeys d)) ''|''
   \<and> formatValue L VNil = ''<NULL>''
   \<and> BuildKey L d (r(k := None)) = BuildKey L d (r(k \<mapsto> VNil))
   \<and> BuildKey L (NewDeduplicator [k] tf) (r(k := None)) = ''<NULL>''
   \<and> BuildKey L (NewDeduplicator [k] tf) (r(k \<mapsto> VNil)) = ''<NULL>''
   \<and> BuildKey sample_lib (NewDeduplicator [''id'', ''kind'', ''ts''] ''ts'')
        [''id'' \<mapsto> VInt 7, ''ts'' \<mapsto> VString ''t''] = ''7|<NULL>|t''
   \<and> BuildKey sample_lib (NewDeduplicator [''id'', ''kind'', ''ts''] ''ts'')
        [''id'' \<mapsto> VInt 7, ''kind'' \<mapsto> VNil, ''ts'' \<mapsto> VString ''t''] = ''7|<NULL>|t''"
proof -
  have comp: "formatValue L (index r' key) = (case r' key of None \<Rightarrow> ''<NULL>'' | Some v \<Rightarrow> formatValue L v)"
    for r' key
    by (simp add: index_def split: option.splits)
  have a: "BuildKey L d r
     = Join (map (\<lambda>key. case r key of None \<Rightarrow> ''<NULL>'' | Some v \<Rightarrow> formatValue L v) (dedupeKeys d)) ''|''"
    by (simp add: BuildKey_def buildKeyFromValues_def comp comp_def)
  have b: "BuildKey L d (r(k := None)) = BuildKey L d (r(k \<mapsto> VNil))"
    by (simp add: BuildKey_def index_absent_eq_nil)
  have c: "BuildKey L (NewDeduplicator [k] tf) (r(k := None)) = ''<NULL>''"
    by (simp add: BuildKey_def buildKeyFromValues_def NewDeduplicator_def index_def)
  have d: "BuildKey L (NewDeduplicator [k] tf) (r(k \<mapsto> VNil)) = ''<NULL>''"
    by (simp add: BuildKey_def buildKeyFromValues_def NewDeduplicator_def index_def)
  have e: "BuildKey sample_lib (NewDeduplicator [''id'', ''kind'', ''ts''] ''ts'')
        [''id'' \<mapsto> VInt 7, ''ts'' \<mapsto> VString ''t''] = ''7|<NULL>|t''"
    by code_simp
  have f: "BuildKey sample_lib (NewDeduplicator [''id'', ''kind'', ''ts''] ''ts'')
        [''id'' \<mapsto> VInt 7, ''kind'' \<mapsto> VNil, ''ts'' \<mapsto> VString ''t''] = ''7|<NULL>|t''"
    by code_simp
  from a b c d e f show ?thesis by simp
qed

subsection \<open>Query bounds\<close>

lemma collectKeys_scanned:
  "\<forall>vals \<in> set tuples. length vals = length (dedupeKeys d)
   \<Longrightarrow> collectKeys L d (map Inr tuples) K = Inr (K \<union> buildKeyFromValues L ` set tuples)"
  by (induction tuples arbitrary: K) (simp_all add: Scan_def)

lemma FetchExistingKeys_eq:
  "FetchExistingKeys L d db c tbl seg schema =
     (if \<exists>key \<in> set (dedupeKeys d). \<not> HasColumn schema key
      then Inl (Errorf ''deduplication keys not found in table'')
      else (case query_rows db c (keysQuery d tbl seg) of
              Inl e \<Rightarrow> Inl e
            | Inr (items, final) \<Rightarrow>
                (case collectKeys L d items {} of
                   Inl e \<Rightarrow> Inl e
                 | Inr existingKeys \<Rightarrow>
                     (case final of Some e \<Rightarrow> Inl e | None \<Rightarrow> Inr existingKeys))))"
proof -
  have "(0 < length (filter (\<lambda>key. \<not> HasColumn schema key) (dedupeKeys d)))
        = (\<exists>key \<in> set (dedupeKeys d). \<not> HasColumn schema key)"
    by (simp add: filter_empty_conv)
  thus ?thesis
    by (simp add: FetchExistingKeys_def Let_def)
qed

lemma FetchExistingKeys_rows:
  assumes "\<forall>key \<in> set (dedupeKeys d). HasColumn schema key"
    and "query_rows db c (keysQuery d tbl seg) = Inr (map Inr tuples, None)"
    and "\<forall>vals \<in> set tuples. length vals = length (dedupeKeys d)"
  shows "FetchExistingKeys L d db c tbl seg schema = Inr (buildKeyFromValues L ` set tuples)"
  using assms by (simp add: FetchExistingKeys_eq collectKeys_scanned)

lemma syncWindow_eq:
  "syncWindow L s a b w =
     (case query_count (w_source w) (w_committed w)
             (countQuery (TimeField (tableConfig s)) (tableName s) a b) of
        Inl err \<Rightarrow> (Some (Errorf_w ''failed to count new records'' err), w)
      | Inr n \<Rightarrow>
          if n = 0 then (None, w)
          else (case syncSegment L s \<lparr>Start = a, End = b\<rparr> w of
                  (recordCount, Some err, w') \<Rightarrow> (Some (Errorf_w ''failed to sync new records'' err), w')
                | (recordCount, None, w') \<Rightarrow> (None, w')))"
  by (simp add: syncWindow_def)

lemma realtimeIncrementalSync_window:
  assumes "scanNullTime (query_time (w_target w) (w_committed w)
              (maxQuery (TimeField (tableConfig s)) (tableName s))) = Inr tgt"
    and "scanNullTime (query_time (w_source w) (w_committed w)
              (maxQuery (TimeField (tableConfig s)) (tableName s))) = Inr src"
  shows "realtimeIncrementalSync L s w =
     (case realtimeWindow (w_now w) tgt src of
        None \<Rightarrow> (None, w)
      | Some (a, b, warns) \<Rightarrow> syncWindow L s a b (w\<lparr>w_warnings := w_warnings w @ warns\<rparr>))"
  using assms by (simp add: realtimeIncrementalSync_def)

lemma syncSegment_eq:
  "syncSegment L s seg w =
       (case FetchExistingKeys L (deduplicator s) (w_target w) (w_committed w) (tableName s)
               seg (tableSchema s) of
          Inl err \<Rightarrow> (0, Some (Errorf_w ''failed to fetch existing keys'' err), w)
        | Inr existingKeys \<Rightarrow>
            (case query_rows (w_source w) (w_committed w)
                    (rowsQuery (GetColumnNames (tableSchema s)) (tableName s)
                       (TimeField (tableConfig s)) seg) of
               Inl err \<Rightarrow> (0, Some (Errorf_w ''failed to query source'' err), w)
             | Inr (items, final) \<Rightarrow>
                 if GetEffectiveBatchSize (tableConfig s) (sync_BatchSize (Sync (config s))) < 0
                 then (0, Some (Panic ''makeslice: cap out of range''), w)
                 else (case streamRows L s existingKeys (GetColumnNames (tableSchema s))
                              (GetEffectiveBatchSize (tableConfig s) (sync_BatchSize (Sync (config s))))
                              items [] 0 w of
                    (totalInserted, Some err, batch, w') \<Rightarrow> (totalInserted, Some err, w')
                  | (totalInserted, None, batch, w') \<Rightarrow>
                      (case final of
                         Some err \<Rightarrow> (totalInserted, Some (Errorf_w ''error iterating rows'' err), w')
                       | None \<Rightarrow>
                           if length batch > 0 then
                             (case insertBatch L s batch (GetColumnNames (tableSchema s)) w' of
                                (inserted, Some err, w'') \<Rightarrow>
                                  (totalInserted, Some (Errorf_w ''failed to insert final batch'' err), w'')
                              | (inserted, None, w'') \<Rightarrow> (totalInserted + inserted, None, w''))
                           else (totalInserted, None, w')))))"
  unfolding syncSegment_def Let_def by (rule refl)

text \<open>
  C7. The deduplication key probe. \<open>FetchExistingKeys\<close> fails when the schema lacks a key
  column; otherwise it sends the target the query
  \<open>SELECT keys FROM table WHERE tf >= ? AND tf < ?\<close> with the segment's start and end as
  arguments, and returns the keys built from the rows of the answer (the first error of the
  query, of a scan or of the iteration instead). The query selects a row iff
  start \<le> time < end, and no row at the end itself.
  \<open>syncSegment\<close> starts with this probe, for its segment, against the target.

  The count probe. The realtime sync, once it has a window, sends the source the query
  \<open>SELECT COUNT(*) FROM table WHERE tf >= ? AND tf <= ?\<close> with the window's start and end as
  arguments; on a count of zero it returns, otherwise it syncs the window as one segment.
  The query selects a row iff start \<le> time \<le> end, so a row at the end itself whenever the
  window is not empty.
\<close>

theorem C7_query_bound_asymmetry:
  "render (keysQuery d tbl seg)
      = ''SELECT '' @ Join (dedupeKeys d) '', '' @ '' FROM '' @ tbl
          @ '' WHERE '' @ timeField d @ '' >= ? AND '' @ timeField d @ '' < ?''
   \<and> q_args (keysQuery d tbl seg) = [Start seg, End seg]
   \<and> selects (keysQuery d tbl seg) r
      = (unixNano (Start seg) \<le> unixNano (r (timeField d)) \<and> unixNano (r (timeField d)) < unixNano (End seg))
   \<and> \<not> selects (keysQuery d tbl seg) (\<lambda>col. End seg)
   \<and> FetchExistingKeys L d db c tbl seg schema =
       (if \<exists>key \<in> set (dedupeKeys d). \<not> HasColumn schema key
        then Inl (Errorf ''deduplication keys not found in table'')
        else (case query_rows db c (keysQuery d tbl seg) of
                Inl e \<Rightarrow> Inl e
              | Inr (items, final) \<Rightarrow>
                  (case collectKeys L d items {} of
                     Inl e \<Rightarrow> Inl e
                   | Inr existingKeys \<Rightarrow>
                       (case final of Some e \<Rightarrow> Inl e | None \<Rightarrow> Inr existingKeys))))
   \<and> ((\<forall>key \<in> set (dedupeKeys d). HasColumn schema key)
        \<and> query_rows db c (keysQuery d tbl seg) = Inr (map Inr tuples, None)
        \<and> (\<forall>vals \<in> set tuples. length vals = length (dedupeKeys d))
       \<longrightarrow> FetchExistingKeys L d db c tbl seg schema = Inr (buildKeyFromValues L ` set tuples))
   \<and> render (countQuery tf tbl a b)
      = ''SELECT COUNT(*) FROM '' @ tbl @ '' WHERE '' @ tf @ '' >= ? AND '' @ tf @ '' <= ?''
   \<and> q_args (countQuery tf tbl a b) = [a, b]
   \<and> selects (countQuery tf tbl a b) r = (unixNano a \<le> unixNano (r tf) \<and> unixNano (r tf) \<le> unixNano b)
   \<and> selects (countQuery tf tbl a b) (\<lambda>col. b) = (unixNano a \<le> unixNano b)
   \<and> syncWindow L s a b w =
       (case query_count (w_source w) (w_committed w)
               (countQuery (TimeField (tableConfig s)) (tableName s) a b) of
          Inl err \<Rightarrow> (Some (Errorf_w ''failed to count new records'' err), w)
        | Inr n \<Rightarrow>
            if n = 0 then (None, w)
            else (case syncSegment L s \<lparr>Start = a, End = b\<rparr> w of
                    (recordCount, Some err, w') \<Rightarrow> (Some (Errorf_w ''failed to sync new records'' err), w')
                  | (recordCount, None, w') \<Rightarrow> (None, w')))
   \<and> (scanNullTime (query_time (w_target w) (w_committed w)
            (maxQuery (TimeField (tableConfig s)) (tableName s))) = Inr tgt
        \<and> scanNullTime (query_time (w_source w) (w_committed w)
            (maxQuery (TimeField (tableConfig s)) (tableName s))) = Inr src
        \<and> realtimeWindow (w_now w) tgt src = Some (a, b, warns)
       \<longrightarrow> realtimeIncrementalSync L s w = syncWindow L s a b (w\<lparr>w_warnings := w_warnings w @ warns\<rparr>))
   \<and> syncSegment L s seg w =
       (case FetchExistingKeys L (deduplicator s) (w_target w) (w_committed w) (tableName s)
               seg (tableSchema s) of
          Inl err \<Rightarrow> (0, Some (Errorf_w ''failed to fetch existing keys'' err), w)
        | Inr existingKeys \<Rightarrow>
            (case query_rows (w_source w) (w_committed w)
                    (rowsQuery (GetColumnNames (tableSchema s)) (tableName s)
                       (TimeField (tableConfig s)) seg) of
               Inl err \<Rightarrow> (0, Some (Errorf_w ''failed to query source'' err), w)
             | Inr (items, final) \<Rightarrow>
                 if GetEffectiveBatchSize (tableConfig s) (sync_BatchSize (Sync (config s))) < 0
                 then (0, Some (Panic ''makeslice: cap out of range''), w)
                 else (case streamRows L s existingKeys (GetColumnNames (tableSchema s))
                              (GetEffectiveBatchSize (tableConfig s) (sync_BatchSize (Sync (config s))))
                              items [] 0 w of
                    (totalInserted, Some err, batch, w') \<Rightarrow> (totalInserted, Some err, w')
                  | (totalInserted, None, batch, w') \<Rightarrow>
                      (case final of
                         Some err \<Rightarrow> (totalInserted, Some (Errorf_w ''error iterating rows'' err), w')
                       | None \<Rightarrow>
                           if length batch > 0 then
                             (case insertBatch L s batch (GetColumnNames (tableSchema s)) w' of
                                (inserted, Some err, w'') \<Rightarrow>
                                  (totalInserted, Some (Errorf_w ''failed to insert final batch'' err), w'')
                              | (inserted, None, w'') \<Rightarrow> (totalInserted + inserted, None, w''))
                           else (totalInserted, None, w')))))"
proof -
  have k1: "render (keysQuery d tbl seg)
      = ''SELECT '' @ Join (dedupeKeys d) '', '' @ '' FROM '' @ tbl
          @ '' WHERE '' @ timeField d @ '' >= ? AND '' @ timeField d @ '' < ?''"
    by (simp add: render_def keysQuery_def)
  have k2: "q_args (keysQuery d tbl seg) = [Start seg, End seg]"
    by (simp add: keysQuery_def)
  have k3: "selects (keysQuery d tbl seg) r'
      = (unixNano (Start seg) \<le> unixNano (r' (timeField d)) \<and> unixNano (r' (timeField d)) < unixNano (End seg))" for r'
    by (simp add: selects_def keysQuery_def)
  have k4: "\<not> selects (keysQuery d tbl seg) (\<lambda>col. End seg)"
    by (simp add: k3)
  note k5 = FetchExistingKeys_eq [of L d db c tbl seg schema]
  have k6: "(\<forall>key \<in> set (dedupeKeys d). HasColumn schema key)
        \<and> query_rows db c (keysQuery d tbl seg) = Inr (map Inr tuples, None)
        \<and> (\<forall>vals \<in> set tuples. length vals = length (dedupeKeys d))
       \<longrightarrow> FetchExistingKeys L d db c tbl seg schema = Inr (buildKeyFromValues L ` set tuples)"
    using FetchExistingKeys_rows [of d schema db c tbl seg tuples L] by blast
  have c1: "render (countQuery tf tbl a b)
      = ''SELECT COUNT(*) FROM '' @ tbl @ '' WHERE '' @ tf @ '' >= ? AND '' @ tf @ '' <= ?''"
    by (simp add: render_def countQuery_def)
  have c2: "q_args (countQuery tf tbl a b) = [a, b]"
    by (simp add: countQuery_def)
  have c3: "selects (countQuery tf tbl a b) r' = (unixNano a \<le> unixNano (r' tf) \<and> unixNano (r' tf) \<le> unixNano b)" for r'
    by (simp add: selects_def countQuery_def)
  have c4: "selects (countQuery tf tbl a b) (\<lambda>col. b) = (unixNano a \<le> unixNano b)"
    by (simp add: c3)
  note c5 = syncWindow_eq [of L s a b w]
  have c6: "scanNullTime (query_time (w_target w) (w_committed w)
            (maxQuery (TimeField (tableConfig s)) (tableName s))) = Inr tgt
        \<and> scanNullTime (query_time (w_source w) (w_committed w)
            (maxQuery (TimeField (tableConfig s)) (tableName s))) = Inr src
        \<and> realtimeWindow (w_now w) tgt src = Some (a, b, warns)
       \<longrightarrow> realtimeIncrementalSync L s w = syncWindow L s a b (w\<lparr>w_warnings := w_warnings w @ warns\<rparr>)"
    by (simp add: realtimeIncrementalSync_window)
  note c7 = syncSegment_eq [of L s seg w]
  show ?thesis
    apply (intro conjI)
    apply (rule k1)
    apply (rule k2)
    apply (rule k3)
    apply (rule k4)
    apply (rule k5)
    apply (rule k6)
    apply (rule c1)
    apply (rule c2)
    apply (rule c3)
    apply (rule c4)
    apply (rule c5)
    apply (rule c6)
    apply (rule c7)
    done
qed

theorem C7_query_bound_asymmetry_witness:
  "render (keysQuery (NewDeduplicator [''id''] ''ts'') ''events''
       \<lparr>Start = Date_UTC 2024 1 1 0 0 0 0, End = Date_UTC 2024 1 2 0 0 0 0\<rparr>)
     = ''SELECT id FROM events WHERE ts >= ? AND ts < ?''
   \<and> query_rows (events_target midnight_events) []
        (keysQuery (NewDeduplicator [''id''] ''ts'') ''events''
           \<lparr>Start = Date_UTC 2024 1 1 0 0 0 0, End = Date_UTC 2024 1 2 0 0 0 0\<rparr>)
     = Inr ([Inr [VInt 1]], None)
   \<and> FetchExistingKeys sample_lib (NewDeduplicator [''id''] ''ts'') (events_target midnight_events) []
        ''events'' \<lparr>Start = Date_UTC 2024 1 1 0 0 0 0, End = Date_UTC 2024 1 2 0 0 0 0\<rparr>
        (sample_schema ''String'')
     = Inr {''1''}
   \<and> render (countQuery ''ts'' ''events'' (Date_UTC 2024 1 1 0 0 0 0) (Date_UTC 2024 1 2 0 0 0 0))
     = ''SELECT COUNT(*) FROM events WHERE ts >= ? AND ts <= ?''
   \<and> query_count (events_source midnight_events) []
        (countQuery ''ts'' ''events'' (Date_UTC 2024 1 1 0 0 0 0) (Date_UTC 2024 1 2 0 0 0 0))
     = Inr 2
   \<and> realtimeIncrementalSync sample_lib sample_syncer after_midnight
     = syncWindow sample_lib sample_syncer (Date_UTC 2024 1 1 23 56 0 0) (Date_UTC 2024 1 2 0 0 0 0)
         after_midnight
   \<and> query_count (w_source after_midnight) (w_committed after_midnight)
        (countQuery ''ts'' ''events'' (Date_UTC 2024 1 1 23 56 0 0) (Date_UTC 2024 1 2 0 0 0 0))
     = Inr 2
   \<and> fst (realtimeIncrementalSync sample_lib sample_syncer after_midnight) = None
   \<and> w_committed (snd (realtimeIncrementalSync sample_lib sample_syncer after_midnight))
     = [[VInt 1, VTime (Date_UTC 2024 1 1 23 58 0 0),
         VDecimal \<lparr>coefficient = 10, exponent = 0\<rparr>, VString ''a'']]"
proof -
  let ?d = "NewDeduplicator [''id''] ''ts''"
  let ?seg = "\<lparr>Start = Date_UTC 2024 1 1 0 0 0 0, End = Date_UTC 2024 1 2 0 0 0 0\<rparr>"
  let ?a = "Date_UTC 2024 1 1 23 56 0 0"
  let ?b = "Date_UTC 2024 1 2 0 0 0 0"
  note C = C7_query_bound_asymmetry [where d = ?d and tbl = "''events''" and seg = ?seg
      and db = "events_target midnight_events" and c = "[]" and L = sample_lib
      and schema = "sample_schema ''String''" and tuples = "[[VInt 1]]"
      and tf = "''ts''" and a = ?a and b = ?b and w = after_midnight and s = sample_syncer
      and tgt = None and src = "Some (Date_UTC 2024 1 2 0 0 0 0)" and warns = "[]"]
  have k1: "render (keysQuery ?d ''events'' ?seg) = ''SELECT id FROM events WHERE ts >= ? AND ts < ?''"
    by code_simp
  have cols: "\<forall>key \<in> set (dedupeKeys ?d). HasColumn (sample_schema ''String'') key"
    by code_simp
  have rows: "query_rows (events_target midnight_events) [] (keysQuery ?d ''events'' ?seg)
      = Inr (map Inr [[VInt 1]], None)"
    by code_simp
  have len: "\<forall>vals \<in> set [[VInt 1]]. length vals = length (dedupeKeys ?d)"
    by (simp add: NewDeduplicator_def)
  have key: "buildKeyFromValues sample_lib ` set [[VInt 1]] = {''1''}"
  proof -
    have "buildKeyFromValues sample_lib [VInt 1] = ''1''" by code_simp
    thus ?thesis by simp
  qed
  have k6: "FetchExistingKeys sample_lib ?d (events_target midnight_events) [] ''events'' ?seg
        (sample_schema ''String'') = Inr {''1''}"
    using C [THEN conjunct2, THEN conjunct2, THEN conjunct2, THEN conjunct2, THEN conjunct2,
        THEN conjunct1] cols rows len key
    by simp
  have c1: "render (countQuery ''ts'' ''events'' (Date_UTC 2024 1 1 0 0 0 0) (Date_UTC 2024 1 2 0 0 0 0))
     = ''SELECT COUNT(*) FROM events WHERE ts >= ? AND ts <= ?''"
    by code_simp
  have n1: "query_count (events_source midnight_events) []
        (countQuery ''ts'' ''events'' (Date_UTC 2024 1 1 0 0 0 0) (Date_UTC 2024 1 2 0 0 0 0)) = Inr 2"
    by code_simp
  have tgt: "scanNullTime (query_time (w_target after_midnight) (w_committed after_midnight)
        (maxQuery (TimeField (tableConfig sample_syncer)) (tableName sample_syncer))) = Inr None"
    by code_simp
  have src: "scanNullTime (query_time (w_source after_midnight) (w_committed after_midnight)
        (maxQuery (TimeField (tableConfig sample_syncer)) (tableName sample_syncer)))
      = Inr (Some (Date_UTC 2024 1 2 0 0 0 0))"
    by code_simp
  have win: "realtimeWindow (w_now after_midnight) None (Some (Date_UTC 2024 1 2 0 0 0 0))
      = Some (?a, ?b, [])"
    by code_simp
  have same: "after_midnight\<lparr>w_warnings := w_warnings after_midnight @ []\<rparr> = after_midnight"
    by simp
  have c6: "realtimeIncrementalSync sample_lib sample_syncer after_midnight
     = syncWindow sample_lib sample_syncer ?a ?b after_midnight"
    using C [THEN conjunct2, THEN conjunct2, THEN conjunct2, THEN conjunct2, THEN conjunct2,
        THEN conjunct2, THEN conjunct2, THEN conjunct2, THEN conjunct2, THEN conjunct2,
        THEN conjunct2, THEN conjunct1] tgt src win
    by (simp only: same simp_thms)
  have n2: "query_count (w_source after_midnight) (w_committed after_midnight)
        (countQuery ''ts'' ''events'' ?a ?b) = Inr 2"
    by code_simp
  have e: "fst (realtimeIncrementalSync sample_lib sample_syncer after_midnight) = None"
    by code_simp
  have r: "w_committed (snd (realtimeIncrementalSync sample_lib sample_syncer after_midnight))
     = [[VInt 1, VTime (Date_UTC 2024 1 1 23 58 0 0),
         VDecimal \<lparr>coefficient = 10, exponent = 0\<rparr>, VString ''a'']]"
    by code_simp
  from rows have rows': "query_rows (events_target midnight_events) [] (keysQuery ?d ''events'' ?seg)
      = Inr ([Inr [VInt 1]], None)"
    by simp
  show ?thesis
    apply (intro conjI)
    apply (rule k1)
    apply (rule rows')
    apply (rule k6)
    apply (rule c1)
    apply (rule n1)
    apply (rule c6)
    apply (rule n2)
    apply (rule e)
    apply (rule r)
    done
qed

subsection \<open>Type coercion at insert time\<close>

lemma IsZero_Before_minTime: "IsZero t \<Longrightarrow> Before t minTime"
  by (simp add: IsZero_def Before_def minTime_def Date_UTC_def days_from_civil_def)

lemma coerceValue_time:
  "coerceValue L ctm col (VTime t) =
     (if (case ctm col of None \<Rightarrow> False | Some typeStr \<Rightarrow> Contains typeStr ''DateTime'')
         \<and> (Before t minTime \<or> After t maxTime)
      then VTime defaultTime else VTime t)"
  using IsZero_Before_minTime [of t]
  by (auto simp: coerceValue_def split: option.splits)

lemma coerceValue_string:
  "coerceValue L ctm col (VString x) =
     (case ctm col of
        None \<Rightarrow> VString x
      | Some typeStr \<Rightarrow>
          if Contains typeStr ''Decimal''
          then (case NewFromString L x of Some d \<Rightarrow> VDecimal d | None \<Rightarrow> VString x)
          else VString x)"
  by (auto simp: coerceValue_def split: option.splits)

lemma coerceValue_bytes:
  "coerceValue L ctm col (VBytes x) =
     (case ctm col of
        None \<Rightarrow> VBytes x
      | Some typeStr \<Rightarrow>
          if Contains typeStr ''Decimal''
          then (case NewFromString L x of Some d \<Rightarrow> VDecimal d | None \<Rightarrow> VBytes x)
          else VBytes x)"
  by (auto simp: coerceValue_def split: option.splits)

lemma coerceValue_other:
  "(case v of VTime _ \<Rightarrow> False | VString _ \<Rightarrow> False | VBytes _ \<Rightarrow> False | _ \<Rightarrow> True)
   \<Longrightarrow> coerceValue L ctm col v = v"
  by (cases v) (auto simp: coerceValue_def split: option.splits)

lemma foldl_upd_map_of:
  "foldl (\<lambda>m c. m(f c \<mapsto> g c)) m0 xs = m0 ++ map_of (rev (map (\<lambda>c. (f c, g c)) xs))"
proof (induction xs arbitrary: m0)
  case Nil
  then show ?case by simp
next
  case (Cons x xs)
  have "foldl (\<lambda>m c. m(f c \<mapsto> g c)) m0 (x # xs) = foldl (\<lambda>m c. m(f c \<mapsto> g c)) (m0(f x \<mapsto> g x)) xs"
    by simp
  also have "\<dots> = m0(f x \<mapsto> g x) ++ map_of (rev (map (\<lambda>c. (f c, g c)) xs))"
    by (rule Cons.IH)
  also have "\<dots> = m0 ++ map_of (rev (map (\<lambda>c. (f c, g c)) (x # xs)))"
    by (rule ext) (auto simp: map_add_def split: option.splits)
  finally show ?case .
qed

lemma NewUniversalSyncer_schema:
  assumes "NewUniversalSyncer tc cfg w = Inr s"
  shows "table_schema (w_source w) (table_Name tc) = Inr (tableSchema s)
     \<and> colTypeMap s = map_of (rev (map (\<lambda>c. (col_Name c, col_Type c)) (Columns (tableSchema s))))"
  using assms
  by (auto simp: NewUniversalSyncer_def Let_def foldl_upd_map_of split: sum.splits if_splits)

lemma insertBatch_commits:
  "batch \<noteq> [] \<Longrightarrow>
   tx_failure (w_target w) (w_committed w) (map (coerceRecord L (colTypeMap s) columns) batch) = None
   \<Longrightarrow> insertBatch L s batch columns w
       = (length batch, None,
          w\<lparr>w_committed := w_committed w @ map (coerceRecord L (colTypeMap s) columns) batch\<rparr>)"
  by (simp add: insertBatch_def)

text \<open>
  C9, as the code has it. The type tag of a column is the one of the schema detected on the
  source database (the target plays no part in it); \<open>insertBatch\<close> sends, for each record and
  column, the coerced value, and coercion is a total function with no error. A time value
  in a column whose tag contains \<open>DateTime\<close> becomes 1970-01-01T00:00:00Z when it is before
  1900-01-01T00:00:00Z or after 2262-04-11T23:47:16Z (the zero time is before the former). A
  string or byte string in a column whose tag contains \<open>Decimal\<close> becomes the decimal it
  parses to, and stays as it is when it does not parse. Every other value stays as it is.
\<close>

theorem C9_insert_coercion:
  "(NewUniversalSyncer tc cfg w = Inr s \<longrightarrow>
       table_schema (w_source w) (table_Name tc) = Inr (tableSchema s)
     \<and> colTypeMap s = map_of (rev (map (\<lambda>c. (col_Name c, col_Type c)) (Columns (tableSchema s)))))
   \<and> NewUniversalSyncer tc cfg (w\<lparr>w_target := tgt\<rparr>) = NewUniversalSyncer tc cfg w
   \<and> (batch \<noteq> [] \<and> tx_failure (w_target w) (w_committed w)
          (map (coerceRecord L (colTypeMap s) columns) batch) = None \<longrightarrow>
        insertBatch L s batch columns w
          = (length batch, None,
             w\<lparr>w_committed := w_committed w @ map (coerceRecord L (colTypeMap s) columns) batch\<rparr>))
   \<and> coerceRecord L ctm columns rcd = map (\<lambda>col. coerceValue L ctm col (index rcd col)) columns
   \<and> coerceValue L ctm col (VTime t) =
       (if (case ctm col of None \<Rightarrow> False | Some typeStr \<Rightarrow> Contains typeStr ''DateTime'')
           \<and> (unixNano t < unixNano (Date_UTC 1900 1 1 0 0 0 0)
              \<or> unixNano (Date_UTC 2262 4 11 23 47 16 0) < unixNano t)
        then VTime (Date_UTC 1970 1 1 0 0 0 0) else VTime t)
   \<and> coerceValue L ctm col (VString x) =
       (case ctm col of
          None \<Rightarrow> VString x
        | Some typeStr \<Rightarrow>
            if Contains typeStr ''Decimal''
            then (case NewFromString L x of Some d \<Rightarrow> VDecimal d | None \<Rightarrow> VString x)
            else VString x)
   \<and> coerceValue L ctm col (VBytes x) =
       (case ctm col of
          None \<Rightarrow> VBytes x
        | Some typeStr \<Rightarrow>
            if Contains typeStr ''Decimal''
            then (case NewFromString L x of Some d \<Rightarrow> VDecimal d | None \<Rightarrow> VBytes x)
            else VBytes x)
   \<and> ((case v of VTime _ \<Rightarrow> False | VString _ \<Rightarrow> False | VBytes _ \<Rightarrow> False | _ \<Rightarrow> True)
        \<longrightarrow> coerceValue L ctm col v = v)"
proof -
  have a: "NewUniversalSyncer tc cfg w = Inr s \<longrightarrow>
       table_schema (w_source w) (table_Name tc) = Inr (tableSchema s)
     \<and> colTypeMap s = map_of (rev (map (\<lambda>c. (col_Name c, col_Type c)) (Columns (tableSchema s))))"
    using NewUniversalSyncer_schema by blast
  have b: "NewUniversalSyncer tc cfg (w\<lparr>w_target := tgt\<rparr>) = NewUniversalSyncer tc cfg w"
    by (simp add: NewUniversalSyncer_def)
  have c: "batch \<noteq> [] \<and> tx_failure (w_target w) (w_committed w)
          (map (coerceRecord L (colTypeMap s) columns) batch) = None \<longrightarrow>
        insertBatch L s batch columns w
          = (length batch, None,
             w\<lparr>w_committed := w_committed w @ map (coerceRecord L (colTypeMap s) columns) batch\<rparr>)"
    using insertBatch_commits by blast
  have d: "coerceRecord L ctm columns rcd = map (\<lambda>col. coerceValue L ctm col (index rcd col)) columns"
    by (simp add: coerceRecord_def)
  have e: "coerceValue L ctm col (VTime t) =
       (if (case ctm col of None \<Rightarrow> False | Some typeStr \<Rightarrow> Contains typeStr ''DateTime'')
           \<and> (unixNano t < unixNano (Date_UTC 1900 1 1 0 0 0 0)
              \<or> unixNano (Date_UTC 2262 4 11 23 47 16 0) < unixNano t)
        then VTime (Date_UTC 1970 1 1 0 0 0 0) else VTime t)"
    unfolding coerceValue_time by (auto simp: Before_def After_def minTime_def maxTime_def defaultTime_def)
  have f: "(case v of VTime _ \<Rightarrow> False | VString _ \<Rightarrow> False | VBytes _ \<Rightarrow> False | _ \<Rightarrow> True)
        \<longrightarrow> coerceValue L ctm col v = v"
    using coerceValue_other by blast
  from a b c d e f coerceValue_string [of L ctm col x] coerceValue_bytes [of L ctm col x]
  show ?thesis by (intro conjI) assumption+
qed

theorem C9_insert_coercion_witness:
  "NewUniversalSyncer sample_table sample_config
      (sample_world (Date_UTC 2024 1 2 0 0 0 0)
         (sample_database (sample_schema ''String'') None None [])
         (sample_database (sample_schema ''DateTime'') None None [])) = Inr sample_syncer
   \<and> table_schema (sample_database (sample_schema ''String'') None None []) ''events''
       = Inr (tableSchema sample_syncer)
   \<and> colTypeMap sample_syncer ''amount'' = Some ''Decimal(18, 2)''
   \<and> insertBatch sample_lib sample_syncer
        [ [''id'' \<mapsto> VInt 7, ''ts'' \<mapsto> VTime (Date_UTC 1850 1 1 0 0 0 0), ''amount'' \<mapsto> VString ''1250''] ]
        [''id'', ''ts'', ''amount'', ''seen'']
        (sample_world (Date_UTC 2024 1 2 0 0 0 0)
           (sample_database (sample_schema ''String'') None None [])
           (sample_database (sample_schema ''DateTime'') None None []))
      = (1, None,
         (sample_world (Date_UTC 2024 1 2 0 0 0 0)
           (sample_database (sample_schema ''String'') None None [])
           (sample_database (sample_schema ''DateTime'') None None []))
         \<lparr>w_committed := [ [VInt 7, VTime (Date_UTC 1970 1 1 0 0 0 0),
                           VDecimal \<lparr>coefficient = 1250, exponent = 0\<rparr>, VNil] ]\<rparr>)
   \<and> coerceValue sample_lib (colTypeMap sample_syncer) ''amount'' (VBytes ''n/a'') = VBytes ''n/a''
   \<and> coerceValue sample_lib (colTypeMap sample_syncer) ''id'' (VInt 7) = VInt 7"
proof -
  let ?src = "sample_database (sample_schema ''String'') None None []"
  let ?tgt = "sample_database (sample_schema ''DateTime'') None None []"
  let ?w = "sample_world (Date_UTC 2024 1 2 0 0 0 0) ?src ?tgt"
  let ?batch = "[ [''id'' \<mapsto> VInt 7, ''ts'' \<mapsto> VTime (Date_UTC 1850 1 1 0 0 0 0), ''amount'' \<mapsto> VString ''1250''] ]"
  let ?cols = "[''id'', ''ts'', ''amount'', ''seen'']"
  have new: "NewUniversalSyncer sample_table sample_config ?w = Inr sample_syncer"
    by (simp add: NewUniversalSyncer_def sample_world_def sample_database_def sample_table_def
        sample_schema_def sample_columns_def HasColumn_def sample_syncer_def)
  have tags: "colTypeMap sample_syncer ''id'' = Some ''Int64''"
    "colTypeMap sample_syncer ''ts'' = Some ''DateTime64(3)''"
    "colTypeMap sample_syncer ''amount'' = Some ''Decimal(18, 2)''"
    "colTypeMap sample_syncer ''seen'' = Some ''String''"
    by (simp_all add: sample_syncer_def sample_columns_def)
  have tx: "tx_failure (w_target ?w) (w_committed ?w)
      (map (coerceRecord sample_lib (colTypeMap sample_syncer) ?cols) ?batch) = None"
    by (simp add: sample_world_def sample_database_def)
  have dec: "NewFromString sample_lib ''1250'' = Some \<lparr>coefficient = 1250, exponent = 0\<rparr>"
    "NewFromString sample_lib ''n/a'' = None"
    by (simp_all add: sample_lib_def is_digit_def digits_value_def)
  have old: "unixNano (Date_UTC 1850 1 1 0 0 0 0) < unixNano (Date_UTC 1900 1 1 0 0 0 0)"
    by (simp add: Date_UTC_def days_from_civil_def)
  note C = C9_insert_coercion [where tc = sample_table and cfg = sample_config and w = ?w
      and s = sample_syncer and L = sample_lib and batch = ?batch and columns = ?cols
      and ctm = "colTypeMap sample_syncer" and rcd = "hd ?batch"]
  note Ca = C [THEN conjunct1]
  note Cc = C [THEN conjunct2, THEN conjunct2, THEN conjunct1]
  note Cd = C [THEN conjunct2, THEN conjunct2, THEN conjunct2, THEN conjunct1]
  have Ce: "coerceValue sample_lib (colTypeMap sample_syncer) col (VTime t) =
       (if (case colTypeMap sample_syncer col of None \<Rightarrow> False
            | Some typeStr \<Rightarrow> Contains typeStr ''DateTime'')
           \<and> (unixNano t < unixNano (Date_UTC 1900 1 1 0 0 0 0)
              \<or> unixNano (Date_UTC 2262 4 11 23 47 16 0) < unixNano t)
        then VTime (Date_UTC 1970 1 1 0 0 0 0) else VTime t)" for col t
    by (rule C9_insert_coercion [where L = sample_lib and ctm = "colTypeMap sample_syncer"
          and col = col and t = t,
          THEN conjunct2, THEN conjunct2, THEN conjunct2, THEN conjunct2, THEN conjunct1])
  have Cf: "coerceValue sample_lib (colTypeMap sample_syncer) col (VString x) =
       (case colTypeMap sample_syncer col of
          None \<Rightarrow> VString x
        | Some typeStr \<Rightarrow>
            if Contains typeStr ''Decimal''
            then (case NewFromString sample_lib x of Some d \<Rightarrow> VDecimal d | None \<Rightarrow> VString x)
            else VString x)" for col x
    by (rule C9_insert_coercion [where L = sample_lib and ctm = "colTypeMap sample_syncer"
          and col = col and x = x,
          THEN conjunct2, THEN conjunct2, THEN conjunct2, THEN conjunct2, THEN conjunct2,
          THEN conjunct1])
  have Cg: "coerceValue sample_lib (colTypeMap sample_syncer) col (VBytes x) =
       (case colTypeMap sample_syncer col of
          None \<Rightarrow> VBytes x
        | Some typeStr \<Rightarrow>
            if Contains typeStr ''Decimal''
            then (case NewFromString sample_lib x of Some d \<Rightarrow> VDecimal d | None \<Rightarrow> VBytes x)
            else VBytes x)" for col x
    by (rule C9_insert_coercion [where L = sample_lib and ctm = "colTypeMap sample_syncer"
          and col = col and x = x,
          THEN conjunct2, THEN conjunct2, THEN conjunct2, THEN conjunct2, THEN conjunct2,
          THEN conjunct2, THEN conjunct1])
  have Ch: "(case v of VTime _ \<Rightarrow> False | VString _ \<Rightarrow> False | VBytes _ \<Rightarrow> False | _ \<Rightarrow> True)
        \<longrightarrow> coerceValue sample_lib (colTypeMap sample_syncer) col v = v" for col v
    by (rule C9_insert_coercion [where L = sample_lib and ctm = "colTypeMap sample_syncer"
          and col = col and v = v,
          THEN conjunct2, THEN conjunct2, THEN conjunct2, THEN conjunct2, THEN conjunct2,
          THEN conjunct2, THEN conjunct2])
  have v1: "coerceValue sample_lib (colTypeMap sample_syncer) ''id'' (VInt 7) = VInt 7"
    using Ch [of "VInt 7" "''id''"] by simp
  have v2: "coerceValue sample_lib (colTypeMap sample_syncer) ''ts'' (VTime (Date_UTC 1850 1 1 0 0 0 0))
      = VTime (Date_UTC 1970 1 1 0 0 0 0)"
    using old by (simp add: Ce tags)
  have v3: "coerceValue sample_lib (colTypeMap sample_syncer) ''amount'' (VString ''1250'')
      = VDecimal \<lparr>coefficient = 1250, exponent = 0\<rparr>"
    by (simp add: Cf tags dec)
  have v4: "coerceValue sample_lib (colTypeMap sample_syncer) ''seen'' VNil = VNil"
    using Ch [of VNil "''seen''"] by simp
  have rec: "coerceRecord sample_lib (colTypeMap sample_syncer) ?cols (hd ?batch)
      = [VInt 7, VTime (Date_UTC 1970 1 1 0 0 0 0), VDecimal \<lparr>coefficient = 1250, exponent = 0\<rparr>, VNil]"
    unfolding Cd using v1 v2 v3 v4 by (simp add: index_def)
  have tx': "tx_failure (w_target ?w) (w_committed ?w)
      (map (coerceRecord sample_lib (colTypeMap sample_syncer) ?cols) ?batch) = None"
    by (simp add: sample_world_def sample_database_def)
  have ins: "insertBatch sample_lib sample_syncer ?batch ?cols ?w
      = (1, None, ?w\<lparr>w_committed := [ [VInt 7, VTime (Date_UTC 1970 1 1 0 0 0 0),
                           VDecimal \<lparr>coefficient = 1250, exponent = 0\<rparr>, VNil] ]\<rparr>)"
  proof -
    have "insertBatch sample_lib sample_syncer ?batch ?cols ?w
      = (length ?batch, None,
         ?w\<lparr>w_committed := w_committed ?w @ map (coerceRecord sample_lib (colTypeMap sample_syncer) ?cols) ?batch\<rparr>)"
      using Cc tx' by blast
    moreover have "w_committed ?w = []" by (simp add: sample_world_def)
    moreover have "map (coerceRecord sample_lib (colTypeMap sample_syncer) ?cols) ?batch
       = [coerceRecord sample_lib (colTypeMap sample_syncer) ?cols (hd ?batch)]" by simp
    ultimately show ?thesis by (simp only: rec append_Nil list.size One_nat_def[symmetric]) simp
  qed
  have bytes: "coerceValue sample_lib (colTypeMap sample_syncer) ''amount'' (VBytes ''n/a'') = VBytes ''n/a''"
    by (simp add: Cg tags dec)
  have sch: "table_schema ?src ''events'' = Inr (tableSchema sample_syncer)"
    using Ca new by (simp add: sample_world_def sample_table_def)
  from new sch tags(3) ins bytes v1 show ?thesis by (intro conjI)
qed

text \<open>
  The claim as stated fails: the tag comes from the source schema, so a column the target
  declares a DateTime and the source a String keeps a time of the year 1850; and the
  upper bound is 23:47:16 on 2262-04-11, neither the start nor the end of that day.
\<close>

theorem C9_insert_coercion_counterexample:
  "NewUniversalSyncer sample_table sample_config
      (sample_world (Date_UTC 2024 1 2 0 0 0 0)
         (sample_database (sample_schema ''String'') None None [])
         (sample_database (sample_schema ''DateTime'') None None [])) = Inr sample_syncer
   \<and> map_of (map (\<lambda>c. (col_Name c, col_Type c)) (Columns (sample_schema ''DateTime''))) ''seen''
       = Some ''DateTime''
   \<and> Before (Date_UTC 1850 1 1 0 0 0 0) (Date_UTC 1900 1 1 0 0 0 0)
   \<and> coerceValue sample_lib (colTypeMap sample_syncer) ''seen'' (VTime (Date_UTC 1850 1 1 0 0 0 0))
       = VTime (Date_UTC 1850 1 1 0 0 0 0)
   \<and> coerceValue sample_lib (colTypeMap sample_syncer) ''ts'' (VTime (Date_UTC 2262 4 11 12 0 0 0))
       = VTime (Date_UTC 2262 4 11 12 0 0 0)
   \<and> coerceValue sample_lib (colTypeMap sample_syncer) ''ts'' (VTime (Date_UTC 2262 4 11 23 50 0 0))
       = VTime (Date_UTC 1970 1 1 0 0 0 0)"
proof -
  have new: "NewUniversalSyncer sample_table sample_config
      (sample_world (Date_UTC 2024 1 2 0 0 0 0)
         (sample_database (sample_schema ''String'') None None [])
         (sample_database (sample_schema ''DateTime'') None None [])) = Inr sample_syncer"
    by (simp add: NewUniversalSyncer_def sample_world_def sample_database_def sample_table_def
        sample_schema_def sample_columns_def HasColumn_def sample_syncer_def)
  have tgt: "map_of (map (\<lambda>c. (col_Name c, col_Type c)) (Columns (sample_schema ''DateTime''))) ''seen''
       = Some ''DateTime''"
    by (simp add: sample_schema_def sample_columns_def)
  have tags: "colTypeMap sample_syncer ''ts'' = Some ''DateTime64(3)''"
    "colTypeMap sample_syncer ''seen'' = Some ''String''"
    by (simp_all add: sample_syncer_def sample_columns_def)
  have bef: "Before (Date_UTC 1850 1 1 0 0 0 0) (Date_UTC 1900 1 1 0 0 0 0)"
    by (simp add: Before_def Date_UTC_def days_from_civil_def)
  have c1: "coerceValue sample_lib (colTypeMap sample_syncer) ''seen'' (VTime (Date_UTC 1850 1 1 0 0 0 0))
       = VTime (Date_UTC 1850 1 1 0 0 0 0)"
    by (simp add: coerceValue_time tags)
  have c2: "coerceValue sample_lib (colTypeMap sample_syncer) ''ts'' (VTime (Date_UTC 2262 4 11 12 0 0 0))
       = VTime (Date_UTC 2262 4 11 12 0 0 0)"
    by (simp add: coerceValue_time tags Before_def After_def minTime_def maxTime_def
        Date_UTC_def days_from_civil_def)
  have c3: "coerceValue sample_lib (colTypeMap sample_syncer) ''ts'' (VTime (Date_UTC 2262 4 11 23 50 0 0))
       = VTime (Date_UTC 1970 1 1 0 0 0 0)"
    by (simp add: coerceValue_time tags Before_def After_def minTime_def maxTime_def defaultTime_def
        Date_UTC_def days_from_civil_def)
  from new tgt bef c1 c2 c3 show ?thesis by (intro conjI)
qed

subsection \<open>Replay of a segment\<close>

lemma insertBatch_cases:
  assumes "insertBatch L s batch columns w = (n, err, w')"
  shows "(err = None \<and> n = length batch
          \<and> w' = w\<lparr>w_committed := w_committed w @ map (coerceRecord L (colTypeMap s) columns) batch\<rparr>)
       \<or> (err \<noteq> None \<and> n = 0 \<and> w' = w)"
proof (cases "batch = []")
  case True
  with assms show ?thesis by (simp add: insertBatch_def)
next
  case False
  show ?thesis
  proof (cases "tx_failure (w_target w) (w_committed w) (map (coerceRecord L (colTypeMap s) columns) batch)")
    case None
    with False assms show ?thesis by (simp add: insertBatch_def)
  next
    case (Some f)
    obtain step e where f: "f = (step, e)" by (cases f)
    with Some False assms show ?thesis
      by (cases step) (auto simp: insertBatch_def)
  qed
qed

text \<open>
  What the loop over the source rows has committed when it ends: the records of some list
  \<open>ins\<close>, coerced, in order; each record it committed or still holds in its batch was in
  the batch at the start or was scanned from a row and has a key outside the existing keys.
\<close>

lemma streamRows_commits:
  assumes "streamRows L s K cols bs items batch tot w = (n, err, batch', w')"
  shows "\<exists>ins. w' = w\<lparr>w_committed := w_committed w @ map (coerceRecord L (colTypeMap s) cols) ins\<rparr>
           \<and> n = tot + length ins
           \<and> (\<forall>r \<in> set ins \<union> set batch'. r \<in> set batch
                 \<or> (BuildKey L (deduplicator s) r \<notin> K \<and> (\<exists>item \<in> set items. scanRow cols item = Inr r)))"
  using assms
proof (induction items arbitrary: batch tot w)
  case Nil
  then have "w' = w" "n = tot" "batch' = batch" by simp_all
  then show ?case by (intro exI [of _ "[]"]) simp
next
  case (Cons item items)
  show ?case
  proof (cases "scanRow cols item")
    case (Inl e)
    with Cons.prems have "w' = w" "n = tot" "batch' = batch" by simp_all
    then show ?thesis by (intro exI [of _ "[]"]) simp
  next
    case (Inr rcd)
    show ?thesis
    proof (cases "BuildKey L (deduplicator s) rcd \<in> K")
      case True
      with Inr Cons.prems
      have "streamRows L s K cols bs items batch tot w = (n, err, batch', w')" by simp
      from Cons.IH [OF this] show ?thesis by auto
    next
      case False
      let ?b = "batch @ [rcd]"
      have fresh: "\<forall>r \<in> set ?b. r \<in> set batch
          \<or> (BuildKey L (deduplicator s) r \<notin> K \<and> (\<exists>it \<in> set (item # items). scanRow cols it = Inr r))"
        using False Inr by auto
      show ?thesis
      proof (cases "int (length ?b) \<ge> bs")
        case full: True
        obtain k e w1 where ib: "insertBatch L s ?b cols w = (k, e, w1)"
          by (cases "insertBatch L s ?b cols w") auto
        show ?thesis
        proof (cases e)
          case (Some er)
          with ib insertBatch_cases [OF ib] have w1: "w1 = w" by simp
          from Some ib full False Inr Cons.prems
          have "w' = w1" "n = tot" "batch' = ?b" by (simp_all add: Let_def)
          with w1 fresh show ?thesis by (intro exI [of _ "[]"]) simp
        next
          case None
          with insertBatch_cases [OF ib]
          have k: "k = length ?b"
            and w1: "w1 = w\<lparr>w_committed := w_committed w @ map (coerceRecord L (colTypeMap s) cols) ?b\<rparr>"
            by simp_all
          from None ib full False Inr Cons.prems
          have "streamRows L s K cols bs items [] (tot + k) w1 = (n, err, batch', w')"
            by (simp add: Let_def)
          from Cons.IH [OF this] obtain ins where
            i1: "w' = w1\<lparr>w_committed := w_committed w1 @ map (coerceRecord L (colTypeMap s) cols) ins\<rparr>"
            and i2: "n = tot + k + length ins"
            and i3: "\<forall>r \<in> set ins \<union> set batch'. r \<in> set []
                 \<or> (BuildKey L (deduplicator s) r \<notin> K \<and> (\<exists>it \<in> set items. scanRow cols it = Inr r))"
            by blast
          have a: "w' = w\<lparr>w_committed := w_committed w @ map (coerceRecord L (colTypeMap s) cols) (?b @ ins)\<rparr>"
            using i1 w1 by simp
          have b: "n = tot + length (?b @ ins)" using i2 k by simp
          have c: "\<forall>r \<in> set (?b @ ins) \<union> set batch'. r \<in> set batch
              \<or> (BuildKey L (deduplicator s) r \<notin> K \<and> (\<exists>it \<in> set (item # items). scanRow cols it = Inr r))"
            using i3 fresh by auto
          from a b c show ?thesis by blast
        qed
      next
        case notfull: False
        with False Inr Cons.prems
        have "streamRows L s K cols bs items ?b tot w = (n, err, batch', w')"
          by (simp add: Let_def)
        from Cons.IH [OF this] obtain ins where
          i1: "w' = w\<lparr>w_committed := w_committed w @ map (coerceRecord L (colTypeMap s) cols) ins\<rparr>"
          and i2: "n = tot + length ins"
          and i3: "\<forall>r \<in> set ins \<union> set batch'. r \<in> set ?b
               \<or> (BuildKey L (deduplicator s) r \<notin> K \<and> (\<exists>it \<in> set items. scanRow cols it = Inr r))"
          by blast
        have "\<forall>r \<in> set ins \<union> set batch'. r \<in> set batch
              \<or> (BuildKey L (deduplicator s) r \<notin> K \<and> (\<exists>it \<in> set (item # items). scanRow cols it = Inr r))"
          using i3 fresh by auto
        with i1 i2 show ?thesis by blast
      qed
    qed
  qed
qed

lemma syncSegment_commits:
  assumes fetch: "FetchExistingKeys L (deduplicator s) (w_target w) (w_committed w) (tableName s)
                    segment (tableSchema s) = Inr K"
    and rows: "query_rows (w_source w) (w_committed w)
                 (rowsQuery (GetColumnNames (tableSchema s)) (tableName s) (TimeField (tableConfig s)) segment)
               = Inr (items, final)"
    and run: "syncSegment L s segment w = (n, err, w')"
  shows "\<exists>ins. w' = w\<lparr>w_committed := w_committed w
                     @ map (coerceRecord L (colTypeMap s) (GetColumnNames (tableSchema s))) ins\<rparr>
           \<and> n = length ins
           \<and> (\<forall>r \<in> set ins. BuildKey L (deduplicator s) r \<notin> K
                 \<and> (\<exists>item \<in> set items. scanRow (GetColumnNames (tableSchema s)) item = Inr r))"
proof -
  let ?cols = "GetColumnNames (tableSchema s)"
  let ?bs = "GetEffectiveBatchSize (tableConfig s) (sync_BatchSize (Sync (config s)))"
  let ?P = "\<lambda>ins. w' = w\<lparr>w_committed := w_committed w @ map (coerceRecord L (colTypeMap s) ?cols) ins\<rparr>
           \<and> n = length ins
           \<and> (\<forall>r \<in> set ins. BuildKey L (deduplicator s) r \<notin> K
                 \<and> (\<exists>item \<in> set items. scanRow ?cols item = Inr r))"
  show ?thesis
  proof (cases "?bs < 0")
    case True
    with fetch rows run have "w' = w" "n = 0" by (simp_all add: syncSegment_def Let_def)
    then have "?P []" by simp
    then show ?thesis ..
  next
    case False
    obtain n1 e1 b1 w1 where sr: "streamRows L s K ?cols ?bs items [] 0 w = (n1, e1, b1, w1)"
      by (cases "streamRows L s K ?cols ?bs items [] 0 w") auto
    from streamRows_commits [OF sr] obtain ins where
      i1: "w1 = w\<lparr>w_committed := w_committed w @ map (coerceRecord L (colTypeMap s) ?cols) ins\<rparr>"
      and i2: "n1 = length ins"
      and i3: "\<forall>r \<in> set ins \<union> set b1. BuildKey L (deduplicator s) r \<notin> K
                 \<and> (\<exists>item \<in> set items. scanRow ?cols item = Inr r)"
      by auto
    have early: "?P ins" if "w' = w1" "n = n1"
      using that i1 i2 i3 by simp
    show ?thesis
    proof (cases e1)
      case (Some er)
      with fetch rows run False sr have "w' = w1" "n = n1" by (simp_all add: syncSegment_def Let_def)
      with early show ?thesis by blast
    next
      case None
      note loop_done = None
      show ?thesis
      proof (cases final)
        case (Some er)
        with loop_done fetch rows run False sr have "w' = w1" "n = n1"
          by (simp_all add: syncSegment_def Let_def)
        with early show ?thesis by blast
      next
        case None
        note no_final = None
        show ?thesis
        proof (cases "b1 = []")
          case True
          with no_final loop_done fetch rows run False sr have "w' = w1" "n = n1"
            by (simp_all add: syncSegment_def Let_def)
          with early show ?thesis by blast
        next
          case nonempty: False
          obtain k e2 w2 where ib: "insertBatch L s b1 ?cols w1 = (k, e2, w2)"
            by (cases "insertBatch L s b1 ?cols w1") auto
          show ?thesis
          proof (cases e2)
            case (Some er)
            with insertBatch_cases [OF ib] have "w2 = w1" by simp
            moreover from Some ib nonempty no_final loop_done fetch rows run False sr
            have "w' = w2" "n = n1" by (simp_all add: syncSegment_def Let_def)
            ultimately show ?thesis using early by blast
          next
            case None
            with insertBatch_cases [OF ib]
            have k: "k = length b1"
              and w2: "w2 = w1\<lparr>w_committed := w_committed w1 @ map (coerceRecord L (colTypeMap s) ?cols) b1\<rparr>"
              by simp_all
            from None ib nonempty no_final loop_done fetch rows run False sr
            have "w' = w2" "n = n1 + k" by (simp_all add: syncSegment_def Let_def)
            with k w2 i1 i2 i3 have "?P (ins @ b1)" by auto
            then show ?thesis ..
          qed
        qed
      qed
    qed
  qed
qed

text \<open>
  C8. A call of \<open>syncSegment\<close> that has fetched the existing keys and opened the source rows
  commits, whatever else happens, the coerced records of a list \<open>ins\<close> and returns its
  length; every record of the list was scanned from a source row and has a key that is not
  among the existing keys. So a source row with an existing key is never inserted; and
  when every source row has an existing key, the call leaves the world as it was and
  returns the count 0.
\<close>

theorem C8_replay_idempotence:
  assumes "FetchExistingKeys L (deduplicator s) (w_target w) (w_committed w) (tableName s)
             segment (tableSchema s) = Inr existingKeys"
    and "query_rows (w_source w) (w_committed w)
           (rowsQuery (GetColumnNames (tableSchema s)) (tableName s) (TimeField (tableConfig s)) segment)
         = Inr (items, final)"
    and "syncSegment L s segment w = (n, err, w')"
  shows "(\<exists>ins. w' = w\<lparr>w_committed := w_committed w
                     @ map (coerceRecord L (colTypeMap s) (GetColumnNames (tableSchema s))) ins\<rparr>
           \<and> n = length ins
           \<and> (\<forall>r \<in> set ins. BuildKey L (deduplicator s) r \<notin> existingKeys
                 \<and> (\<exists>item \<in> set items. scanRow (GetColumnNames (tableSchema s)) item = Inr r)))
       \<and> ((\<forall>item \<in> set items. \<forall>r. scanRow (GetColumnNames (tableSchema s)) item = Inr r
               \<longrightarrow> BuildKey L (deduplicator s) r \<in> existingKeys)
            \<longrightarrow> n = 0 \<and> w' = w)"
proof -
  from syncSegment_commits [OF assms] obtain ins where
    i1: "w' = w\<lparr>w_committed := w_committed w
                     @ map (coerceRecord L (colTypeMap s) (GetColumnNames (tableSchema s))) ins\<rparr>"
    and i2: "n = length ins"
    and i3: "\<forall>r \<in> set ins. BuildKey L (deduplicator s) r \<notin> existingKeys
                 \<and> (\<exists>item \<in> set items. scanRow (GetColumnNames (tableSchema s)) item = Inr r)"
    by blast
  have "n = 0 \<and> w' = w"
    if all: "\<forall>item \<in> set items. \<forall>r. scanRow (GetColumnNames (tableSchema s)) item = Inr r
               \<longrightarrow> BuildKey L (deduplicator s) r \<in> existingKeys"
  proof -
    have "ins = []"
    proof (rule ccontr)
      assume "ins \<noteq> []"
      then obtain r where "r \<in> set ins" by (cases ins) auto
      with i3 all show False by blast
    qed
    with i1 i2 show ?thesis by simp
  qed
  with i1 i2 i3 show ?thesis by blast
qed
theorem C8_replay_idempotence_witness:
  "fst (syncSegment sample_lib sample_syncer
          \<lparr>Start = Date_UTC 2024 1 1 0 0 0 0, End = Date_UTC 2024 1 2 0 0 0 0\<rparr>
          (sample_world (Date_UTC 2024 1 2 0 0 0 0)
             (sample_database (sample_schema ''String'') None None
                [Inr [VInt 1, VTime (Date_UTC 2024 1 1 8 0 0 0), VString ''10'', VString ''a''],
                 Inr [VInt 2, VTime (Date_UTC 2024 1 1 9 0 0 0), VString ''20'', VString ''b''] ])
             (sample_database (sample_schema ''String'') None None [Inr [VInt 1], Inr [VInt 2] ]))) = 0
   \<and> snd (snd (syncSegment sample_lib sample_syncer
          \<lparr>Start = Date_UTC 2024 1 1 0 0 0 0, End = Date_UTC 2024 1 2 0 0 0 0\<rparr>
          (sample_world (Date_UTC 2024 1 2 0 0 0 0)
             (sample_database (sample_schema ''String'') None None
                [Inr [VInt 1, VTime (Date_UTC 2024 1 1 8 0 0 0), VString ''10'', VString ''a''],
                 Inr [VInt 2, VTime (Date_UTC 2024 1 1 9 0 0 0), VString ''20'', VString ''b''] ])
             (sample_database (sample_schema ''String'') None None [Inr [VInt 1], Inr [VInt 2] ]))))
     = sample_world (Date_UTC 2024 1 2 0 0 0 0)
             (sample_database (sample_schema ''String'') None None
                [Inr [VInt 1, VTime (Date_UTC 2024 1 1 8 0 0 0), VString ''10'', VString ''a''],
                 Inr [VInt 2, VTime (Date_UTC 2024 1 1 9 0 0 0), VString ''20'', VString ''b''] ])
             (sample_database (sample_schema ''String'') None None [Inr [VInt 1], Inr [VInt 2] ])"
proof -
  let ?seg = "\<lparr>Start = Date_UTC 2024 1 1 0 0 0 0, End = Date_UTC 2024 1 2 0 0 0 0\<rparr>"
  let ?items = "[Inr [VInt 1, VTime (Date_UTC 2024 1 1 8 0 0 0), VString ''10'', VString ''a''],
                 Inr [VInt 2, VTime (Date_UTC 2024 1 1 9 0 0 0), VString ''20'', VString ''b''] ]
                :: (error + val list) list"
  let ?src = "sample_database (sample_schema ''String'') None None ?items"
  let ?tgt = "sample_database (sample_schema ''String'') None None [Inr [VInt 1], Inr [VInt 2] ]"
  let ?w = "sample_world (Date_UTC 2024 1 2 0 0 0 0) ?src ?tgt"
  let ?cols = "GetColumnNames (tableSchema sample_syncer)"
  have k1: "buildKeyFromValues sample_lib [VInt 1] = ''1''"
    and k2: "buildKeyFromValues sample_lib [VInt 2] = ''2''"
    by code_simp+
  have cols: "?cols = [''id'', ''ts'', ''amount'', ''seen'']"
    by (simp add: GetColumnNames_def sample_syncer_def sample_schema_def sample_columns_def)
  have ded: "deduplicator sample_syncer = \<lparr>dedupeKeys = [''id''], timeField = ''ts''\<rparr>"
    by (simp add: sample_syncer_def NewDeduplicator_def)
  have has: "HasColumn (tableSchema sample_syncer) ''id''"
    by (simp add: HasColumn_def sample_syncer_def sample_schema_def sample_columns_def)
  have fetch: "FetchExistingKeys sample_lib (deduplicator sample_syncer) (w_target ?w) (w_committed ?w)
      (tableName sample_syncer) ?seg (tableSchema sample_syncer) = Inr {''2'', ''1''}"
    unfolding ded
    by (simp add: FetchExistingKeys_def has sample_world_def sample_database_def Scan_def k1 k2)
  have rows: "query_rows (w_source ?w) (w_committed ?w)
      (rowsQuery ?cols (tableName sample_syncer) (TimeField (tableConfig sample_syncer)) ?seg)
      = Inr (?items, None)"
    by (simp add: sample_world_def sample_database_def)
  have keys: "\<forall>item \<in> set ?items. \<forall>r. scanRow ?cols item = Inr r
      \<longrightarrow> BuildKey sample_lib (deduplicator sample_syncer) r \<in> {''2'', ''1''}"
    unfolding cols ded
    by (auto simp: scanRow_def Scan_def BuildKey_def index_def k1 k2)
  from C8_replay_idempotence [where L = sample_lib and s = sample_syncer and w = ?w and segment = ?seg
      and existingKeys = "{''2'', ''1''}" and items = ?items and final = None
      and n = "fst (syncSegment sample_lib sample_syncer ?seg ?w)"
      and err = "fst (snd (syncSegment sample_lib sample_syncer ?seg ?w))"
      and w' = "snd (snd (syncSegment sample_lib sample_syncer ?seg ?w))", OF fetch rows] keys
  show ?thesis by simp
qed
subsection \<open>Segments of a time range\<close>

lemma segmentLoop_stalled:
  assumes "Before cur endT" and "Add (end_of_day cur) (1 * Nanosecond) = cur"
  shows "segmentLoop endT cur segs = None"
proof -
  have "\<not> (Before cur endT \<and> Add (end_of_day cur) (1 * Nanosecond) = cur)"
    if run: "segmentLoop endT cur segs = Some y" for y
  proof (rule segmentLoop.raw_induct [where P = "\<lambda>e c s y.
        \<not> (Before c e \<and> Add (end_of_day c) (1 * Nanosecond) = c)", OF _ run])
    fix f e c s y
    assume IH: "\<And>e c s y. f e c s = Some y
        \<Longrightarrow> \<not> (Before c e \<and> Add (end_of_day c) (1 * Nanosecond) = c)"
      and body: "(if Before c e
          then let dayEnd = Add (end_of_day c) (1 * Nanosecond);
                   dayEnd' = if After dayEnd e then e else dayEnd
               in f e dayEnd' (s @ [\<lparr>Start = c, End = dayEnd'\<rparr>])
          else Some s) = Some y"
    show "\<not> (Before c e \<and> Add (end_of_day c) (1 * Nanosecond) = c)"
    proof
      assume st: "Before c e \<and> Add (end_of_day c) (1 * Nanosecond) = c"
      then have "\<not> After c e" by (simp add: Before_def After_def)
      with st body have "f e c (s @ [\<lparr>Start = c, End = c\<rparr>]) = Some y" by (simp add: Let_def)
      from IH [OF this] st show False by simp
    qed
  qed
  with assms show ?thesis by (cases "segmentLoop endT cur segs") auto
qed

lemma end_of_day_loc: "loc (Add (end_of_day t) d) = loc t"
  by (simp add: Add_def end_of_day_def Date_wall_def Let_def split: prod.splits)

lemma segmentLoop_tiles:
  assumes "advances (loc cur)"
  shows "\<exists>new. segmentLoop endT cur segs = Some (segs @ new)
          \<and> (if Before cur endT then chain cur endT new else new = [])
          \<and> (\<forall>x \<in> set (butlast new). End x = Add (end_of_day (Start x)) (1 * Nanosecond))"
  using assms
proof (induction "nat (unixNano endT - unixNano cur)" arbitrary: cur segs rule: less_induct)
  case less
  show ?case
  proof (cases "Before cur endT")
    case False
    then have "segmentLoop endT cur segs = Some (segs @ [])"
      by (subst segmentLoop.simps) simp
    with False show ?thesis by (intro exI [of _ "[]"]) simp
  next
    case True
    let ?d = "Add (end_of_day cur) (1 * Nanosecond)"
    have adv: "Before cur ?d" using less.prems by (simp add: advances_def)
    show ?thesis
    proof (cases "After ?d endT")
      case after: True
      let ?x = "\<lparr>Start = cur, End = endT\<rparr>"
      have "segmentLoop endT cur segs = segmentLoop endT endT (segs @ [?x])"
        using True after by (subst segmentLoop.simps) (simp add: Let_def)
      also have "\<dots> = Some (segs @ [?x])"
        by (subst segmentLoop.simps) (simp add: Before_def)
      finally have "segmentLoop endT cur segs = Some (segs @ [?x])" .
      moreover have "chain cur endT [?x]" using True by (simp add: Equal_def)
      ultimately show ?thesis using True by (intro exI [of _ "[?x]"]) simp
    next
      case notafter: False
      let ?x = "\<lparr>Start = cur, End = ?d\<rparr>"
      have step: "segmentLoop endT cur segs = segmentLoop endT ?d (segs @ [?x])"
        using True notafter by (subst segmentLoop.simps) (simp add: Let_def)
      have dec: "nat (unixNano endT - unixNano ?d) < nat (unixNano endT - unixNano cur)"
        using adv True by (simp add: Before_def)
      have "advances (loc ?d)" using less.prems by (simp add: end_of_day_loc)
      from less.hyps [OF dec this, of "segs @ [?x]"] obtain new where
        n1: "segmentLoop endT ?d (segs @ [?x]) = Some ((segs @ [?x]) @ new)"
        and n2: "if Before ?d endT then chain ?d endT new else new = []"
        and n3: "\<forall>x \<in> set (butlast new). End x = Add (end_of_day (Start x)) (1 * Nanosecond)"
        by blast
      have r1: "segmentLoop endT cur segs = Some (segs @ (?x # new))"
        using step n1 by simp
      have r2: "chain cur endT (?x # new)"
      proof (cases "Before ?d endT")
        case True
        with n2 adv show ?thesis by simp
      next
        case False
        with notafter have "Equal ?d endT" by (simp add: Before_def After_def Equal_def)
        with False n2 adv show ?thesis by simp
      qed
      have r3: "\<forall>x \<in> set (butlast (?x # new)). End x = Add (end_of_day (Start x)) (1 * Nanosecond)"
        using n3 by (cases new) auto
      from r1 r2 r3 True show ?thesis by (intro exI [of _ "?x # new"]) simp
    qed
  qed
qed

lemma segmentTimeRange_tiles:
  assumes "DailySegmentation (Sync (config s))" and "advances (loc (range_Start tr))"
  shows "\<exists>segs. segmentTimeRange s tr = Some segs
          \<and> (segs \<noteq> []) = Before (range_Start tr) (range_End tr)
          \<and> (if Before (range_Start tr) (range_End tr)
              then chain (range_Start tr) (range_End tr) segs else segs = [])
          \<and> (\<forall>x \<in> set (butlast segs). End x = Add (end_of_day (Start x)) (1 * Nanosecond))"
proof -
  from segmentLoop_tiles [OF assms(2), of "range_End tr" "[]"] obtain new where
    n: "segmentLoop (range_End tr) (range_Start tr) [] = Some new"
      "if Before (range_Start tr) (range_End tr)
       then chain (range_Start tr) (range_End tr) new else new = []"
      "\<forall>x \<in> set (butlast new). End x = Add (end_of_day (Start x)) (1 * Nanosecond)"
    by auto
  have "(new \<noteq> []) = Before (range_Start tr) (range_End tr)"
    using n(2) by (cases new) (auto simp: Before_def Equal_def split: if_splits)
  with n assms(1) show ?thesis by (simp add: segmentTimeRange_def)
qed

lemma segmentTimeRange_single:
  "\<not> DailySegmentation (Sync (config s))
   \<Longrightarrow> segmentTimeRange s tr = Some [\<lparr>Start = range_Start tr, End = range_End tr\<rparr>]"
  by (simp add: segmentTimeRange_def)

lemma FixedZone_midnight:
  assumes "loc t = FixedZone off"
  shows "unixNano (Add (end_of_day t) (1 * Nanosecond))
           = (((unixNano t div 1000000000 + off) div 86400 + 1) * 86400 - off) * 1000000000"
  using assms
  by (simp add: Add_def end_of_day_def Date_wall_def local_day_def lookup_def FixedZone_def
      Nanosecond_def Let_def)

lemma int_next_multiple:
  fixes x d :: int
  assumes "0 < d"
  shows "x < (x div d + 1) * d"
proof -
  have "x mod d < d" using assms by simp
  moreover have "x div d * d + x mod d = x" by simp
  moreover have "(x div d + 1) * d = x div d * d + d" by (simp add: distrib_right)
  ultimately show ?thesis by linarith
qed

lemma advances_FixedZone: "advances (FixedZone off)"
proof -
  have "unixNano t < unixNano (Add (end_of_day t) (1 * Nanosecond))" if l: "loc t = FixedZone off" for t
  proof -
    define sec where "sec = unixNano t div 1000000000"
    define day where "day = (sec + off) div 86400"
    have "sec + off < (day + 1) * 86400"
      unfolding day_def by (rule int_next_multiple) simp
    then have "sec + 1 \<le> (day + 1) * 86400 - off" by linarith
    then have "(sec + 1) * 1000000000 \<le> ((day + 1) * 86400 - off) * 1000000000"
      by (rule mult_right_mono) simp
    moreover have "unixNano t < (sec + 1) * 1000000000"
      unfolding sec_def by (rule int_next_multiple) simp
    ultimately show ?thesis
      unfolding FixedZone_midnight [OF l] day_def sec_def by linarith
  qed
  then show ?thesis by (simp add: advances_def Before_def)
qed

lemma FixedZone_midnight_local:
  assumes "loc t = FixedZone off"
  shows "(unixNano (Add (end_of_day t) (1 * Nanosecond)) div 1000000000 + off) mod 86400 = 0
       \<and> unixNano (Add (end_of_day t) (1 * Nanosecond)) mod 1000000000 = 0"
  unfolding FixedZone_midnight [OF assms] by simp

text \<open>
  C3. With daily segmentation disabled the result is the single segment from the start to
  the end of the range, and in a location that advances, as every fixed-offset zone does,
  the segments tile the range (\<open>segmentTimeRange_single\<close>, \<open>segmentTimeRange_tiles\<close>,
  \<open>advances_FixedZone\<close>). But not for every pair of timestamps: from noon of Saturday, 6 April
  2024, to midnight of Monday, 8 April 2024, in America/Santiago, the first segment ends
  at 2024-04-07T03:00:00Z, where the clocks go back to 23:00 of Saturday; the day boundary
  computed from there is that same instant, and \<open>segmentTimeRange\<close> never returns.
\<close>

theorem C3_segment_tiling_stalls:
  "Before santiago_noon santiago_monday
   \<and> Add (end_of_day santiago_noon) (1 * Nanosecond)
       = \<lparr>unixNano = 1712458800 * 1000000000, loc = America_Santiago\<rparr>
   \<and> Add (end_of_day \<lparr>unixNano = 1712458800 * 1000000000, loc = America_Santiago\<rparr>) (1 * Nanosecond)
       = \<lparr>unixNano = 1712458800 * 1000000000, loc = America_Santiago\<rparr>
   \<and> segmentTimeRange daily_syncer \<lparr>range_Start = santiago_noon, range_End = santiago_monday\<rparr> = None"
proof -
  let ?T = "\<lparr>unixNano = 1712458800 * 1000000000, loc = America_Santiago\<rparr>"
  have b0: "Before santiago_noon santiago_monday"
    by (simp add: Before_def santiago_noon_def santiago_monday_def)
  have d1: "Add (end_of_day santiago_noon) (1 * Nanosecond) = ?T"
    by code_simp
  have d2: "Add (end_of_day ?T) (1 * Nanosecond) = ?T"
    by code_simp
  have b1: "Before ?T santiago_monday" "\<not> After ?T santiago_monday"
    by (simp_all add: Before_def After_def santiago_monday_def)
  have daily: "DailySegmentation (Sync (config daily_syncer))"
    by (simp add: daily_syncer_def)
  have "segmentTimeRange daily_syncer \<lparr>range_Start = santiago_noon, range_End = santiago_monday\<rparr>
      = segmentLoop santiago_monday santiago_noon []"
    using daily by (simp add: segmentTimeRange_def)
  also have "\<dots> = segmentLoop santiago_monday ?T [\<lparr>Start = santiago_noon, End = ?T\<rparr>]"
    using b0 b1 by (subst segmentLoop.simps) (simp add: d1 [simplified] Let_def)
  also have "\<dots> = None"
    using b1(1) d2 by (rule segmentLoop_stalled)
  finally show ?thesis using b0 d1 d2 by (intro conjI)
qed

text \<open>The tiling in UTC, on a range of a day and a half.\<close>

lemma segmentTimeRange_tiles_UTC:
  "\<exists>segs. segmentTimeRange daily_syncer
       \<lparr>range_Start = Date_UTC 2024 1 1 0 0 0 0, range_End = Date_UTC 2024 1 2 12 0 1 0\<rparr> = Some segs
     \<and> chain (Date_UTC 2024 1 1 0 0 0 0) (Date_UTC 2024 1 2 12 0 1 0) segs"
proof -
  have "advances (loc (range_Start
      \<lparr>range_Start = Date_UTC 2024 1 1 0 0 0 0, range_End = Date_UTC 2024 1 2 12 0 1 0\<rparr>))"
    using advances_FixedZone [of 0] by (simp add: Date_UTC_def UTC_def FixedZone_def)
  moreover have "DailySegmentation (Sync (config daily_syncer))"
    by (simp add: daily_syncer_def)
  moreover have "Before (Date_UTC 2024 1 1 0 0 0 0) (Date_UTC 2024 1 2 12 0 1 0)"
    by (simp add: Before_def Date_UTC_def days_from_civil_def)
  ultimately show ?thesis
    using segmentTimeRange_tiles [of daily_syncer
        "\<lparr>range_Start = Date_UTC 2024 1 1 0 0 0 0, range_End = Date_UTC 2024 1 2 12 0 1 0\<rparr>"]
    by auto
qed

lemma segmentTimeRange_two_days:
  "segmentTimeRange daily_syncer
       \<lparr>range_Start = Date_UTC 2024 1 1 0 0 0 0, range_End = Date_UTC 2024 1 2 12 0 1 0\<rparr>
     = Some [\<lparr>Start = Date_UTC 2024 1 1 0 0 0 0, End = Date_UTC 2024 1 2 0 0 0 0\<rparr>,
             \<lparr>Start = Date_UTC 2024 1 2 0 0 0 0, End = Date_UTC 2024 1 2 12 0 1 0\<rparr>]"
  by code_simp
subsection \<open>The catch-up window\<close>

lemma determineStart_world:
  "w_committed (snd (determineStart L s e w)) = w_committed w
   \<and> w_state (snd (determineStart L s e w)) = w_state w
   \<and> w_files (snd (determineStart L s e w)) = w_files w"
  by (auto simp: determineStart_def Let_def split: sum.splits prod.splits option.splits)

lemma determineTimeRange_world:
  "w_committed (snd (determineTimeRange L s w)) = w_committed w
   \<and> w_state (snd (determineTimeRange L s w)) = w_state w
   \<and> w_files (snd (determineTimeRange L s w)) = w_files w"
proof (cases "determineEnd L s w")
  case (Inl e)
  then show ?thesis by (simp add: determineTimeRange_def)
next
  case (Inr e)
  obtain r w1 where d: "determineStart L s e w = (r, w1)" by (cases "determineStart L s e w") auto
  with determineStart_world [of L s e w] Inr show ?thesis
    by (cases r) (simp_all add: determineTimeRange_def)
qed

text \<open>
  C6, as the code has it. The end of the window is the configured end when there is one;
  else the source maximum + 1 s when that probe is not NULL and lies strictly between
  1900-01-01T00:00:00Z and now + 24 h, else the error \<open>ErrSourceTableEmpty\<close>. Under
  auto-detect the start is the target maximum + 1 ms when that probe is not NULL and lies
  strictly between 1900-01-01T00:00:00Z and the end of the window + 24 h; otherwise
  \<open>ErrSourceTableEmpty\<close> when the least or the greatest source time is NULL, else the later of
  the least source time and now minus the fallback days. With auto-detect off, a configured
  start is used as it parses. A window whose start is not before its end makes
  \<open>incrementalSync\<close> return at once, with nothing committed and no checkpoint changed.
\<close>

theorem C6_catch_up_window:
  "(cfg_End (TimeRange (config s)) \<noteq> [] \<and> Parse_RFC3339 L (cfg_End (TimeRange (config s))) = Inr e
      \<longrightarrow> determineEnd L s w = Inr e)
   \<and> (cfg_End (TimeRange (config s)) = []
       \<and> scanNullTime (query_time (w_source w) (w_committed w)
            (maxQuery (TimeField (tableConfig s)) (tableName s))) = Inr src
      \<longrightarrow> determineEnd L s w =
            (if validTime src (Add (w_now w) (24 * Hour))
             then Inr (Add (timeOf src) (1 * Second)) else Inl ErrSourceTableEmpty))
   \<and> (AutoDetect (TimeRange (config s))
       \<and> scanNullTime (query_time (w_target w) (w_committed w)
            (maxQuery (TimeField (tableConfig s)) (tableName s))) = Inr tgt
       \<and> validTime tgt (Add endTime (24 * Hour))
      \<longrightarrow> determineStart L s endTime w = (Inr (Add (timeOf tgt) (1 * Millisecond)), w))
   \<and> (AutoDetect (TimeRange (config s))
       \<and> scanNullTime (query_time (w_target w) (w_committed w)
            (maxQuery (TimeField (tableConfig s)) (tableName s))) = Inr tgt
       \<and> \<not> validTime tgt (Add endTime (24 * Hour))
       \<and> scanNullTimes (query_times (w_source w) (w_committed w)
            (minMaxQuery (TimeField (tableConfig s)) (tableName s))) = Inr (smin, smax)
      \<longrightarrow> fst (determineStart L s endTime w) =
            (if smin = None \<or> smax = None then Inl ErrSourceTableEmpty
             else if After (timeOf smin) (AddDate_days L (w_now w) (- FallbackDays (TimeRange (config s))))
               then Inr (timeOf smin)
               else Inr (AddDate_days L (w_now w) (- FallbackDays (TimeRange (config s))))))
   \<and> (\<not> AutoDetect (TimeRange (config s)) \<and> cfg_Start (TimeRange (config s)) \<noteq> []
       \<and> Parse_RFC3339 L (cfg_Start (TimeRange (config s))) = Inr st
      \<longrightarrow> determineStart L s endTime w = (Inr st, w))
   \<and> (determineEnd L s w = Inr endTime \<and> determineStart L s endTime w = (Inr startTime, w1)
      \<longrightarrow> determineTimeRange L s w = (Inr \<lparr>range_Start = startTime, range_End = endTime\<rparr>, w1))
   \<and> (determineTimeRange L s w = (Inr timeRange, w2)
       \<and> unixNano (range_End timeRange) \<le> unixNano (range_Start timeRange)
      \<longrightarrow> incrementalSync L s w = Some (None, w2)
          \<and> w_committed w2 = w_committed w \<and> w_state w2 = w_state w \<and> w_files w2 = w_files w)"
proof -
  have a: "cfg_End (TimeRange (config s)) \<noteq> [] \<and> Parse_RFC3339 L (cfg_End (TimeRange (config s))) = Inr e
      \<longrightarrow> determineEnd L s w = Inr e"
    by (simp add: determineEnd_def)
  have b: "cfg_End (TimeRange (config s)) = []
       \<and> scanNullTime (query_time (w_source w) (w_committed w)
            (maxQuery (TimeField (tableConfig s)) (tableName s))) = Inr src
      \<longrightarrow> determineEnd L s w =
            (if validTime src (Add (w_now w) (24 * Hour))
             then Inr (Add (timeOf src) (1 * Second)) else Inl ErrSourceTableEmpty)"
    by (simp add: determineEnd_def)
  have c: "AutoDetect (TimeRange (config s))
       \<and> scanNullTime (query_time (w_target w) (w_committed w)
            (maxQuery (TimeField (tableConfig s)) (tableName s))) = Inr tgt
       \<and> validTime tgt (Add endTime (24 * Hour))
      \<longrightarrow> determineStart L s endTime w = (Inr (Add (timeOf tgt) (1 * Millisecond)), w)"
    by (simp add: determineStart_def)
  have d: "AutoDetect (TimeRange (config s))
       \<and> scanNullTime (query_time (w_target w) (w_committed w)
            (maxQuery (TimeField (tableConfig s)) (tableName s))) = Inr tgt
       \<and> \<not> validTime tgt (Add endTime (24 * Hour))
       \<and> scanNullTimes (query_times (w_source w) (w_committed w)
            (minMaxQuery (TimeField (tableConfig s)) (tableName s))) = Inr (smin, smax)
      \<longrightarrow> fst (determineStart L s endTime w) =
            (if smin = None \<or> smax = None then Inl ErrSourceTableEmpty
             else if After (timeOf smin) (AddDate_days L (w_now w) (- FallbackDays (TimeRange (config s))))
               then Inr (timeOf smin)
               else Inr (AddDate_days L (w_now w) (- FallbackDays (TimeRange (config s)))))"
    by (simp add: determineStart_def Let_def)
  have e: "\<not> AutoDetect (TimeRange (config s)) \<and> cfg_Start (TimeRange (config s)) \<noteq> []
       \<and> Parse_RFC3339 L (cfg_Start (TimeRange (config s))) = Inr st
      \<longrightarrow> determineStart L s endTime w = (Inr st, w)"
    by (simp add: determineStart_def)
  have f: "determineEnd L s w = Inr endTime \<and> determineStart L s endTime w = (Inr startTime, w1)
      \<longrightarrow> determineTimeRange L s w = (Inr \<lparr>range_Start = startTime, range_End = endTime\<rparr>, w1)"
    by (simp add: determineTimeRange_def)
  have g: "determineTimeRange L s w = (Inr timeRange, w2)
       \<and> unixNano (range_End timeRange) \<le> unixNano (range_Start timeRange)
      \<longrightarrow> incrementalSync L s w = Some (None, w2)
          \<and> w_committed w2 = w_committed w \<and> w_state w2 = w_state w \<and> w_files w2 = w_files w"
    using determineTimeRange_world [of L s w]
    by (auto simp: incrementalSync_def Before_def)
  from a b c d e f g show ?thesis by (intro conjI)
qed
theorem C6_catch_up_window_witness:
  "determineEnd sample_lib configured_syncer
      (sample_world (Date_UTC 2024 1 2 12 1 0 0)
         (sample_database (sample_schema ''String'') None None [])
         (sample_database (sample_schema ''String'') None None []))
     = Inr (Date_UTC 2024 1 2 0 0 0 0)
   \<and> incrementalSync sample_lib configured_syncer
      (sample_world (Date_UTC 2024 1 2 12 1 0 0)
         (sample_database (sample_schema ''String'') None None [])
         (sample_database (sample_schema ''String'') None None []))
     = Some (None, sample_world (Date_UTC 2024 1 2 12 1 0 0)
         (sample_database (sample_schema ''String'') None None [])
         (sample_database (sample_schema ''String'') None None []))
   \<and> determineTimeRange sample_lib sample_syncer
      (sample_world (Date_UTC 2024 1 2 12 1 0 0)
         (sample_database (sample_schema ''String'') None (Some (Date_UTC 2024 1 2 12 0 3 0)) [])
         (sample_database (sample_schema ''String'') None (Some (Date_UTC 2024 1 2 12 0 0 0)) []))
     = (Inr \<lparr>range_Start = Add (Date_UTC 2024 1 2 12 0 0 0) (1 * Millisecond),
              range_End = Date_UTC 2024 1 2 12 0 4 0\<rparr>,
        sample_world (Date_UTC 2024 1 2 12 1 0 0)
         (sample_database (sample_schema ''String'') None (Some (Date_UTC 2024 1 2 12 0 3 0)) [])
         (sample_database (sample_schema ''String'') None (Some (Date_UTC 2024 1 2 12 0 0 0)) []))
   \<and> fst (determineStart sample_lib sample_syncer (Date_UTC 2024 1 2 12 0 4 0)
      (sample_world (Date_UTC 2024 1 2 12 1 0 0)
         (sample_database (sample_schema ''String'')
            (Some (Date_UTC 2023 12 20 0 0 0 0)) (Some (Date_UTC 2024 1 2 12 0 3 0)) [])
         (sample_database (sample_schema ''String'') None None [])))
     = Inr (Date_UTC 2023 12 20 0 0 0 0)"
proof -
  let ?now = "Date_UTC 2024 1 2 12 1 0 0"
  let ?db = "\<lambda>a m. sample_database (sample_schema ''String'') a m []"
  let ?w0 = "sample_world ?now (?db None None) (?db None None)"
  let ?wb = "sample_world ?now (?db None (Some (Date_UTC 2024 1 2 12 0 3 0)))
      (?db None (Some (Date_UTC 2024 1 2 12 0 0 0)))"
  let ?wd = "sample_world ?now (?db (Some (Date_UTC 2023 12 20 0 0 0 0)) (Some (Date_UTC 2024 1 2 12 0 3 0)))
      (?db None None)"
  have q: "scanNullTime (query_time (w_target (sample_world n (?db a x) (?db b y))) c q) = Inr y"
    "scanNullTime (query_time (w_source (sample_world n (?db a x) (?db b y))) c q) = Inr x"
    "scanNullTimes (query_times (w_source (sample_world n (?db a x) (?db b y))) c q) = Inr (a, x)"
    for n a b x y c q
    by (simp_all add: scanNullTime_def scanNullTimes_def sample_world_def sample_database_def)
  have n: "w_now (sample_world n x y) = n" for n x y
    by (simp add: sample_world_def)
  have cfg: "cfg_End (TimeRange (config configured_syncer)) = ''2024-01-02T00:00:00Z''"
    "cfg_Start (TimeRange (config configured_syncer)) = ''2024-01-02T00:00:00Z''"
    "\<not> AutoDetect (TimeRange (config configured_syncer))"
    "cfg_End (TimeRange (config sample_syncer)) = []"
    "AutoDetect (TimeRange (config sample_syncer))"
    "FallbackDays (TimeRange (config sample_syncer)) = 30"
    by (simp_all add: configured_syncer_def sample_syncer_def sample_config_def)
  have parse: "Parse_RFC3339 sample_lib ''2024-01-02T00:00:00Z'' = Inr (Date_UTC 2024 1 2 0 0 0 0)"
    by (simp add: sample_lib_def)
  have v: "validTime (Some (Date_UTC 2024 1 2 12 0 3 0)) (Add ?now (24 * Hour))"
    "validTime (Some (Date_UTC 2024 1 2 12 0 0 0)) (Add (Date_UTC 2024 1 2 12 0 4 0) (24 * Hour))"
    "\<not> validTime None (Add (Date_UTC 2024 1 2 12 0 4 0) (24 * Hour))"
    by (simp_all add: validTime_def minValidTime_def After_def Before_def Add_def Hour_def Minute_def
        Second_def Date_UTC_def days_from_civil_def)
  have t: "Add (Date_UTC 2024 1 2 12 0 3 0) (1 * Second) = Date_UTC 2024 1 2 12 0 4 0"
    "After (Date_UTC 2023 12 20 0 0 0 0) (AddDate_days sample_lib ?now (- 30))"
    by (simp_all add: Add_def After_def sample_lib_def Hour_def Minute_def Second_def Date_UTC_def
        days_from_civil_def)
  note C0 = C6_catch_up_window [where L = sample_lib and s = configured_syncer and w = ?w0
      and e = "Date_UTC 2024 1 2 0 0 0 0" and st = "Date_UTC 2024 1 2 0 0 0 0"
      and endTime = "Date_UTC 2024 1 2 0 0 0 0" and startTime = "Date_UTC 2024 1 2 0 0 0 0"
      and ?w1.0 = ?w0 and ?w2.0 = ?w0
      and timeRange = "\<lparr>range_Start = Date_UTC 2024 1 2 0 0 0 0, range_End = Date_UTC 2024 1 2 0 0 0 0\<rparr>"]
  have a: "determineEnd sample_lib configured_syncer ?w0 = Inr (Date_UTC 2024 1 2 0 0 0 0)"
    using C0 [THEN conjunct1] cfg parse by simp
  have e: "determineStart sample_lib configured_syncer (Date_UTC 2024 1 2 0 0 0 0) ?w0
      = (Inr (Date_UTC 2024 1 2 0 0 0 0), ?w0)"
    using C0 [THEN conjunct2, THEN conjunct2, THEN conjunct2, THEN conjunct2, THEN conjunct1] cfg parse
    by simp
  have f: "determineTimeRange sample_lib configured_syncer ?w0
      = (Inr \<lparr>range_Start = Date_UTC 2024 1 2 0 0 0 0, range_End = Date_UTC 2024 1 2 0 0 0 0\<rparr>, ?w0)"
    using C0 [THEN conjunct2, THEN conjunct2, THEN conjunct2, THEN conjunct2, THEN conjunct2,
        THEN conjunct1] a e by simp
  have g: "incrementalSync sample_lib configured_syncer ?w0 = Some (None, ?w0)"
    using C0 [THEN conjunct2, THEN conjunct2, THEN conjunct2, THEN conjunct2, THEN conjunct2,
        THEN conjunct2] f by simp
  note CB = C6_catch_up_window [where L = sample_lib and s = sample_syncer and w = ?wb
      and src = "Some (Date_UTC 2024 1 2 12 0 3 0)" and tgt = "Some (Date_UTC 2024 1 2 12 0 0 0)"
      and endTime = "Date_UTC 2024 1 2 12 0 4 0"
      and startTime = "Add (Date_UTC 2024 1 2 12 0 0 0) (1 * Millisecond)" and ?w1.0 = ?wb]
  have b: "determineEnd sample_lib sample_syncer ?wb = Inr (Date_UTC 2024 1 2 12 0 4 0)"
    using CB [THEN conjunct2, THEN conjunct1] cfg q v t by (simp add: n timeOf_def)
  have c: "determineStart sample_lib sample_syncer (Date_UTC 2024 1 2 12 0 4 0) ?wb
      = (Inr (Add (Date_UTC 2024 1 2 12 0 0 0) (1 * Millisecond)), ?wb)"
    using CB [THEN conjunct2, THEN conjunct2, THEN conjunct1] cfg q v by (simp add: timeOf_def)
  have fb: "determineTimeRange sample_lib sample_syncer ?wb
      = (Inr \<lparr>range_Start = Add (Date_UTC 2024 1 2 12 0 0 0) (1 * Millisecond),
               range_End = Date_UTC 2024 1 2 12 0 4 0\<rparr>, ?wb)"
    using CB [THEN conjunct2, THEN conjunct2, THEN conjunct2, THEN conjunct2, THEN conjunct2,
        THEN conjunct1] b c by simp
  have d: "fst (determineStart sample_lib sample_syncer (Date_UTC 2024 1 2 12 0 4 0) ?wd)
      = Inr (Date_UTC 2023 12 20 0 0 0 0)"
    using C6_catch_up_window [where L = sample_lib and s = sample_syncer and w = ?wd
        and tgt = None and endTime = "Date_UTC 2024 1 2 12 0 4 0"
        and smin = "Some (Date_UTC 2023 12 20 0 0 0 0)" and smax = "Some (Date_UTC 2024 1 2 12 0 3 0)",
        THEN conjunct2, THEN conjunct2, THEN conjunct2, THEN conjunct1] cfg q v t
    by (simp add: n timeOf_def)
  from a g fb d show ?thesis by (intro conjI)
qed

text \<open>
  The claim as stated fails: a target maximum of 5 January 2024, not NULL and between
  1900-01-01 and now + 24 h on 10 January, is not taken as the start when the source
  maximum is of 2 January, because the code tests it against the end of the window + 24 h;
  the start is the least source time, 20 December 2023.
\<close>

theorem C6_catch_up_window_counterexample:
  "scanNullTime (query_time (w_target target_ahead) (w_committed target_ahead)
       (maxQuery (TimeField (tableConfig sample_syncer)) (tableName sample_syncer)))
     = Inr (Some (Date_UTC 2024 1 5 0 0 0 0))
   \<and> unixNano (Date_UTC 1900 1 1 0 0 0 0) < unixNano (Date_UTC 2024 1 5 0 0 0 0)
   \<and> unixNano (Date_UTC 2024 1 5 0 0 0 0) < unixNano (Add (w_now target_ahead) (24 * Hour))
   \<and> AutoDetect (TimeRange (config sample_syncer))
   \<and> fst (determineTimeRange sample_lib sample_syncer target_ahead)
       = Inr \<lparr>range_Start = Date_UTC 2023 12 20 0 0 0 0, range_End = Date_UTC 2024 1 2 0 0 1 0\<rparr>
   \<and> Date_UTC 2023 12 20 0 0 0 0 \<noteq> Add (Date_UTC 2024 1 5 0 0 0 0) (1 * Millisecond)"
  by code_simp
subsection \<open>Strategy selection\<close>

lemma validTime_iff:
  "validTime p limit = (case p of
      None \<Rightarrow> False
    | Some t \<Rightarrow> unixNano (Date_UTC 1900 1 1 0 0 0 0) < unixNano t \<and> unixNano t < unixNano limit)"
  by (simp add: validTime_def minValidTime_def After_def Before_def split: option.splits)

lemma Sub_exact:
  "- (2 ^ 63) \<le> unixNano t - unixNano u \<Longrightarrow> unixNano t - unixNano u \<le> 2 ^ 63 - 1
   \<Longrightarrow> Sub t u = unixNano t - unixNano u"
  by (simp add: Sub_def maxDuration_def minDuration_def Let_def)

lemma realtimeOnly_noop:
  assumes "scanNullTime (query_time (w_target w) (w_committed w)
               (maxQuery (TimeField (tableConfig s)) (tableName s))) = Inr tgt"
    and "scanNullTime (query_time (w_source w) (w_committed w)
               (maxQuery (TimeField (tableConfig s)) (tableName s))) = Inr src"
    and "\<not> validTime src (Add (w_now w) (24 * Hour))"
  shows "realtimeOnly L s w = Some (None, s\<lparr>skipCheckpoint := True\<rparr>, w)"
  using assms
  by (simp add: realtimeOnly_def realtimeIncrementalSync_def realtimeWindow_def Let_def)

text \<open>
  C1, as the code has it. A probe is defined when it is not NULL and lies strictly between
  1900-01-01T00:00:00Z and the clock reading plus 24 hours. With both probes answered,
  \<open>SyncWithRealtimeMode\<close> returns \<open>ErrSourceTableEmpty\<close> when neither is defined; runs the catch-up
  and then the realtime sync when only the source is defined, or when both are and the
  source maximum minus the target maximum (a Duration) exceeds the threshold; and runs the
  realtime sync at once otherwise, which returns at once, with no error and the world as it
  was, when the source is not defined. Catch-up and then realtime means: the realtime sync
  runs when the catch-up has returned no error; an error of the catch-up is returned
  instead, \<open>ErrSourceTableEmpty\<close> as it is and any other wrapped.
\<close>

theorem C1_strategy_selection:
  assumes "scanNullTime (query_time (w_target w) (w_committed w)
               (maxQuery (TimeField (tableConfig s)) (tableName s))) = Inr tgt"
    and "scanNullTime (query_time (w_source w) (w_committed w)
               (maxQuery (TimeField (tableConfig s)) (tableName s))) = Inr src"
  shows "SyncWithRealtimeMode L s threshold w =
           (if \<not> validTime tgt (Add (w_now w) (24 * Hour)) \<and> \<not> validTime src (Add (w_now w) (24 * Hour))
              then Some (Some ErrSourceTableEmpty, s, w)
            else if \<not> validTime tgt (Add (w_now w) (24 * Hour)) then catchUpThenRealtime L s w
            else if \<not> validTime src (Add (w_now w) (24 * Hour)) then realtimeOnly L s w
            else if Sub (timeOf src) (timeOf tgt) > threshold then catchUpThenRealtime L s w
            else realtimeOnly L s w)
       \<and> (\<not> validTime src (Add (w_now w) (24 * Hour))
            \<longrightarrow> realtimeOnly L s w = Some (None, s\<lparr>skipCheckpoint := True\<rparr>, w))
       \<and> (\<forall>p limit. validTime p limit = (case p of
              None \<Rightarrow> False
            | Some t \<Rightarrow> unixNano (Date_UTC 1900 1 1 0 0 0 0) < unixNano t \<and> unixNano t < unixNano limit))
       \<and> (\<forall>v. realtimeOnly L s v =
             (case realtimeIncrementalSync L (s\<lparr>skipCheckpoint := True\<rparr>) v of
                (r, v') \<Rightarrow> Some (r, s\<lparr>skipCheckpoint := True\<rparr>, v')))
       \<and> (\<forall>v. catchUpThenRealtime L s v =
             (case incrementalSync L (s\<lparr>skipCheckpoint := False\<rparr>) v of
                None \<Rightarrow> None
              | Some (Some err, v') \<Rightarrow>
                  Some (Some (if Is_ErrSourceTableEmpty err then err
                              else Errorf_w ''failed to catch up historical data'' err),
                        s\<lparr>skipCheckpoint := False\<rparr>, v')
              | Some (None, v') \<Rightarrow> realtimeOnly L s v'))
       \<and> (- (2 ^ 63) \<le> unixNano (timeOf src) - unixNano (timeOf tgt)
            \<and> unixNano (timeOf src) - unixNano (timeOf tgt) \<le> 2 ^ 63 - 1
            \<longrightarrow> Sub (timeOf src) (timeOf tgt) = unixNano (timeOf src) - unixNano (timeOf tgt))"
proof -
  have a: "SyncWithRealtimeMode L s threshold w =
           (if \<not> validTime tgt (Add (w_now w) (24 * Hour)) \<and> \<not> validTime src (Add (w_now w) (24 * Hour))
              then Some (Some ErrSourceTableEmpty, s, w)
            else if \<not> validTime tgt (Add (w_now w) (24 * Hour)) then catchUpThenRealtime L s w
            else if \<not> validTime src (Add (w_now w) (24 * Hour)) then realtimeOnly L s w
            else if Sub (timeOf src) (timeOf tgt) > threshold then catchUpThenRealtime L s w
            else realtimeOnly L s w)"
    using assms by (simp add: SyncWithRealtimeMode_def Let_def)
  have b: "\<not> validTime src (Add (w_now w) (24 * Hour))
            \<longrightarrow> realtimeOnly L s w = Some (None, s\<lparr>skipCheckpoint := True\<rparr>, w)"
    using realtimeOnly_noop [OF assms] by blast
  have c: "\<forall>p limit. validTime p limit = (case p of
              None \<Rightarrow> False
            | Some t \<Rightarrow> unixNano (Date_UTC 1900 1 1 0 0 0 0) < unixNano t \<and> unixNano t < unixNano limit)"
    using validTime_iff by blast
  have d: "\<forall>v. realtimeOnly L s v =
             (case realtimeIncrementalSync L (s\<lparr>skipCheckpoint := True\<rparr>) v of
                (r, v') \<Rightarrow> Some (r, s\<lparr>skipCheckpoint := True\<rparr>, v'))"
    by (simp add: realtimeOnly_def Let_def)
  have e: "\<forall>v. catchUpThenRealtime L s v =
             (case incrementalSync L (s\<lparr>skipCheckpoint := False\<rparr>) v of
                None \<Rightarrow> None
              | Some (Some err, v') \<Rightarrow>
                  Some (Some (if Is_ErrSourceTableEmpty err then err
                              else Errorf_w ''failed to catch up historical data'' err),
                        s\<lparr>skipCheckpoint := False\<rparr>, v')
              | Some (None, v') \<Rightarrow> realtimeOnly L s v')"
    by (auto simp: catchUpThenRealtime_def realtimeOnly_def Let_def split: option.splits prod.splits)
  have f: "- (2 ^ 63) \<le> unixNano (timeOf src) - unixNano (timeOf tgt)
            \<and> unixNano (timeOf src) - unixNano (timeOf tgt) \<le> 2 ^ 63 - 1
            \<longrightarrow> Sub (timeOf src) (timeOf tgt) = unixNano (timeOf src) - unixNano (timeOf tgt)"
    using Sub_exact by blast
  from a b c d e f show ?thesis by (intro conjI)
qed
theorem C1_strategy_selection_witness:
  "SyncWithRealtimeMode sample_lib sample_syncer (300 * Second)
      (sample_world (Date_UTC 2024 1 2 12 1 0 0)
         (sample_database (sample_schema ''String'') None None [])
         (sample_database (sample_schema ''String'') None None []))
     = Some (Some ErrSourceTableEmpty, sample_syncer,
         sample_world (Date_UTC 2024 1 2 12 1 0 0)
           (sample_database (sample_schema ''String'') None None [])
           (sample_database (sample_schema ''String'') None None []))
   \<and> SyncWithRealtimeMode sample_lib sample_syncer (300 * Second)
      (sample_world (Date_UTC 2024 1 2 12 1 0 0)
         (sample_database (sample_schema ''String'') None (Some (Date_UTC 2024 1 2 12 0 3 0)) [])
         (sample_database (sample_schema ''String'') None None []))
     = catchUpThenRealtime sample_lib sample_syncer
      (sample_world (Date_UTC 2024 1 2 12 1 0 0)
         (sample_database (sample_schema ''String'') None (Some (Date_UTC 2024 1 2 12 0 3 0)) [])
         (sample_database (sample_schema ''String'') None None []))
   \<and> SyncWithRealtimeMode sample_lib sample_syncer (300 * Second)
      (sample_world (Date_UTC 2024 1 2 12 1 0 0)
         (sample_database (sample_schema ''String'') None None [])
         (sample_database (sample_schema ''String'') None (Some (Date_UTC 2024 1 2 12 0 0 0)) []))
     = Some (None, sample_syncer\<lparr>skipCheckpoint := True\<rparr>,
         sample_world (Date_UTC 2024 1 2 12 1 0 0)
           (sample_database (sample_schema ''String'') None None [])
           (sample_database (sample_schema ''String'') None (Some (Date_UTC 2024 1 2 12 0 0 0)) []))
   \<and> SyncWithRealtimeMode sample_lib sample_syncer (300 * Second)
      (sample_world (Date_UTC 2024 1 2 12 1 0 0)
         (sample_database (sample_schema ''String'') None (Some (Date_UTC 2024 1 2 12 0 3 0)) [])
         (sample_database (sample_schema ''String'') None (Some (Date_UTC 2024 1 1 12 0 0 0)) []))
     = catchUpThenRealtime sample_lib sample_syncer
      (sample_world (Date_UTC 2024 1 2 12 1 0 0)
         (sample_database (sample_schema ''String'') None (Some (Date_UTC 2024 1 2 12 0 3 0)) [])
         (sample_database (sample_schema ''String'') None (Some (Date_UTC 2024 1 1 12 0 0 0)) []))
   \<and> SyncWithRealtimeMode sample_lib sample_syncer (300 * Second)
      (sample_world (Date_UTC 2024 1 2 12 1 0 0)
         (sample_database (sample_schema ''String'') None (Some (Date_UTC 2024 1 2 12 0 3 0)) [])
         (sample_database (sample_schema ''String'') None (Some (Date_UTC 2024 1 2 12 0 0 0)) []))
     = realtimeOnly sample_lib sample_syncer
      (sample_world (Date_UTC 2024 1 2 12 1 0 0)
         (sample_database (sample_schema ''String'') None (Some (Date_UTC 2024 1 2 12 0 3 0)) [])
         (sample_database (sample_schema ''String'') None (Some (Date_UTC 2024 1 2 12 0 0 0)) []))
   \<and> Sub (Date_UTC 2024 1 2 12 0 3 0) (Date_UTC 2024 1 1 12 0 0 0) = 86403 * Second"
proof -
  let ?now = "Date_UTC 2024 1 2 12 1 0 0"
  let ?db = "\<lambda>m. sample_database (sample_schema ''String'') None m []"
  let ?W = "\<lambda>x y. sample_world ?now (?db x) (?db y)"
  let ?s3 = "Some (Date_UTC 2024 1 2 12 0 3 0)"
  let ?s0 = "Some (Date_UTC 2024 1 2 12 0 0 0)"
  let ?y0 = "Some (Date_UTC 2024 1 1 12 0 0 0)"
  have q: "scanNullTime (query_time (w_target (?W x y)) c q) = Inr y"
    "scanNullTime (query_time (w_source (?W x y)) c q) = Inr x" for x y c q
    by (simp_all add: scanNullTime_def sample_world_def sample_database_def)
  have n: "w_now (?W x y) = ?now" for x y
    by (simp add: sample_world_def)
  have v: "\<not> validTime None (Add ?now (24 * Hour))"
    "validTime ?s3 (Add ?now (24 * Hour))" "validTime ?s0 (Add ?now (24 * Hour))"
    "validTime ?y0 (Add ?now (24 * Hour))"
    by (simp_all add: validTime_def minValidTime_def After_def Before_def Add_def Hour_def Minute_def
        Second_def Date_UTC_def days_from_civil_def)
  have lag: "Sub (timeOf ?s3) (timeOf ?y0) > 300 * Second"
    "\<not> Sub (timeOf ?s3) (timeOf ?s0) > 300 * Second"
    by (simp_all add: Sub_def timeOf_def maxDuration_def minDuration_def Second_def Date_UTC_def
        days_from_civil_def)
  note C = C1_strategy_selection [where L = sample_lib and s = sample_syncer
      and threshold = "300 * Second", OF q(1) q(2)]
  have r1: "SyncWithRealtimeMode sample_lib sample_syncer (300 * Second) (?W None None)
      = Some (Some ErrSourceTableEmpty, sample_syncer, ?W None None)"
    using C [of None None, THEN conjunct1] v by (simp add: n)
  have r2: "SyncWithRealtimeMode sample_lib sample_syncer (300 * Second) (?W ?s3 None)
      = catchUpThenRealtime sample_lib sample_syncer (?W ?s3 None)"
    using C [of ?s3 None, THEN conjunct1] v by (simp add: n)
  have r3: "SyncWithRealtimeMode sample_lib sample_syncer (300 * Second) (?W None ?s0)
      = Some (None, sample_syncer\<lparr>skipCheckpoint := True\<rparr>, ?W None ?s0)"
    using C [of None ?s0, THEN conjunct1] C [of None ?s0, THEN conjunct2, THEN conjunct1] v
    by (simp add: n)
  have r4: "SyncWithRealtimeMode sample_lib sample_syncer (300 * Second) (?W ?s3 ?y0)
      = catchUpThenRealtime sample_lib sample_syncer (?W ?s3 ?y0)"
    using C [of ?s3 ?y0, THEN conjunct1] v lag by (simp add: n)
  have r5: "SyncWithRealtimeMode sample_lib sample_syncer (300 * Second) (?W ?s3 ?s0)
      = realtimeOnly sample_lib sample_syncer (?W ?s3 ?s0)"
    using C [of ?s3 ?s0, THEN conjunct1] v lag by (simp add: n)
  have r6: "Sub (Date_UTC 2024 1 2 12 0 3 0) (Date_UTC 2024 1 1 12 0 0 0) = 86403 * Second"
    using C [of ?s3 ?y0, THEN conjunct2, THEN conjunct2, THEN conjunct2, THEN conjunct2, THEN conjunct2]
    by (simp add: timeOf_def Second_def Date_UTC_def days_from_civil_def)
  from r1 r2 r3 r4 r5 r6 show ?thesis by (intro conjI)
qed

text \<open>
  The claim as stated fails on the bounds of the validity test: a source maximum of exactly
  now + 24 h satisfies 1900-01-01 \<le> t \<le> now + 24 h, and it is more than the threshold ahead
  of a target maximum one hour old, so the table of the claim asks for the catch-up, which
  here ends in \<open>ErrSourceTableEmpty\<close>. The code takes the source as not defined and runs
  the realtime sync, which returns no error.
\<close>

theorem C1_strategy_selection_counterexample:
  "scanNullTime (query_time (w_source source_at_limit) (w_committed source_at_limit)
       (maxQuery (TimeField (tableConfig sample_syncer)) (tableName sample_syncer)))
     = Inr (Some (Date_UTC 2024 1 3 12 0 0 0))
   \<and> scanNullTime (query_time (w_target source_at_limit) (w_committed source_at_limit)
       (maxQuery (TimeField (tableConfig sample_syncer)) (tableName sample_syncer)))
     = Inr (Some (Date_UTC 2024 1 2 11 0 0 0))
   \<and> unixNano (Date_UTC 1900 1 1 0 0 0 0) \<le> unixNano (Date_UTC 2024 1 3 12 0 0 0)
   \<and> unixNano (Date_UTC 2024 1 3 12 0 0 0) \<le> unixNano (Add (w_now source_at_limit) (24 * Hour))
   \<and> unixNano (Date_UTC 1900 1 1 0 0 0 0) \<le> unixNano (Date_UTC 2024 1 2 11 0 0 0)
   \<and> unixNano (Date_UTC 2024 1 2 11 0 0 0) \<le> unixNano (Add (w_now source_at_limit) (24 * Hour))
   \<and> 300 * Second < unixNano (Date_UTC 2024 1 3 12 0 0 0) - unixNano (Date_UTC 2024 1 2 11 0 0 0)
   \<and> (case SyncWithRealtimeMode sample_lib sample_syncer (300 * Second) source_at_limit of
         Some (None, s', w') \<Rightarrow> skipCheckpoint s' \<and> w_committed w' = [] \<and> w_warnings w' = []
       | _ \<Rightarrow> False)
   \<and> (case catchUpThenRealtime sample_lib sample_syncer source_at_limit of
         Some (Some err, s', w') \<Rightarrow> err = ErrSourceTableEmpty
       | _ \<Rightarrow> False)"
  by code_simp
subsection \<open>Checkpoint persistence\<close>

lemma saveStateUnlocked_state:
  "w_state (snd (saveStateUnlocked L w))
     = (w_state w)\<lparr>syncState := (syncState (w_state w))\<lparr>LastUpdated := w_now w\<rparr>\<rparr>"
  by (auto simp: saveStateUnlocked_def Let_def split: sum.splits option.splits prod.splits)

lemma saveStateUnlocked_rest:
  "w_committed (snd (saveStateUnlocked L w)) = w_committed w
   \<and> w_now (snd (saveStateUnlocked L w)) = w_now w
   \<and> w_source (snd (saveStateUnlocked L w)) = w_source w
   \<and> w_target (snd (saveStateUnlocked L w)) = w_target w
   \<and> w_warnings (snd (saveStateUnlocked L w)) = w_warnings w"
  by (auto simp: saveStateUnlocked_def Let_def split: sum.splits option.splits prod.splits)

lemma saveStateUnlocked_files:
  "w_files (snd (saveStateUnlocked L w)) =
     (case MarshalIndent L ((syncState (w_state w))\<lparr>LastUpdated := w_now w\<rparr>) of
        Inl e \<Rightarrow> w_files w
      | Inr data \<Rightarrow>
          (case write_error (w_files w) (stateFile (w_state w) @ ''.tmp'') of
             Some (OpenFails e) \<Rightarrow> w_files w
           | Some (WriteFails k e) \<Rightarrow>
               (w_files w)\<lparr>files := (files (w_files w))(stateFile (w_state w) @ ''.tmp'' \<mapsto> take k data)\<rparr>
           | None \<Rightarrow>
               (case rename_error (w_files w) (stateFile (w_state w) @ ''.tmp'') (stateFile (w_state w)) of
                  Some e \<Rightarrow> (w_files w)\<lparr>files := (files (w_files w))(stateFile (w_state w) @ ''.tmp'' \<mapsto> data)\<rparr>
                | None \<Rightarrow> (w_files w)\<lparr>files := ((files (w_files w))(stateFile (w_state w) @ ''.tmp'' := None))
                                                   (stateFile (w_state w) \<mapsto> data)\<rparr>)))"
  by (auto simp: saveStateUnlocked_def Let_def WriteFile_def Rename_def
      split: sum.splits option.splits prod.splits write_fault.splits)

lemma saveStateUnlocked_error:
  "fst (saveStateUnlocked L w) =
     (case MarshalIndent L ((syncState (w_state w))\<lparr>LastUpdated := w_now w\<rparr>) of
        Inl e \<Rightarrow> Some e
      | Inr data \<Rightarrow>
          (case write_error (w_files w) (stateFile (w_state w) @ ''.tmp'') of
             Some (OpenFails e) \<Rightarrow> Some e
           | Some (WriteFails k e) \<Rightarrow> Some e
           | None \<Rightarrow> rename_error (w_files w) (stateFile (w_state w) @ ''.tmp'') (stateFile (w_state w))))"
  by (auto simp: saveStateUnlocked_def Let_def WriteFile_def Rename_def
      split: sum.splits option.splits prod.splits write_fault.splits)

lemma tmp_not_path: "path @ ''.tmp'' \<noteq> path"
  by simp

lemma MarkSegmentCompleted_nil:
  "Tables (syncState (w_state w)) = None
   \<Longrightarrow> MarkSegmentCompleted L tbl seg n w = Inl ''assignment to entry in nil map''"
  by (simp add: MarkSegmentCompleted_def)

lemma MarkSegmentCompleted_some:
  "Tables (syncState (w_state w)) = Some tables
   \<Longrightarrow> MarkSegmentCompleted L tbl seg n w
       = Inr (snd (saveStateUnlocked L (w\<lparr>w_state := (w_state w)\<lparr>syncState := (syncState (w_state w))\<lparr>Tables :=
                      Some (recordSegment tables tbl seg n (w_now w))\<rparr>\<rparr>\<rparr>)))"
  by (simp add: MarkSegmentCompleted_def Let_def)

text \<open>
  C5, as the code has it. On a nil map of the tables \<open>MarkSegmentCompleted\<close> panics. Otherwise
  it returns, and has appended the segment to the table's completed segments (creating the
  table's entry when it is missing), added the count to the records synced (64-bit
  addition), set the table's last synced time to the clock reading and left the other
  tables, the run id and the start time alone. It then marshals the whole state, creates
  or truncates \<open><path>.tmp\<close>, writes the document to it and renames it onto \<open><path>\<close>: when a
  step fails, the later steps are not taken, so a failed write leaves \<open><path>.tmp\<close> behind
  with the bytes written so far, a failed rename leaves it behind whole, and the file at
  \<open><path>\<close> is either as it was or the whole new document. \<open>saveStateUnlocked\<close> returns the
  error of the step that failed; \<open>MarkSegmentCompleted\<close> has no result to carry it: what
  the in-memory state becomes does not depend on the file system, and a failure to marshal,
  write or rename reaches no caller.
\<close>

theorem C5_mark_segment_completed:
  "(Tables (syncState (w_state w)) = None
      \<longrightarrow> MarkSegmentCompleted L tbl seg n w = Inl ''assignment to entry in nil map'')
   \<and> (Tables (syncState (w_state w)) = Some tables \<longrightarrow>
       (case MarkSegmentCompleted L tbl seg n w of
          Inl p \<Rightarrow> False
        | Inr w' \<Rightarrow>
            (let old = (case tables tbl of None \<Rightarrow> newTableState | Some ts \<Rightarrow> ts);
                 path = stateFile (w_state w);
                 tmp = stateFile (w_state w) @ ''.tmp''
             in Tables (syncState (w_state w'))
                  = Some (tables(tbl \<mapsto> old\<lparr>CompletedSegments := CompletedSegments old @ [seg],
                                              RecordsSynced := RecordsSynced old + n,
                                              LastSyncedTime := w_now w\<rparr>))
                \<and> RunID (syncState (w_state w')) = RunID (syncState (w_state w))
                \<and> StartTime (syncState (w_state w')) = StartTime (syncState (w_state w))
                \<and> stateFile (w_state w') = path
                \<and> w_committed w' = w_committed w
                \<and> (\<forall>fsys. case MarkSegmentCompleted L tbl seg n (w\<lparr>w_files := fsys\<rparr>) of
                             Inl p \<Rightarrow> False
                           | Inr v \<Rightarrow> w_state v = w_state w')
                \<and> (case MarshalIndent L (syncState (w_state w')) of
                      Inl e \<Rightarrow> w_files w' = w_files w
                    | Inr data \<Rightarrow>
                        (case write_error (w_files w) tmp of
                           Some (OpenFails e) \<Rightarrow> w_files w' = w_files w
                         | Some (WriteFails k e) \<Rightarrow>
                             files (w_files w') = (files (w_files w))(tmp \<mapsto> take k data)
                         | None \<Rightarrow>
                             (case rename_error (w_files w) tmp path of
                                Some e \<Rightarrow> files (w_files w') = (files (w_files w))(tmp \<mapsto> data)
                              | None \<Rightarrow> files (w_files w')
                                         = ((files (w_files w))(tmp := None))(path \<mapsto> data))))
                \<and> (files (w_files w') path = files (w_files w) path
                    \<or> (case MarshalIndent L (syncState (w_state w')) of
                          Inl e \<Rightarrow> False
                        | Inr data \<Rightarrow> files (w_files w') path = Some data)))))
   \<and> fst (saveStateUnlocked L v) =
       (case MarshalIndent L ((syncState (w_state v))\<lparr>LastUpdated := w_now v\<rparr>) of
          Inl e \<Rightarrow> Some e
        | Inr data \<Rightarrow>
            (case write_error (w_files v) (stateFile (w_state v) @ ''.tmp'') of
               Some (OpenFails e) \<Rightarrow> Some e
             | Some (WriteFails k e) \<Rightarrow> Some e
             | None \<Rightarrow> rename_error (w_files v) (stateFile (w_state v) @ ''.tmp'') (stateFile (w_state v))))"
proof -
  have nil: "Tables (syncState (w_state w)) = None
      \<longrightarrow> MarkSegmentCompleted L tbl seg n w = Inl ''assignment to entry in nil map''"
    by (simp add: MarkSegmentCompleted_nil)
  have some: "case MarkSegmentCompleted L tbl seg n w of
          Inl p \<Rightarrow> False
        | Inr w' \<Rightarrow>
            (let old = (case tables tbl of None \<Rightarrow> newTableState | Some ts \<Rightarrow> ts);
                 path = stateFile (w_state w);
                 tmp = stateFile (w_state w) @ ''.tmp''
             in Tables (syncState (w_state w'))
                  = Some (tables(tbl \<mapsto> old\<lparr>CompletedSegments := CompletedSegments old @ [seg],
                                              RecordsSynced := RecordsSynced old + n,
                                              LastSyncedTime := w_now w\<rparr>))
                \<and> RunID (syncState (w_state w')) = RunID (syncState (w_state w))
                \<and> StartTime (syncState (w_state w')) = StartTime (syncState (w_state w))
                \<and> stateFile (w_state w') = path
                \<and> w_committed w' = w_committed w
                \<and> (\<forall>fsys. case MarkSegmentCompleted L tbl seg n (w\<lparr>w_files := fsys\<rparr>) of
                             Inl p \<Rightarrow> False
                           | Inr v \<Rightarrow> w_state v = w_state w')
                \<and> (case MarshalIndent L (syncState (w_state w')) of
                      Inl e \<Rightarrow> w_files w' = w_files w
                    | Inr data \<Rightarrow>
                        (case write_error (w_files w) tmp of
                           Some (OpenFails e) \<Rightarrow> w_files w' = w_files w
                         | Some (WriteFails k e) \<Rightarrow>
                             files (w_files w') = (files (w_files w))(tmp \<mapsto> take k data)
                         | None \<Rightarrow>
                             (case rename_error (w_files w) tmp path of
                                Some e \<Rightarrow> files (w_files w') = (files (w_files w))(tmp \<mapsto> data)
                              | None \<Rightarrow> files (w_files w')
                                         = ((files (w_files w))(tmp := None))(path \<mapsto> data))))
                \<and> (files (w_files w') path = files (w_files w) path
                    \<or> (case MarshalIndent L (syncState (w_state w')) of
                          Inl e \<Rightarrow> False
                        | Inr data \<Rightarrow> files (w_files w') path = Some data)))"
    if T: "Tables (syncState (w_state w)) = Some tables"
  proof -
    let ?rec = "recordSegment tables tbl seg n (w_now w)"
    let ?w1 = "w\<lparr>w_state := (w_state w)\<lparr>syncState := (syncState (w_state w))\<lparr>Tables := Some ?rec\<rparr>\<rparr>\<rparr>"
    let ?w' = "snd (saveStateUnlocked L ?w1)"
    let ?path = "stateFile (w_state w)"
    let ?tmp = "stateFile (w_state w) @ ''.tmp''"
    let ?old = "case tables tbl of None \<Rightarrow> newTableState | Some ts \<Rightarrow> ts"
    have m: "MarkSegmentCompleted L tbl seg n w = Inr ?w'"
      using T by (rule MarkSegmentCompleted_some)
    have st: "w_state ?w' = (w_state w)\<lparr>syncState :=
        (syncState (w_state w))\<lparr>Tables := Some ?rec, LastUpdated := w_now w\<rparr>\<rparr>"
      unfolding saveStateUnlocked_state by simp
    have t1: "Tables (syncState (w_state ?w'))
        = Some (tables(tbl \<mapsto> ?old\<lparr>CompletedSegments := CompletedSegments ?old @ [seg],
                                   RecordsSynced := RecordsSynced ?old + n,
                                   LastSyncedTime := w_now w\<rparr>))"
      unfolding st by (simp add: recordSegment_def Let_def)
    have t2: "RunID (syncState (w_state ?w')) = RunID (syncState (w_state w))"
      unfolding st by simp
    have t3: "StartTime (syncState (w_state ?w')) = StartTime (syncState (w_state w))"
      unfolding st by simp
    have t4: "stateFile (w_state ?w') = ?path"
      unfolding st by simp
    have t5: "w_committed ?w' = w_committed w"
      using saveStateUnlocked_rest [of L ?w1] by simp
    have t6: "case MarkSegmentCompleted L tbl seg n (w\<lparr>w_files := fsys\<rparr>) of
                 Inl p \<Rightarrow> False
               | Inr v \<Rightarrow> w_state v = w_state ?w'" for fsys
    proof -
      have T': "Tables (syncState (w_state (w\<lparr>w_files := fsys\<rparr>))) = Some tables"
        using T by simp
      show ?thesis
        unfolding MarkSegmentCompleted_some [OF T'] st
        by (simp add: saveStateUnlocked_state)
    qed
    have doc: "(syncState (w_state ?w1))\<lparr>LastUpdated := w_now ?w1\<rparr> = syncState (w_state ?w')"
      unfolding st by simp
    have fl: "w_files ?w' =
       (case MarshalIndent L (syncState (w_state ?w')) of
          Inl e \<Rightarrow> w_files w
        | Inr data \<Rightarrow>
            (case write_error (w_files w) ?tmp of
               Some (OpenFails e) \<Rightarrow> w_files w
             | Some (WriteFails k e) \<Rightarrow> (w_files w)\<lparr>files := (files (w_files w))(?tmp \<mapsto> take k data)\<rparr>
             | None \<Rightarrow>
                 (case rename_error (w_files w) ?tmp ?path of
                    Some e \<Rightarrow> (w_files w)\<lparr>files := (files (w_files w))(?tmp \<mapsto> data)\<rparr>
                  | None \<Rightarrow> (w_files w)\<lparr>files := ((files (w_files w))(?tmp := None))(?path \<mapsto> data)\<rparr>)))"
      using saveStateUnlocked_files [of L ?w1] unfolding doc
      by (simp split: sum.splits option.splits write_fault.splits)
    have t7: "(case MarshalIndent L (syncState (w_state ?w')) of
                      Inl e \<Rightarrow> w_files ?w' = w_files w
                    | Inr data \<Rightarrow>
                        (case write_error (w_files w) ?tmp of
                           Some (OpenFails e) \<Rightarrow> w_files ?w' = w_files w
                         | Some (WriteFails k e) \<Rightarrow>
                             files (w_files ?w') = (files (w_files w))(?tmp \<mapsto> take k data)
                         | None \<Rightarrow>
                             (case rename_error (w_files w) ?tmp ?path of
                                Some e \<Rightarrow> files (w_files ?w') = (files (w_files w))(?tmp \<mapsto> data)
                              | None \<Rightarrow> files (w_files ?w')
                                         = ((files (w_files w))(?tmp := None))(?path \<mapsto> data))))"
      by (subst (1 2 3 4 5) fl) (simp split: sum.splits option.splits write_fault.splits)
    have t8: "files (w_files ?w') ?path = files (w_files w) ?path
                    \<or> (case MarshalIndent L (syncState (w_state ?w')) of
                          Inl e \<Rightarrow> False
                        | Inr data \<Rightarrow> files (w_files ?w') ?path = Some data)"
      using t7 tmp_not_path [of ?path]
      by (auto split: sum.splits option.splits write_fault.splits)
    from t1 t2 t3 t4 t5 t6 t7 t8 show ?thesis
      unfolding m Let_def by simp
  qed
  note err = saveStateUnlocked_error [of L v]
  from nil some err show ?thesis by blast
qed

theorem C5_mark_segment_completed_witness:
  "MarkSegmentCompleted sample_lib ''events''
       \<lparr>Start = Date_UTC 2024 1 1 0 0 0 0, End = Date_UTC 2024 1 2 0 0 0 0\<rparr> 2
       (empty_world\<lparr>w_state := loaded_null_state\<rparr>)
     = Inl ''assignment to entry in nil map''
   \<and> (case MarkSegmentCompleted sample_lib ''events''
            \<lparr>Start = Date_UTC 2024 1 1 0 0 0 0, End = Date_UTC 2024 1 2 0 0 0 0\<rparr> 2 empty_world of
         Inl p \<Rightarrow> False
       | Inr w' \<Rightarrow>
           Tables (syncState (w_state w'))
             = Some [''events'' \<mapsto> \<lparr>Status = ''in_progress'', LastSyncedTime = Date_UTC 2024 1 2 0 0 0 0,
                  RecordsSynced = 2,
                  CompletedSegments = [\<lparr>Start = Date_UTC 2024 1 1 0 0 0 0, End = Date_UTC 2024 1 2 0 0 0 0\<rparr>]\<rparr>]
           \<and> files (w_files w') = [''/tmp/clickhouse_sync_state.json'' \<mapsto> ''sync_20240101_000000''])
   \<and> (case MarkSegmentCompleted sample_lib ''events''
            \<lparr>Start = Date_UTC 2024 1 1 0 0 0 0, End = Date_UTC 2024 1 2 0 0 0 0\<rparr> 2
            (empty_world\<lparr>w_files := full_disk\<rparr>) of
         Inl p \<Rightarrow> False
       | Inr w' \<Rightarrow>
           Tables (syncState (w_state w'))
             = Some [''events'' \<mapsto> \<lparr>Status = ''in_progress'', LastSyncedTime = Date_UTC 2024 1 2 0 0 0 0,
                  RecordsSynced = 2,
                  CompletedSegments = [\<lparr>Start = Date_UTC 2024 1 1 0 0 0 0, End = Date_UTC 2024 1 2 0 0 0 0\<rparr>]\<rparr>]
           \<and> files (w_files w') = [''/tmp/clickhouse_sync_state.json.tmp'' \<mapsto> ''''])
   \<and> fst (saveStateUnlocked sample_lib (empty_world\<lparr>w_files := full_disk\<rparr>))
     = Some (External ''no space left on device'')"
proof -
  let ?seg = "\<lparr>Start = Date_UTC 2024 1 1 0 0 0 0, End = Date_UTC 2024 1 2 0 0 0 0\<rparr>"
  let ?ts = "\<lparr>Status = ''in_progress'', LastSyncedTime = Date_UTC 2024 1 2 0 0 0 0,
      RecordsSynced = 2, CompletedSegments = [?seg]\<rparr>"
  have w: "w_now empty_world = Date_UTC 2024 1 2 0 0 0 0" "w_state empty_world = sample_state"
    "w_files empty_world = sample_files"
    by (simp_all add: empty_world_def sample_world_def)
  have s: "Tables (syncState sample_state) = Some Map.empty"
    "stateFile sample_state = ''/tmp/clickhouse_sync_state.json''"
    "RunID (syncState sample_state) = ''sync_20240101_000000''"
    "Tables (syncState loaded_null_state) = None"
    by (simp_all add: sample_state_def loaded_null_state_def)
  have f: "files sample_files = Map.empty" "write_error sample_files = (\<lambda>p. None)"
    "rename_error sample_files = (\<lambda>p q. None)"
    "files full_disk = Map.empty"
    "write_error full_disk = (\<lambda>p. Some (WriteFails 0 (External ''no space left on device'')))"
    by (simp_all add: sample_files_def full_disk_def)
  have doc: "MarshalIndent sample_lib st = Inr (RunID st)" for st
    by (simp add: sample_lib_def)
  have old: "newTableState\<lparr>CompletedSegments := CompletedSegments newTableState @ [?seg],
       RecordsSynced := RecordsSynced newTableState + 2,
       LastSyncedTime := Date_UTC 2024 1 2 0 0 0 0\<rparr> = ?ts"
    by (simp add: newTableState_def)
  have a: "MarkSegmentCompleted sample_lib ''events'' ?seg 2 (empty_world\<lparr>w_state := loaded_null_state\<rparr>)
     = Inl ''assignment to entry in nil map''"
    using C5_mark_segment_completed [where L = sample_lib and tbl = "''events''" and seg = ?seg
        and n = 2 and w = "empty_world\<lparr>w_state := loaded_null_state\<rparr>", THEN conjunct1]
    by (simp add: s)
  have b: "case MarkSegmentCompleted sample_lib ''events'' ?seg 2 empty_world of
         Inl p \<Rightarrow> False
       | Inr w' \<Rightarrow>
           Tables (syncState (w_state w')) = Some [''events'' \<mapsto> ?ts]
           \<and> files (w_files w') = [''/tmp/clickhouse_sync_state.json'' \<mapsto> ''sync_20240101_000000'']"
  proof (cases "MarkSegmentCompleted sample_lib ''events'' ?seg 2 empty_world")
    case (Inl p)
    with C5_mark_segment_completed [where L = sample_lib and tbl = "''events''" and seg = ?seg
        and n = 2 and w = empty_world and tables = Map.empty, THEN conjunct2, THEN conjunct1]
    show ?thesis by (simp add: w s)
  next
    case (Inr w')
    with C5_mark_segment_completed [where L = sample_lib and tbl = "''events''" and seg = ?seg
        and n = 2 and w = empty_world and tables = Map.empty, THEN conjunct2, THEN conjunct1]
    have t: "Tables (syncState (w_state w')) = Some [''events'' \<mapsto> ?ts]"
      and r: "RunID (syncState (w_state w')) = ''sync_20240101_000000''"
      and fl: "files (w_files w') = [''/tmp/clickhouse_sync_state.json'' \<mapsto> ''sync_20240101_000000'']"
      by (simp_all add: w s f Let_def old doc)
    from t fl show ?thesis unfolding Inr by simp
  qed
  have c: "case MarkSegmentCompleted sample_lib ''events'' ?seg 2 (empty_world\<lparr>w_files := full_disk\<rparr>) of
         Inl p \<Rightarrow> False
       | Inr w' \<Rightarrow>
           Tables (syncState (w_state w')) = Some [''events'' \<mapsto> ?ts]
           \<and> files (w_files w') = [''/tmp/clickhouse_sync_state.json.tmp'' \<mapsto> '''']"
  proof (cases "MarkSegmentCompleted sample_lib ''events'' ?seg 2 (empty_world\<lparr>w_files := full_disk\<rparr>)")
    case (Inl p)
    with C5_mark_segment_completed [where L = sample_lib and tbl = "''events''" and seg = ?seg
        and n = 2 and w = "empty_world\<lparr>w_files := full_disk\<rparr>" and tables = Map.empty,
        THEN conjunct2, THEN conjunct1]
    show ?thesis by (simp add: w s)
  next
    case (Inr w')
    with C5_mark_segment_completed [where L = sample_lib and tbl = "''events''" and seg = ?seg
        and n = 2 and w = "empty_world\<lparr>w_files := full_disk\<rparr>" and tables = Map.empty,
        THEN conjunct2, THEN conjunct1]
    have t: "Tables (syncState (w_state w')) = Some [''events'' \<mapsto> ?ts]"
      and fl: "files (w_files w') = [''/tmp/clickhouse_sync_state.json.tmp'' \<mapsto> '''']"
      by (simp_all add: w s f Let_def old doc)
    from t fl show ?thesis unfolding Inr by simp
  qed
  have d: "fst (saveStateUnlocked sample_lib (empty_world\<lparr>w_files := full_disk\<rparr>))
     = Some (External ''no space left on device'')"
    using C5_mark_segment_completed [where L = sample_lib and v = "empty_world\<lparr>w_files := full_disk\<rparr>",
        THEN conjunct2, THEN conjunct2]
    by (simp add: doc f)
  from a b c d show ?thesis by (intro conjI)
qed


text \<open>
  The claim as stated fails where it says that a failure to write surfaces: on a full disk
  the first run commits the two rows, marks the segment completed in memory and cannot
  write the document, which leaves an empty \<open><path>.tmp\<close> and no file at \<open><path>\<close>; and
  \<open>incrementalSync\<close>, the caller of \<open>MarkSegmentCompleted\<close>, returns no error.
\<close>

theorem C5_mark_segment_completed_counterexample:
  "write_error (w_files first_run_full_disk) (stateFile (w_state first_run_full_disk) @ ''.tmp'')
     = Some (WriteFails 0 (External ''no space left on device''))
   \<and> files (w_files first_run_full_disk) (stateFile (w_state first_run_full_disk)) = None
   \<and> files (w_files first_run_full_disk) (stateFile (w_state first_run_full_disk) @ ''.tmp'') = None
   \<and> (case incrementalSync sample_lib sample_syncer first_run_full_disk of
         None \<Rightarrow> False
       | Some (err, w') \<Rightarrow>
           err = None
           \<and> map hd (w_committed w') = [VInt 1, VInt 2]
           \<and> IsSegmentCompleted (w_state w') ''events''
                \<lparr>Start = Date_UTC 2024 1 1 8 0 0 0, End = Date_UTC 2024 1 1 9 0 1 0\<rparr>
           \<and> files (w_files w') (stateFile (w_state w')) = None
           \<and> files (w_files w') (stateFile (w_state w') @ ''.tmp'') = Some '''')"
  by code_simp

subsection \<open>The realtime window\<close>

lemma realtimeIncrementalSync_cases:
  assumes "scanNullTime (query_time (w_target w) (w_committed w)
               (maxQuery (TimeField (tableConfig s)) (tableName s))) = Inr tgt"
    and "scanNullTime (query_time (w_source w) (w_committed w)
               (maxQuery (TimeField (tableConfig s)) (tableName s))) = Inr src"
  shows "realtimeIncrementalSync L s w =
           (if \<not> validTime src (Add (w_now w) (24 * Hour)) then (None, w)
            else if \<not> validTime tgt (Add (w_now w) (24 * Hour))
              then syncWindow L s (Add (w_now w) (- (5 * Minute))) (timeOf src) w
            else if Before (timeOf src) (timeOf tgt)
              then syncWindow L s (Add (timeOf tgt) (- (5 * Minute))) (Add (timeOf src) (1 * Second))
                     (w\<lparr>w_warnings := w_warnings w @ [SourceBehindTarget (timeOf src) (timeOf tgt)]\<rparr>)
            else syncWindow L s (Add (timeOf tgt) (- (5 * Second))) (Add (timeOf src) (1 * Second)) w)"
proof -
  have same: "w\<lparr>w_warnings := w_warnings w\<rparr> = w" by simp
  show ?thesis
    using assms
    by (simp add: realtimeIncrementalSync_def realtimeWindow_def backwardWindow_def Let_def same)
qed

text \<open>
  C2, as the code has it. A probe is defined when it is not NULL and lies strictly between
  1900-01-01T00:00:00Z and the clock reading plus 24 hours. With both probes answered, the
  realtime sync returns at once, no error and the world as it was, when the source maximum
  is not defined. Otherwise it runs the count probe and the sync over a window: from
  now - 5 min to the source maximum when the target maximum is not defined; from the target
  maximum - 5 min to the source maximum + 1 s, after logging a warning, when both are
  defined and the source maximum is before the target maximum; from the target
  maximum - 5 s to the source maximum + 1 s when both are defined and the source maximum
  is not before the target maximum. Over a window, the count probe is sent to the source;
  its error is returned wrapped; on a count of zero the function returns no error and
  leaves the world as it was, so nothing is inserted; on another count the window is
  synced as one segment, and an error of that is returned wrapped.
\<close>

theorem C2_realtime_window:
  assumes "scanNullTime (query_time (w_target w) (w_committed w)
               (maxQuery (TimeField (tableConfig s)) (tableName s))) = Inr tgt"
    and "scanNullTime (query_time (w_source w) (w_committed w)
               (maxQuery (TimeField (tableConfig s)) (tableName s))) = Inr src"
  shows "realtimeIncrementalSync L s w =
           (if \<not> validTime src (Add (w_now w) (24 * Hour)) then (None, w)
            else if \<not> validTime tgt (Add (w_now w) (24 * Hour))
              then syncWindow L s (Add (w_now w) (- (5 * Minute))) (timeOf src) w
            else if Before (timeOf src) (timeOf tgt)
              then syncWindow L s (Add (timeOf tgt) (- (5 * Minute))) (Add (timeOf src) (1 * Second))
                     (w\<lparr>w_warnings := w_warnings w @ [SourceBehindTarget (timeOf src) (timeOf tgt)]\<rparr>)
            else syncWindow L s (Add (timeOf tgt) (- (5 * Second))) (Add (timeOf src) (1 * Second)) w)
       \<and> (\<forall>p limit. validTime p limit = (case p of
              None \<Rightarrow> False
            | Some t \<Rightarrow> unixNano (Date_UTC 1900 1 1 0 0 0 0) < unixNano t \<and> unixNano t < unixNano limit))
       \<and> (\<forall>t. timeOf (Some t) = t)
       \<and> (\<forall>t u. Before t u = (unixNano t < unixNano u))
       \<and> (\<forall>t d. unixNano (Add t d) = unixNano t + d \<and> loc (Add t d) = loc t)
       \<and> 5 * Minute = 300 * Second \<and> 24 * Hour = 86400 * Second \<and> Second = 1000000000
       \<and> (\<forall>a b v. syncWindow L s a b v =
             (case query_count (w_source v) (w_committed v)
                     (countQuery (TimeField (tableConfig s)) (tableName s) a b) of
                Inl err \<Rightarrow> (Some (Errorf_w ''failed to count new records'' err), v)
              | Inr n \<Rightarrow>
                  if n = 0 then (None, v)
                  else (case syncSegment L s \<lparr>Start = a, End = b\<rparr> v of
                          (recordCount, Some err, v') \<Rightarrow>
                            (Some (Errorf_w ''failed to sync new records'' err), v')
                        | (recordCount, None, v') \<Rightarrow> (None, v'))))
       \<and> (\<forall>a b v. query_count (w_source v) (w_committed v)
                    (countQuery (TimeField (tableConfig s)) (tableName s) a b) = Inr 0
           \<longrightarrow> syncWindow L s a b v = (None, v))
       \<and> (\<forall>tf tbl a b r. selects (countQuery tf tbl a b) r
             = (unixNano a \<le> unixNano (r tf) \<and> unixNano (r tf) \<le> unixNano b))"
proof -
  note a = realtimeIncrementalSync_cases [OF assms, of L]
  have b: "\<forall>p limit. validTime p limit = (case p of
              None \<Rightarrow> False
            | Some t \<Rightarrow> unixNano (Date_UTC 1900 1 1 0 0 0 0) < unixNano t \<and> unixNano t < unixNano limit)"
    using validTime_iff by blast
  have c: "\<forall>t. timeOf (Some t) = t"
    by (simp add: timeOf_def)
  have d: "\<forall>t u. Before t u = (unixNano t < unixNano u)"
    by (simp add: Before_def)
  have e: "\<forall>t d. unixNano (Add t d) = unixNano t + d \<and> loc (Add t d) = loc t"
    by (simp add: Add_def)
  have f: "5 * Minute = 300 * Second" "24 * Hour = 86400 * Second" "Second = 1000000000"
    by (simp_all add: Hour_def Minute_def Second_def)
  have g: "\<forall>a b v. syncWindow L s a b v =
             (case query_count (w_source v) (w_committed v)
                     (countQuery (TimeField (tableConfig s)) (tableName s) a b) of
                Inl err \<Rightarrow> (Some (Errorf_w ''failed to count new records'' err), v)
              | Inr n \<Rightarrow>
                  if n = 0 then (None, v)
                  else (case syncSegment L s \<lparr>Start = a, End = b\<rparr> v of
                          (recordCount, Some err, v') \<Rightarrow>
                            (Some (Errorf_w ''failed to sync new records'' err), v')
                        | (recordCount, None, v') \<Rightarrow> (None, v')))"
    by (simp add: syncWindow_eq)
  have h: "\<forall>a b v. query_count (w_source v) (w_committed v)
                    (countQuery (TimeField (tableConfig s)) (tableName s) a b) = Inr 0
           \<longrightarrow> syncWindow L s a b v = (None, v)"
    by (simp add: syncWindow_def)
  have i: "\<forall>tf tbl a b r. selects (countQuery tf tbl a b) r
             = (unixNano a \<le> unixNano (r tf) \<and> unixNano (r tf) \<le> unixNano b)"
    by (simp add: selects_def countQuery_def)
  show ?thesis
    apply (intro conjI)
    apply (rule a)
    apply (rule b)
    apply (rule c)
    apply (rule d)
    apply (rule e)
    apply (rule f(1))
    apply (rule f(2))
    apply (rule f(3))
    apply (rule g)
    apply (rule h)
    apply (rule i)
    done
qed

theorem C2_realtime_window_witness:
  "realtimeIncrementalSync sample_lib sample_syncer realtime_first
     = syncWindow sample_lib sample_syncer (Date_UTC 2024 1 2 11 56 0 0) (Date_UTC 2024 1 2 12 0 3 0)
         realtime_first
   \<and> map hd (w_committed (snd (realtimeIncrementalSync sample_lib sample_syncer realtime_first)))
     = [VInt 1]
   \<and> realtimeIncrementalSync sample_lib sample_syncer realtime_normal
     = syncWindow sample_lib sample_syncer (Date_UTC 2024 1 2 11 59 55 0) (Date_UTC 2024 1 2 12 0 4 0)
         realtime_normal
   \<and> map hd (w_committed (snd (realtimeIncrementalSync sample_lib sample_syncer realtime_normal)))
     = [VInt 2]
   \<and> realtimeIncrementalSync sample_lib sample_syncer realtime_failover
     = syncWindow sample_lib sample_syncer (Date_UTC 2024 1 2 11 55 10 0) (Date_UTC 2024 1 2 12 0 3 0)
         (realtime_failover\<lparr>w_warnings :=
            [SourceBehindTarget (Date_UTC 2024 1 2 12 0 2 0) (Date_UTC 2024 1 2 12 0 10 0)]\<rparr>)
   \<and> map hd (w_committed (snd (realtimeIncrementalSync sample_lib sample_syncer realtime_failover)))
     = [VInt 2]
   \<and> realtimeIncrementalSync sample_lib sample_syncer realtime_idle
     = (None, realtime_idle\<lparr>w_warnings :=
            [SourceBehindTarget (Date_UTC 2024 1 2 11 50 0 0) (Date_UTC 2024 1 2 12 0 10 0)]\<rparr>)"
proof -
  let ?q = "maxQuery (TimeField (tableConfig sample_syncer)) (tableName sample_syncer)"
  have nw: "w_warnings realtime_first = []" "w_warnings realtime_normal = []"
    "w_warnings realtime_failover = []" "w_warnings realtime_idle = []"
    by (simp_all add: realtime_first_def realtime_normal_def realtime_failover_def realtime_idle_def
        sample_world_def)
  have to: "timeOf (Some t) = t" for t
    by (simp add: timeOf_def)

  have a_tgt: "scanNullTime (query_time (w_target realtime_first) (w_committed realtime_first) ?q) = Inr None"
    by code_simp
  have a_src: "scanNullTime (query_time (w_source realtime_first) (w_committed realtime_first) ?q)
      = Inr (Some (Date_UTC 2024 1 2 12 0 3 0))"
    by code_simp
  have a_v: "\<not> validTime None (Add (w_now realtime_first) (24 * Hour))"
    "validTime (Some (Date_UTC 2024 1 2 12 0 3 0)) (Add (w_now realtime_first) (24 * Hour))"
    by code_simp+
  have a_t: "Add (w_now realtime_first) (- (5 * Minute)) = Date_UTC 2024 1 2 11 56 0 0"
    by code_simp
  have a: "realtimeIncrementalSync sample_lib sample_syncer realtime_first
     = syncWindow sample_lib sample_syncer (Date_UTC 2024 1 2 11 56 0 0) (Date_UTC 2024 1 2 12 0 3 0)
         realtime_first"
    unfolding C2_realtime_window [where L = sample_lib, OF a_tgt a_src, THEN conjunct1]
    by (simp only: a_v a_t to if_True if_False not_True_eq_False not_False_eq_True)
  have a': "map hd (w_committed (snd (realtimeIncrementalSync sample_lib sample_syncer realtime_first)))
     = [VInt 1]"
    by code_simp

  have b_tgt: "scanNullTime (query_time (w_target realtime_normal) (w_committed realtime_normal) ?q)
      = Inr (Some (Date_UTC 2024 1 2 12 0 0 0))"
    by code_simp
  have b_src: "scanNullTime (query_time (w_source realtime_normal) (w_committed realtime_normal) ?q)
      = Inr (Some (Date_UTC 2024 1 2 12 0 3 0))"
    by code_simp
  have b_v: "validTime (Some (Date_UTC 2024 1 2 12 0 0 0)) (Add (w_now realtime_normal) (24 * Hour))"
    "validTime (Some (Date_UTC 2024 1 2 12 0 3 0)) (Add (w_now realtime_normal) (24 * Hour))"
    "\<not> Before (Date_UTC 2024 1 2 12 0 3 0) (Date_UTC 2024 1 2 12 0 0 0)"
    by code_simp+
  have b_t: "Add (Date_UTC 2024 1 2 12 0 0 0) (- (5 * Second)) = Date_UTC 2024 1 2 11 59 55 0"
    "Add (Date_UTC 2024 1 2 12 0 3 0) (1 * Second) = Date_UTC 2024 1 2 12 0 4 0"
    by code_simp+
  have b: "realtimeIncrementalSync sample_lib sample_syncer realtime_normal
     = syncWindow sample_lib sample_syncer (Date_UTC 2024 1 2 11 59 55 0) (Date_UTC 2024 1 2 12 0 4 0)
         realtime_normal"
    unfolding C2_realtime_window [where L = sample_lib, OF b_tgt b_src, THEN conjunct1]
    by (simp only: b_v b_t to if_True if_False not_True_eq_False not_False_eq_True)
  have b': "map hd (w_committed (snd (realtimeIncrementalSync sample_lib sample_syncer realtime_normal)))
     = [VInt 2]"
    by code_simp

  have c_tgt: "scanNullTime (query_time (w_target realtime_failover) (w_committed realtime_failover) ?q)
      = Inr (Some (Date_UTC 2024 1 2 12 0 10 0))"
    by code_simp
  have c_src: "scanNullTime (query_time (w_source realtime_failover) (w_committed realtime_failover) ?q)
      = Inr (Some (Date_UTC 2024 1 2 12 0 2 0))"
    by code_simp
  have c_v: "validTime (Some (Date_UTC 2024 1 2 12 0 10 0)) (Add (w_now realtime_failover) (24 * Hour))"
    "validTime (Some (Date_UTC 2024 1 2 12 0 2 0)) (Add (w_now realtime_failover) (24 * Hour))"
    "Before (Date_UTC 2024 1 2 12 0 2 0) (Date_UTC 2024 1 2 12 0 10 0)"
    by code_simp+
  have c_t: "Add (Date_UTC 2024 1 2 12 0 10 0) (- (5 * Minute)) = Date_UTC 2024 1 2 11 55 10 0"
    "Add (Date_UTC 2024 1 2 12 0 2 0) (1 * Second) = Date_UTC 2024 1 2 12 0 3 0"
    by code_simp+
  have c: "realtimeIncrementalSync sample_lib sample_syncer realtime_failover
     = syncWindow sample_lib sample_syncer (Date_UTC 2024 1 2 11 55 10 0) (Date_UTC 2024 1 2 12 0 3 0)
         (realtime_failover\<lparr>w_warnings :=
            [SourceBehindTarget (Date_UTC 2024 1 2 12 0 2 0) (Date_UTC 2024 1 2 12 0 10 0)]\<rparr>)"
    unfolding C2_realtime_window [where L = sample_lib, OF c_tgt c_src, THEN conjunct1]
    by (simp only: c_v c_t to nw append_Nil if_True if_False not_True_eq_False not_False_eq_True)
  have c': "map hd (w_committed (snd (realtimeIncrementalSync sample_lib sample_syncer realtime_failover)))
     = [VInt 2]"
    by code_simp

  let ?idle = "realtime_idle\<lparr>w_warnings :=
            [SourceBehindTarget (Date_UTC 2024 1 2 11 50 0 0) (Date_UTC 2024 1 2 12 0 10 0)]\<rparr>"
  have d_tgt: "scanNullTime (query_time (w_target realtime_idle) (w_committed realtime_idle) ?q)
      = Inr (Some (Date_UTC 2024 1 2 12 0 10 0))"
    by code_simp
  have d_src: "scanNullTime (query_time (w_source realtime_idle) (w_committed realtime_idle) ?q)
      = Inr (Some (Date_UTC 2024 1 2 11 50 0 0))"
    by code_simp
  have d_v: "validTime (Some (Date_UTC 2024 1 2 12 0 10 0)) (Add (w_now realtime_idle) (24 * Hour))"
    "validTime (Some (Date_UTC 2024 1 2 11 50 0 0)) (Add (w_now realtime_idle) (24 * Hour))"
    "Before (Date_UTC 2024 1 2 11 50 0 0) (Date_UTC 2024 1 2 12 0 10 0)"
    by code_simp+
  have d_t: "Add (Date_UTC 2024 1 2 12 0 10 0) (- (5 * Minute)) = Date_UTC 2024 1 2 11 55 10 0"
    "Add (Date_UTC 2024 1 2 11 50 0 0) (1 * Second) = Date_UTC 2024 1 2 11 50 1 0"
    by code_simp+
  have d_n: "query_count (w_source ?idle) (w_committed ?idle)
       (countQuery (TimeField (tableConfig sample_syncer)) (tableName sample_syncer)
          (Date_UTC 2024 1 2 11 55 10 0) (Date_UTC 2024 1 2 11 50 1 0)) = Inr 0"
    by code_simp
  have d1: "realtimeIncrementalSync sample_lib sample_syncer realtime_idle
     = syncWindow sample_lib sample_syncer (Date_UTC 2024 1 2 11 55 10 0) (Date_UTC 2024 1 2 11 50 1 0) ?idle"
    unfolding C2_realtime_window [where L = sample_lib, OF d_tgt d_src, THEN conjunct1]
    by (simp only: d_v d_t to nw append_Nil if_True if_False not_True_eq_False not_False_eq_True)
  have d2: "syncWindow sample_lib sample_syncer (Date_UTC 2024 1 2 11 55 10 0) (Date_UTC 2024 1 2 11 50 1 0) ?idle
     = (None, ?idle)"
    using C2_realtime_window [where L = sample_lib, OF d_tgt d_src, THEN conjunct2, THEN conjunct2,
        THEN conjunct2, THEN conjunct2, THEN conjunct2, THEN conjunct2, THEN conjunct2,
        THEN conjunct2, THEN conjunct2, THEN conjunct1] d_n
    by blast
  have d: "realtimeIncrementalSync sample_lib sample_syncer realtime_idle = (None, ?idle)"
    unfolding d1 d2 ..
  show ?thesis
    apply (intro conjI)
    apply (rule a)
    apply (rule a')
    apply (rule b)
    apply (rule b')
    apply (rule c)
    apply (rule c')
    apply (rule d)
    done
qed

text \<open>
  The claim as stated reads defined as in the spec, 1900-01-01 \<le> t \<le> now + 24h, and fails
  at the bounds. With an empty target and a source whose latest event is of the clock
  reading plus 24 hours to the nanosecond, the claim has the source maximum defined and
  the window from now - 5 min to the source maximum, over which the count probe finds two
  rows and the sync inserts one; the code finds the source maximum not defined and
  returns at once: no window, no count probe, nothing inserted.
\<close>

theorem C2_realtime_window_counterexample:
  "scanNullTime (query_time (w_target source_a_day_ahead) (w_committed source_a_day_ahead)
       (maxQuery (TimeField (tableConfig sample_syncer)) (tableName sample_syncer))) = Inr None
   \<and> scanNullTime (query_time (w_source source_a_day_ahead) (w_committed source_a_day_ahead)
       (maxQuery (TimeField (tableConfig sample_syncer)) (tableName sample_syncer)))
     = Inr (Some (Date_UTC 2024 1 3 12 0 0 0))
   \<and> unixNano (Date_UTC 1900 1 1 0 0 0 0) \<le> unixNano (Date_UTC 2024 1 3 12 0 0 0)
   \<and> unixNano (Date_UTC 2024 1 3 12 0 0 0) \<le> unixNano (Add (w_now source_a_day_ahead) (24 * Hour))
   \<and> fst (realtimeIncrementalSync sample_lib sample_syncer source_a_day_ahead) = None
   \<and> w_committed (snd (realtimeIncrementalSync sample_lib sample_syncer source_a_day_ahead)) = []
   \<and> query_count (w_source source_a_day_ahead) (w_committed source_a_day_ahead)
        (countQuery (TimeField (tableConfig sample_syncer)) (tableName sample_syncer)
           (Add (w_now source_a_day_ahead) (- (5 * Minute))) (Date_UTC 2024 1 3 12 0 0 0))
     = Inr 2
   \<and> fst (syncWindow sample_lib sample_syncer
        (Add (w_now source_a_day_ahead) (- (5 * Minute))) (Date_UTC 2024 1 3 12 0 0 0)
        source_a_day_ahead) = None
   \<and> map hd (w_committed (snd (syncWindow sample_lib sample_syncer
        (Add (w_now source_a_day_ahead) (- (5 * Minute))) (Date_UTC 2024 1 3 12 0 0 0)
        source_a_day_ahead))) = [VInt 1]"
  by code_simp


end
